(* ===== verification/Prelude.thy ===== *)
theory Prelude
  imports Complex_Main "HOL-Library.Word"
begin

text \<open>
  Shared vocabulary of the development: the named collections that the stage
  evaluations use, Python's list indexing with its IndexError, Python string
  literals written as byte strings (the UTF-8 encodings of the few non-ASCII
  characters of the script), and generic lemmas on lists shared by the scene
  and stage theories.
\<close>

named_theorems mob_defs "definitions of the scene objects built by the animation script"
named_theorems stage_defs "definitions of the stage methods of the animation script"

type_synonym point = "rat \<times> rat"

subsection \<open>Python errors and indexing\<close>

datatype py_error = IndexError

text \<open>\<open>xs[i]\<close> on a Python list: negative indices count from the end.\<close>

definition py_index :: "'a list \<Rightarrow> int \<Rightarrow> py_error + 'a" where
  "py_index xs i =
     (let pos = (if 0 \<le> i then i else i + int (length xs))
      in if pos < 0 \<or> int (length xs) \<le> pos then Inl IndexError else Inr (xs ! nat pos))"

text \<open>A statement that may raise: the exception propagates and ends the run.\<close>

definition res_bind :: "py_error + 'a \<Rightarrow> ('a \<Rightarrow> py_error + 'b) \<Rightarrow> py_error + 'b" where
  "res_bind r f = (case r of Inl e \<Rightarrow> Inl e | Inr a \<Rightarrow> f a)"

subsection \<open>Python strings\<close>

text \<open>
  A Python \<open>str\<close> literal is modelled by its UTF-8 byte string. The characters
  the script uses beyond ASCII are named here; \<open>py_lines\<close> is a literal whose
  lines are separated by \<open>\n\<close> (Python's implicit concatenation of adjacent
  literals \<open>"a\n" "b"\<close>).
\<close>

definition nl :: string where "nl = [CHR 0x0A]"
definition u_times :: string where "u_times = [CHR 0xC3, CHR 0x97]"
definition u_geq :: string where "u_geq = [CHR 0xE2, CHR 0x89, CHR 0xA5]"
definition u_micro :: string where "u_micro = [CHR 0xCE, CHR 0xBC]"
definition u_check :: string where "u_check = [CHR 0xE2, CHR 0x9C, CHR 0x93]"
definition u_bullet :: string where "u_bullet = [CHR 0xE2, CHR 0x80, CHR 0xA2]"
definition u_gear :: string where "u_gear = [CHR 0xE2, CHR 0x9A, CHR 0x99]"

fun py_lines :: "string list \<Rightarrow> string" where
  "py_lines [] = []"
| "py_lines [l] = l"
| "py_lines (l # ls) = l @ nl @ py_lines ls"

text \<open>\<open>str(n)\<close> (and an f-string \<open>f"{n}"\<close>) of a non-negative Python int.\<close>

text \<open>Digits: the character of a digit value (bases up to 36, upper case as in
  hexadecimal literals), and a fixed number of digits of a value, most
  significant first, with leading zeros.\<close>

definition digit_alphabet :: string where
  "digit_alphabet = ''0123456789ABCDEFGHIJKLMNOPQRSTUVWXYZ''"

definition digit_char :: "nat \<Rightarrow> char" where
  "digit_char d = digit_alphabet ! d"

fun digits_fixed :: "nat \<Rightarrow> nat \<Rightarrow> nat \<Rightarrow> string" where
  "digits_fixed b 0 v = []"
| "digits_fixed b (Suc n) v = digits_fixed b n (v div b) @ [digit_char (v mod b)]"

text \<open>\<open>f"{n}"\<close> for a natural number.\<close>

fun py_str_nat :: "nat \<Rightarrow> string" where
  "py_str_nat n = (if n < 10 then [digit_char n] else py_str_nat (n div 10) @ [digit_char (n mod 10)])"

text \<open>\<open>s.split('\n')\<close>: the lines of a string; the inverse of \<open>py_lines\<close>.\<close>

fun py_split_nl :: "string \<Rightarrow> string list" where
  "py_split_nl [] = [[]]"
| "py_split_nl (c # cs) =
     (let r = py_split_nl cs in if c = CHR 0x0A then [] # r else (c # hd r) # tl r)"

subsection \<open>Lists\<close>

lemma py_index_nonneg [simp]:
  "0 \<le> i \<Longrightarrow> py_index xs i = (if i < int (length xs) then Inr (xs ! nat i) else Inl IndexError)"
  by (simp add: py_index_def)

lemma res_bind_Inl [simp]: "res_bind (Inl e) f = Inl e"
  by (simp add: res_bind_def)

lemma res_bind_Inr [simp]: "res_bind (Inr a) f = f a"
  by (simp add: res_bind_def)

lemma distinct_concat_map_Cons:
  "distinct (concat (map f (x # xs))) \<longleftrightarrow>
     distinct (f x) \<and> distinct (concat (map f xs)) \<and> set (f x) \<inter> set (concat (map f xs)) = {}"
  by simp

lemma filter_nonempty_iff: "filter P xs \<noteq> [] \<longleftrightarrow> (\<exists>x\<in>set xs. P x)"
  by (induction xs) auto

lemma res_bind_Inr_iff: "res_bind r f = Inr y \<longleftrightarrow> (\<exists>x. r = Inr x \<and> f x = Inr y)"
  by (cases r) (simp_all add: res_bind_def)

lemma digits_fixed_numeral [simp]:
  "digits_fixed b (numeral k) v = digits_fixed b (pred_numeral k) (v div b) @ [digit_char (v mod b)]"
  by (simp add: numeral_eq_Suc)

lemma length_digits_fixed [simp]: "length (digits_fixed b n v) = n"
  by (induction n arbitrary: v) simp_all

lemma py_split_nl_nonempty [simp]: "py_split_nl s \<noteq> []"
  by (induction s) (simp_all add: Let_def)

lemma py_split_nl_append:
  "CHR 0x0A \<notin> set l \<Longrightarrow> py_split_nl (l @ r) = (l @ hd (py_split_nl r)) # tl (py_split_nl r)"
  by (induction l) (auto simp: Let_def)

lemma py_split_nl_lines:
  "ls \<noteq> [] \<Longrightarrow> (\<forall>l\<in>set ls. CHR 0x0A \<notin> set l) \<Longrightarrow> py_split_nl (py_lines ls) = ls"
proof (induction ls rule: py_lines.induct)
  case (2 l)
  then show ?case
    using py_split_nl_append [of l "[]"] by simp
next
  case (3 l l' ls)
  then show ?case
    using py_split_nl_append [of l "nl @ py_lines (l' # ls)"] by (simp add: nl_def Let_def)
qed simp

lemma map_pair_zip: "map (\<lambda>x. f (g x) (h x)) xs = map (\<lambda>(a, b). f a b) (zip (map g xs) (map h xs))"
  by (induction xs) auto

lemma map_nth_eq: "map f xs = ys \<Longrightarrow> j < length ys \<Longrightarrow> f (xs ! j) = ys ! j"
  by (metis length_map nth_map)

end
