(* ===== verification/Mobject.thy ===== *)
theory Mobject
  imports Prelude
begin

text \<open>
  The drawable objects of the external animation library (Manim's \<open>Mobject\<close>
  hierarchy) as far as the script relies on them: every object has an identity
  (Python's \<open>id\<close>; the library compares objects by identity, never by
  value), a kind with the attributes the script reads (\<open>Text\<close> carries its
  \<open>font_size\<close> and its string, \<open>Rectangle\<close> its width and height) and the
  list of its submobjects. A \<open>VGroup(a, b, c)\<close> is a node whose submobjects
  are \<open>a, b, c\<close>; a \<open>Text\<close> is a leaf, since its glyph submobjects are never
  referenced by the script. \<open>family\<close> is Manim's \<open>get_family\<close>: the object
  followed by the families of its submobjects.
\<close>

datatype kind =
    Text (font_size: nat) (text_str: string)
  | VGroup
  | Rectangle rat rat
  | Arrow
  | Dot

datatype mob = Mob (mob_id: nat) (mob_kind: kind) (submobjects: "mob list")

fun family :: "mob \<Rightarrow> mob list" where
  "family (Mob i k cs) = Mob i k cs # concat (map family cs)"

text \<open>\<open>obj.get_center()\<close>: the layout of the script fixes where every object is.\<close>

type_synonym geometry = "mob \<Rightarrow> point"

definition family_members :: "mob list \<Rightarrow> mob list" where
  "family_members ms = concat (map family ms)"

definition ids :: "mob list \<Rightarrow> nat list" where
  "ids ms = map mob_id ms"

text \<open>A tree in which no object occurs twice.\<close>

definition mob_wf :: "mob \<Rightarrow> bool" where
  "mob_wf m \<longleftrightarrow> distinct (ids (family m))"

subsection \<open>The attributes the cleanup heuristics read\<close>

text \<open>\<open>isinstance(obj, VGroup)\<close>, \<open>len(obj)\<close>, and \<open>hasattr(obj, 'font_size')\<close>
  together with \<open>getattr(obj, 'font_size', 0)\<close>: only \<open>Text\<close> has the attribute.\<close>

definition is_vgroup :: "mob \<Rightarrow> bool" where
  "is_vgroup m \<longleftrightarrow> mob_kind m = VGroup"

definition py_len :: "mob \<Rightarrow> nat" where
  "py_len m = length (submobjects m)"

definition font_size_attr :: "mob \<Rightarrow> nat option" where
  "font_size_attr m = (case mob_kind m of Text fs _ \<Rightarrow> Some fs | _ \<Rightarrow> None)"

definition text_of :: "mob \<Rightarrow> string option" where
  "text_of m = (case mob_kind m of Text _ t \<Rightarrow> Some t | _ \<Rightarrow> None)"

text \<open>
  \<open>obj[i]\<close>: Manim's \<open>__getitem__\<close> indexes \<open>split()\<close>, which is the object itself
  when it has points of its own, followed by its submobjects. A \<open>VGroup\<close> has
  no points of its own. This is faithful for the kinds the script indexes
  (\<open>VGroup\<close>s only); for a \<open>Text\<close> (whose glyphs are its submobjects in
  Manim) and an \<open>Arrow\<close> (whose tip is one) the model's \<open>split\<close> differs,
  and no lemma relies on indexing such an object.
\<close>

definition has_points :: "mob \<Rightarrow> bool" where
  "has_points m \<longleftrightarrow> mob_kind m \<noteq> VGroup"

definition mob_split :: "mob \<Rightarrow> mob list" where
  "mob_split m = (if has_points m then [m] else []) @ submobjects m"

definition getitem :: "mob \<Rightarrow> int \<Rightarrow> py_error + mob" where
  "getitem m i = py_index (mob_split m) i"

subsection \<open>Families\<close>

lemma family_hd [simp]: "hd (family m) = m"
  by (cases m) simp

lemma self_in_family [simp, intro]: "m \<in> set (family m)"
  by (cases m) simp

lemma family_Cons: "family m = m # family_members (submobjects m)"
  by (cases m) (simp add: family_members_def)

lemma family_members_Nil [simp]: "family_members [] = []"
  by (simp add: family_members_def)

lemma family_members_Cons [simp]: "family_members (m # ms) = family m @ family_members ms"
  by (simp add: family_members_def)

lemma family_members_append [simp]:
  "family_members (ms @ ns) = family_members ms @ family_members ns"
  by (simp add: family_members_def)

lemma ids_append [simp]: "ids (xs @ ys) = ids xs @ ids ys"
  by (simp add: ids_def)

lemma ids_Cons [simp]: "ids (x # xs) = mob_id x # ids xs"
  by (simp add: ids_def)

lemma ids_Nil [simp]: "ids [] = []"
  by (simp add: ids_def)

lemma set_ids: "set (ids xs) = mob_id ` set xs"
  by (simp add: ids_def)

lemma family_trans:
  "y \<in> set (family x) \<Longrightarrow> x \<in> set (family m) \<Longrightarrow> y \<in> set (family m)"
proof (induction m)
  case (Mob i k cs)
  show ?case
  proof (cases "x = Mob i k cs")
    case True
    with Mob.prems show ?thesis by simp
  next
    case False
    with Mob.prems obtain c where "c \<in> set cs" "x \<in> set (family c)"
      by auto
    with Mob.IH Mob.prems(1) show ?thesis by auto
  qed
qed

lemma sub_family_subset:
  "c \<in> set (submobjects m) \<Longrightarrow> set (family c) \<subseteq> set (family m)"
  by (cases m) auto

lemma family_members_sub_subset:
  "set (family_members (submobjects m)) \<subseteq> set (family m)"
  by (cases m) (auto simp: family_members_def)

lemma mob_split_family: "set (mob_split m) \<subseteq> set (family m)"
  by (cases m) (auto simp: mob_split_def)

end
