(* ===== verification/Scene.thy ===== *)
theory Scene
  imports Mobject
begin

text \<open>
  The scene of the animation library (Manim's \<open>Scene\<close>, Cairo renderer) as the
  script drives it: the ordered list \<open>self.mobjects\<close> of top-level objects, the
  stroke widths set by \<open>set_stroke\<close>, the strings shown by text objects after a
  \<open>Transform\<close>, and the clock of the rendered video. The operations are
  \<open>add\<close>, \<open>remove\<close>, \<open>clear\<close>, \<open>wait\<close> and \<open>play\<close>, with the library's
  \<open>restructure_mobjects\<close>: removing an object that is a part of a group on the
  scene splits that group into its remaining parts.
\<close>

record scene =
  mobjects :: "mob list"
  strokes :: "nat \<Rightarrow> rat option"
  shown :: "nat \<Rightarrow> string option"
  time :: rat

definition init_scene :: scene where
  "init_scene = \<lparr>mobjects = [], strokes = (\<lambda>_. None), shown = (\<lambda>_. None), time = 0\<rparr>"

abbreviation scene_family :: "scene \<Rightarrow> mob list" where
  "scene_family s \<equiv> family_members (mobjects s)"

subsection \<open>Restructuring the top-level list\<close>

text \<open>
  \<open>Scene.get_restructured_mobject_list\<close>: a top-level object whose identity is
  to be removed is dropped; one whose family meets the removed identities is
  replaced by the restructured list of its submobjects (recursively, with the
  intersection); any other object is kept.
\<close>

function restructure :: "nat list \<Rightarrow> mob list \<Rightarrow> mob list" where
  "restructure rm [] = []"
| "restructure rm (m # ms) =
     (if mob_id m \<in> set rm then restructure rm ms
      else if filter (\<lambda>i. i \<in> set (ids (family m))) rm \<noteq> []
      then restructure (filter (\<lambda>i. i \<in> set (ids (family m))) rm) (submobjects m) @ restructure rm ms
      else m # restructure rm ms)"
  by pat_completeness auto
termination
proof (relation "measure (\<lambda>(rm, ms). size_list size ms)")
  fix rm m ms
  show "((filter (\<lambda>i. i \<in> set (ids (family m))) rm, submobjects m), rm, m # ms)
          \<in> measure (\<lambda>(rm, ms). size_list size ms)"
    by (cases m) simp
qed auto

text \<open>\<open>Scene.add\<close> and \<open>Scene.remove\<close> on the list of top-level objects:
  \<open>add\<close> restructures away the whole families of the new objects and appends
  them; \<open>remove\<close> restructures away the given identities only.\<close>

definition add_mobs :: "mob list \<Rightarrow> mob list \<Rightarrow> mob list" where
  "add_mobs ms L = restructure (ids (family_members ms)) L @ ms"

definition remove_mobs :: "mob list \<Rightarrow> mob list \<Rightarrow> mob list" where
  "remove_mobs ms L = restructure (ids ms) L"

definition scene_add :: "mob list \<Rightarrow> scene \<Rightarrow> scene" where
  "scene_add ms s = s\<lparr>mobjects := add_mobs ms (mobjects s)\<rparr>"

definition scene_remove :: "mob list \<Rightarrow> scene \<Rightarrow> scene" where
  "scene_remove ms s = s\<lparr>mobjects := remove_mobs ms (mobjects s)\<rparr>"

definition scene_clear :: "scene \<Rightarrow> scene" where
  "scene_clear s = s\<lparr>mobjects := []\<rparr>"

text \<open>\<open>Scene.wait(d)\<close> advances the clock. Manim implements it as the play of a
  \<open>Wait\<close> animation whose placeholder is an empty \<open>Mobject()\<close> without points;
  depending on the library version the placeholder may be appended to
  \<open>self.mobjects\<close>. It is never drawn, never indexed and no group contains it,
  so it does not change how any other object is added, removed or
  restructured; the clean-ups treat it as a leaf at the origin without a
  font size (line 804 and line 1027 drop it, the others keep it). The model
  leaves it out: its visible lists are Manim's with such placeholders
  filtered out, and in a version that keeps them the final list of
  \<open>construct\<close> has, besides the objects of the claims, the placeholders of
  the final stage's three waits.\<close>

definition scene_wait :: "rat \<Rightarrow> scene \<Rightarrow> scene" where
  "scene_wait d s = s\<lparr>time := time s + d\<rparr>"

subsection \<open>Animations and play\<close>

text \<open>
  The animations the script plays. \<open>Set_stroke m w\<close> is
  \<open>m.animate.set_stroke(..., width=w)\<close>; colour and opacity are not modelled.
  \<open>FadeIn\<close>, \<open>Write\<close>, \<open>GrowFromCenter\<close> and \<open>GrowArrow\<close> are introducers
  (they add their object when it starts), \<open>FadeOut\<close> is a remover (it removes
  its object when it ends); the others only change their object.
\<close>

datatype anim =
    FadeIn mob
  | FadeOut mob
  | Write mob
  | GrowFromCenter mob
  | GrowArrow mob
  | MoveAlongPath mob mob
  | Rotate mob
  | Transform mob mob
  | Set_stroke mob rat

primrec anim_mob :: "anim \<Rightarrow> mob" where
  "anim_mob (FadeIn m) = m"
| "anim_mob (FadeOut m) = m"
| "anim_mob (Write m) = m"
| "anim_mob (GrowFromCenter m) = m"
| "anim_mob (GrowArrow m) = m"
| "anim_mob (MoveAlongPath m p) = m"
| "anim_mob (Rotate m) = m"
| "anim_mob (Transform m t) = m"
| "anim_mob (Set_stroke m w) = m"

primrec is_introducer :: "anim \<Rightarrow> bool" where
  "is_introducer (FadeIn m) = True"
| "is_introducer (FadeOut m) = False"
| "is_introducer (Write m) = True"
| "is_introducer (GrowFromCenter m) = True"
| "is_introducer (GrowArrow m) = True"
| "is_introducer (MoveAlongPath m p) = False"
| "is_introducer (Rotate m) = False"
| "is_introducer (Transform m t) = False"
| "is_introducer (Set_stroke m w) = False"

primrec is_remover :: "anim \<Rightarrow> bool" where
  "is_remover (FadeIn m) = False"
| "is_remover (FadeOut m) = True"
| "is_remover (Write m) = False"
| "is_remover (GrowFromCenter m) = False"
| "is_remover (GrowArrow m) = False"
| "is_remover (MoveAlongPath m p) = False"
| "is_remover (Rotate m) = False"
| "is_remover (Transform m t) = False"
| "is_remover (Set_stroke m w) = False"

text \<open>The string a text object shows: its own, or the one a \<open>Transform\<close> gave it.\<close>

definition shows_text :: "(nat \<Rightarrow> string option) \<Rightarrow> mob \<Rightarrow> string option" where
  "shows_text sh m = (case sh (mob_id m) of Some t \<Rightarrow> Some t | None \<Rightarrow> text_of m)"

definition displayed :: "scene \<Rightarrow> mob \<Rightarrow> string option" where
  "displayed s m = shows_text (shown s) m"

text \<open>
  \<open>Scene.add_mobjects_from_animations\<close>: an object animated by a non-introducer
  that is not among the family members of the scene is added; \<open>seen\<close> is the
  list \<open>curr_mobjects\<close> the library extends with the added family.
\<close>

fun add_from_anims :: "nat list \<Rightarrow> anim list \<Rightarrow> mob list \<Rightarrow> mob list" where
  "add_from_anims seen [] L = L"
| "add_from_anims seen (a # as) L =
     (if is_introducer a then add_from_anims seen as L
      else if mob_id (anim_mob a) \<notin> set seen
      then add_from_anims (seen @ ids (family (anim_mob a))) as (add_mobs [anim_mob a] L)
      else add_from_anims seen as L)"

text \<open>\<open>Animation._setup_scene\<close>: an introducer adds its object unless it is
  already a family member of the scene.\<close>

definition setup_anim :: "anim \<Rightarrow> mob list \<Rightarrow> mob list" where
  "setup_anim a L =
     (if is_introducer a \<and> mob_id (anim_mob a) \<notin> set (ids (family_members L))
      then add_mobs [anim_mob a] L else L)"

text \<open>\<open>Animation.finish\<close>: \<open>set_stroke\<close> acts on the whole family; a
  \<open>Transform\<close> leaves its object looking like the target.\<close>

primrec anim_shown :: "anim \<Rightarrow> (nat \<Rightarrow> string option) \<Rightarrow> (nat \<Rightarrow> string option)" where
  "anim_shown (FadeIn m) sh = sh"
| "anim_shown (FadeOut m) sh = sh"
| "anim_shown (Write m) sh = sh"
| "anim_shown (GrowFromCenter m) sh = sh"
| "anim_shown (GrowArrow m) sh = sh"
| "anim_shown (MoveAlongPath m p) sh = sh"
| "anim_shown (Rotate m) sh = sh"
| "anim_shown (Transform m t) sh = sh(mob_id m := shows_text sh t)"
| "anim_shown (Set_stroke m w) sh = sh"

primrec anim_strokes :: "anim \<Rightarrow> (nat \<Rightarrow> rat option) \<Rightarrow> (nat \<Rightarrow> rat option)" where
  "anim_strokes (FadeIn m) st = st"
| "anim_strokes (FadeOut m) st = st"
| "anim_strokes (Write m) st = st"
| "anim_strokes (GrowFromCenter m) st = st"
| "anim_strokes (GrowArrow m) st = st"
| "anim_strokes (MoveAlongPath m p) st = st"
| "anim_strokes (Rotate m) st = st"
| "anim_strokes (Transform m t) st = st(mob_id m := st (mob_id t))"
| "anim_strokes (Set_stroke m w) st = (\<lambda>i. if i \<in> set (ids (family m)) then Some w else st i)"

definition finish_anim :: "anim \<Rightarrow> scene \<Rightarrow> scene" where
  "finish_anim a s = s\<lparr>shown := anim_shown a (shown s), strokes := anim_strokes a (strokes s)\<rparr>"

text \<open>\<open>Animation.clean_up_from_scene\<close>: a remover removes its object.\<close>

definition cleanup_anim :: "anim \<Rightarrow> scene \<Rightarrow> scene" where
  "cleanup_anim a s = (if is_remover a then scene_remove [anim_mob a] s else s)"

text \<open>
  \<open>Scene.play(*anims, run_time=t)\<close>: add the animated objects, set every
  animation up in order, advance the clock by \<open>t\<close>, then finish and clean up
  each animation in order.
\<close>

definition play :: "anim list \<Rightarrow> rat \<Rightarrow> scene \<Rightarrow> scene" where
  "play as t s =
     (let L = fold setup_anim as (add_from_anims (ids (scene_family s)) as (mobjects s))
      in fold (\<lambda>a. cleanup_anim a \<circ> finish_anim a) as (s\<lparr>mobjects := L, time := time s + t\<rparr>))"

subsection \<open>Scripts\<close>

text \<open>One call of the script on \<open>self\<close>; a stage method is a list of them.\<close>

datatype scene_op =
    Play "anim list" rat
  | Wait rat
  | Add "mob list"
  | Remove "mob list"
  | Clear

primrec exec_op :: "scene_op \<Rightarrow> scene \<Rightarrow> scene" where
  "exec_op (Play as t) = play as t"
| "exec_op (Wait t) = scene_wait t"
| "exec_op (Add ms) = scene_add ms"
| "exec_op (Remove ms) = scene_remove ms"
| "exec_op Clear = scene_clear"

definition run :: "scene_op list \<Rightarrow> scene \<Rightarrow> scene" where
  "run ops s = fold exec_op ops s"

subsection \<open>The visible list and the clock of a script\<close>

text \<open>
  The fields of the scene evolve independently: which objects are visible
  depends only on the visible list before, the clock only on the durations.
  \<open>op_mobs\<close> and \<open>op_time\<close> are these two projections of one call.
\<close>

definition cleanup_mobs :: "anim \<Rightarrow> mob list \<Rightarrow> mob list" where
  "cleanup_mobs a L = (if is_remover a then remove_mobs [anim_mob a] L else L)"

primrec op_mobs :: "scene_op \<Rightarrow> mob list \<Rightarrow> mob list" where
  "op_mobs (Play as t) L =
     fold cleanup_mobs as (fold setup_anim as (add_from_anims (ids (family_members L)) as L))"
| "op_mobs (Wait t) L = L"
| "op_mobs (Add ms) L = add_mobs ms L"
| "op_mobs (Remove ms) L = remove_mobs ms L"
| "op_mobs Clear L = []"

primrec op_shown :: "scene_op \<Rightarrow> (nat \<Rightarrow> string option) \<Rightarrow> (nat \<Rightarrow> string option)" where
  "op_shown (Play as t) sh = fold anim_shown as sh"
| "op_shown (Wait t) sh = sh"
| "op_shown (Add ms) sh = sh"
| "op_shown (Remove ms) sh = sh"
| "op_shown Clear sh = sh"

primrec op_strokes :: "scene_op \<Rightarrow> (nat \<Rightarrow> rat option) \<Rightarrow> (nat \<Rightarrow> rat option)" where
  "op_strokes (Play as t) st = fold anim_strokes as st"
| "op_strokes (Wait t) st = st"
| "op_strokes (Add ms) st = st"
| "op_strokes (Remove ms) st = st"
| "op_strokes Clear st = st"

primrec op_time :: "scene_op \<Rightarrow> rat" where
  "op_time (Play as t) = t"
| "op_time (Wait t) = t"
| "op_time (Add ms) = 0"
| "op_time (Remove ms) = 0"
| "op_time Clear = 0"

subsection \<open>Well-formed scenes\<close>

text \<open>No object is on the scene twice, neither at top level nor inside a group.\<close>

definition mobs_wf :: "mob list \<Rightarrow> bool" where
  "mobs_wf L \<longleftrightarrow> distinct (ids (family_members L))"

definition scene_wf :: "scene \<Rightarrow> bool" where
  "scene_wf s \<longleftrightarrow> mobs_wf (mobjects s)"

text \<open>The objects an operation hands to the library are well-formed trees, and
  the objects of one \<open>add\<close> call do not overlap.\<close>

primrec op_wf :: "scene_op \<Rightarrow> bool" where
  "op_wf (Play as t) = (\<forall>a\<in>set as. mob_wf (anim_mob a))"
| "op_wf (Wait t) = True"
| "op_wf (Add ms) = distinct (ids (family_members ms))"
| "op_wf (Remove ms) = True"
| "op_wf Clear = True"

subsection \<open>What removal promises\<close>

text \<open>
  The contract of \<open>remove\<close>: a family member of the list survives exactly when
  neither an enclosing group, nor the object itself, nor one of its parts is
  among the removed identities.
\<close>

definition no_removed_above :: "nat list \<Rightarrow> mob list \<Rightarrow> mob \<Rightarrow> bool" where
  "no_removed_above rm L x \<longleftrightarrow>
     (\<forall>a\<in>set (family_members L). x \<in> set (family a) \<longrightarrow> mob_id a \<notin> set rm)"

definition no_removed_below :: "nat list \<Rightarrow> mob \<Rightarrow> bool" where
  "no_removed_below rm x \<longleftrightarrow> (\<forall>d\<in>set (family x). mob_id d \<notin> set rm)"

definition survives :: "nat list \<Rightarrow> mob list \<Rightarrow> mob \<Rightarrow> bool" where
  "survives rm L x \<longleftrightarrow>
     x \<in> set (family_members L) \<and> no_removed_above rm L x \<and> no_removed_below rm x"

subsection \<open>Objects new to a scene\<close>

text \<open>The objects a stage constructs are new Python objects: no identity of
  their families occurs among the family members already on screen.\<close>

definition fresh_for :: "mob list \<Rightarrow> mob list \<Rightarrow> bool" where
  "fresh_for ms L \<longleftrightarrow> set (ids (family_members ms)) \<inter> set (ids (family_members L)) = {}"

subsection \<open>Restructuring keeps, splits or drops objects, never duplicates them\<close>

lemma restructure_subset:
  "set (family_members (restructure rm ms)) \<subseteq> set (family_members ms)"
proof (induction rm ms rule: restructure.induct)
  case (1 rm)
  then show ?case by simp
next
  case (2 rm m ms)
  have "set (family_members (submobjects m)) \<subseteq> set (family m)"
    by (rule family_members_sub_subset)
  with 2 show ?case by (simp; blast)
qed

lemma ids_restructure_subset:
  "set (ids (family_members (restructure rm ms))) \<subseteq> set (ids (family_members ms))"
  using restructure_subset by (auto simp: set_ids)

lemma restructure_removed:
  "x \<in> set (family_members (restructure rm ms)) \<Longrightarrow> mob_id x \<notin> set rm"
proof (induction rm ms rule: restructure.induct)
  case (1 rm)
  then show ?case by simp
next
  case (2 rm m ms)
  show ?case
  proof (cases "mob_id m \<in> set rm")
    case True
    with 2 show ?thesis by simp
  next
    case notin: False
    show ?thesis
    proof (cases "filter (\<lambda>i. i \<in> set (ids (family m))) rm \<noteq> []")
      case True
      with notin "2.prems" consider
          "x \<in> set (family_members (restructure (filter (\<lambda>i. i \<in> set (ids (family m))) rm) (submobjects m)))"
        | "x \<in> set (family_members (restructure rm ms))"
        by auto
      then show ?thesis
      proof cases
        case 1
        then have "mob_id x \<notin> set (filter (\<lambda>i. i \<in> set (ids (family m))) rm)"
          using "2.IH"(2) notin True by blast
        moreover from 1 have "x \<in> set (family m)"
          using restructure_subset family_members_sub_subset by blast
        ultimately show ?thesis by (auto simp: set_ids)
      next
        case 2
        with "2.IH"(3) notin True show ?thesis by blast
      qed
    next
      case False
      with notin "2.prems" "2.IH"(4) show ?thesis
        by (auto simp: filter_empty_conv set_ids)
    qed
  qed
qed

lemma distinct_ids_family_sub:
  "distinct (ids (family m)) \<Longrightarrow> distinct (ids (family_members (submobjects m)))"
  by (simp add: family_Cons [of m])

lemma restructure_distinct:
  "distinct (ids (family_members ms)) \<Longrightarrow> distinct (ids (family_members (restructure rm ms)))"
proof (induction rm ms rule: restructure.induct)
  case (1 rm)
  then show ?case by simp
next
  case (2 rm m ms)
  let ?hit = "filter (\<lambda>i. i \<in> set (ids (family m))) rm"
  from "2.prems" have dm: "distinct (ids (family m))"
    and dms: "distinct (ids (family_members ms))"
    and disj: "set (ids (family m)) \<inter> set (ids (family_members ms)) = {}"
    by auto
  have sub: "set (ids (family_members (restructure ?hit (submobjects m)))) \<subseteq> set (ids (family m))"
    using ids_restructure_subset [of ?hit "submobjects m"] family_members_sub_subset [of m]
    by (auto simp: set_ids)
  have rest: "set (ids (family_members (restructure rm ms))) \<subseteq> set (ids (family_members ms))"
    by (rule ids_restructure_subset)
  show ?case
  proof (cases "mob_id m \<in> set rm")
    case True
    with "2.IH"(1) dms show ?thesis by simp
  next
    case notin: False
    show ?thesis
    proof (cases "?hit \<noteq> []")
      case True
      have "distinct (ids (family_members (restructure ?hit (submobjects m))))"
        using "2.IH"(2) notin True distinct_ids_family_sub [OF dm] by blast
      moreover have "distinct (ids (family_members (restructure rm ms)))"
        using "2.IH"(3) notin True dms by blast
      ultimately show ?thesis
        using notin True sub rest disj by auto
    next
      case False
      have "distinct (ids (family_members (restructure rm ms)))"
        using "2.IH"(4) notin False dms by blast
      then show ?thesis
        using notin False dm rest disj by auto
    qed
  qed
qed

lemma add_mobs_wf:
  assumes "mobs_wf L" and "distinct (ids (family_members ms))"
  shows "mobs_wf (add_mobs ms L)"
proof -
  let ?r = "restructure (ids (family_members ms)) L"
  have "distinct (ids (family_members ?r))"
    using assms(1) restructure_distinct by (simp add: mobs_wf_def)
  moreover have "set (ids (family_members ?r)) \<inter> set (ids (family_members ms)) = {}"
    using restructure_removed by (fastforce simp: set_ids)
  ultimately show ?thesis
    using assms(2) by (simp add: mobs_wf_def add_mobs_def)
qed

lemma remove_mobs_wf: "mobs_wf L \<Longrightarrow> mobs_wf (remove_mobs ms L)"
  by (simp add: mobs_wf_def remove_mobs_def restructure_distinct)

lemma add_single_wf: "mobs_wf L \<Longrightarrow> mob_wf m \<Longrightarrow> mobs_wf (add_mobs [m] L)"
  by (rule add_mobs_wf) (simp_all add: mob_wf_def)

lemma add_from_anims_wf:
  "mobs_wf L \<Longrightarrow> \<forall>a\<in>set as. mob_wf (anim_mob a) \<Longrightarrow> mobs_wf (add_from_anims seen as L)"
  by (induction seen as L rule: add_from_anims.induct) (simp add: add_single_wf)+

lemma fold_setup_wf:
  "mobs_wf L \<Longrightarrow> \<forall>a\<in>set as. mob_wf (anim_mob a) \<Longrightarrow> mobs_wf (fold setup_anim as L)"
  by (induction as arbitrary: L) (simp_all add: setup_anim_def add_single_wf)

lemma fold_cleanup_wf: "mobs_wf L \<Longrightarrow> mobs_wf (fold cleanup_mobs as L)"
  by (induction as arbitrary: L) (simp_all add: cleanup_mobs_def remove_mobs_wf)

lemma op_mobs_wf: "mobs_wf L \<Longrightarrow> op_wf op \<Longrightarrow> mobs_wf (op_mobs op L)"
  by (cases op)
     (simp_all add: add_from_anims_wf fold_setup_wf fold_cleanup_wf add_mobs_wf remove_mobs_wf,
      simp add: mobs_wf_def)

subsection \<open>A run computes its visible list and its clock by the projections\<close>

lemma finish_anim_mobjects [simp]: "mobjects (finish_anim a s) = mobjects s"
  by (simp add: finish_anim_def)

lemma finish_anim_time [simp]: "time (finish_anim a s) = time s"
  by (simp add: finish_anim_def)

lemma cleanup_anim_mobjects: "mobjects (cleanup_anim a s) = cleanup_mobs a (mobjects s)"
  by (simp add: cleanup_anim_def cleanup_mobs_def scene_remove_def)

lemma cleanup_anim_time [simp]: "time (cleanup_anim a s) = time s"
  by (simp add: cleanup_anim_def scene_remove_def)

lemma cleanup_anim_shown [simp]: "shown (cleanup_anim a s) = shown s"
  by (simp add: cleanup_anim_def scene_remove_def)

lemma cleanup_anim_strokes [simp]: "strokes (cleanup_anim a s) = strokes s"
  by (simp add: cleanup_anim_def scene_remove_def)

lemma fold_finish_cleanup:
  "mobjects (fold (\<lambda>a. cleanup_anim a \<circ> finish_anim a) as s) = fold cleanup_mobs as (mobjects s)
   \<and> time (fold (\<lambda>a. cleanup_anim a \<circ> finish_anim a) as s) = time s
   \<and> shown (fold (\<lambda>a. cleanup_anim a \<circ> finish_anim a) as s) = fold anim_shown as (shown s)
   \<and> strokes (fold (\<lambda>a. cleanup_anim a \<circ> finish_anim a) as s) = fold anim_strokes as (strokes s)"
  by (induction as arbitrary: s) (simp_all add: cleanup_anim_mobjects finish_anim_def)

lemma exec_op_mobjects: "mobjects (exec_op op s) = op_mobs op (mobjects s)"
  by (cases op)
     (simp_all add: play_def Let_def fold_finish_cleanup scene_wait_def scene_add_def
        scene_remove_def scene_clear_def)

lemma exec_op_time: "time (exec_op op s) = time s + op_time op"
  by (cases op)
     (simp_all add: play_def Let_def fold_finish_cleanup scene_wait_def scene_add_def
        scene_remove_def scene_clear_def)

lemma exec_op_shown: "shown (exec_op op s) = op_shown op (shown s)"
  by (cases op)
     (simp_all add: play_def Let_def fold_finish_cleanup scene_wait_def scene_add_def
        scene_remove_def scene_clear_def)

lemma exec_op_strokes: "strokes (exec_op op s) = op_strokes op (strokes s)"
  by (cases op)
     (simp_all add: play_def Let_def fold_finish_cleanup scene_wait_def scene_add_def
        scene_remove_def scene_clear_def)

theorem run_shown: "shown (run ops s) = fold op_shown ops (shown s)"
  unfolding run_def by (induction ops arbitrary: s) (simp_all add: exec_op_shown)

theorem run_strokes: "strokes (run ops s) = fold op_strokes ops (strokes s)"
  unfolding run_def by (induction ops arbitrary: s) (simp_all add: exec_op_strokes)

lemma scene_ops_fields [simp]:
  "mobjects (scene_add ms s) = add_mobs ms (mobjects s)"
  "mobjects (scene_remove ms s) = remove_mobs ms (mobjects s)"
  "mobjects (scene_clear s) = []"
  "time (scene_add ms s) = time s"
  "time (scene_remove ms s) = time s"
  "time (scene_clear s) = time s"
  "shown (scene_add ms s) = shown s"
  "shown (scene_remove ms s) = shown s"
  "shown (scene_clear s) = shown s"
  "strokes (scene_add ms s) = strokes s"
  "strokes (scene_remove ms s) = strokes s"
  "strokes (scene_clear s) = strokes s"
  by (simp_all add: scene_add_def scene_remove_def scene_clear_def)

theorem run_mobjects: "mobjects (run ops s) = fold op_mobs ops (mobjects s)"
  unfolding run_def by (induction ops arbitrary: s) (simp_all add: exec_op_mobjects)

theorem run_time: "time (run ops s) = time s + sum_list (map op_time ops)"
  unfolding run_def by (induction ops arbitrary: s) (simp_all add: exec_op_time algebra_simps)

lemma init_scene_wf: "scene_wf init_scene"
  by (simp add: scene_wf_def mobs_wf_def init_scene_def)

text \<open>Every script of operations whose plays animate well-formed objects
  and whose adds bring objects with distinct identities keeps the scene
  well formed: no object is reachable twice from the visible list, which is
  what \<open>Scene.add\<close> (removing an object before adding it again) and
  \<open>Scene.remove\<close> are written to maintain.\<close>

theorem run_wf: "scene_wf s \<Longrightarrow> \<forall>op\<in>set ops. op_wf op \<Longrightarrow> scene_wf (run ops s)"
proof -
  assume s: "scene_wf s" and ops: "\<forall>op\<in>set ops. op_wf op"
  have "mobs_wf (fold op_mobs ops L)" if "mobs_wf L" for L
    using that ops by (induction ops arbitrary: L) (simp_all add: op_mobs_wf)
  with s show ?thesis
    by (simp add: scene_wf_def run_mobjects)
qed

lemma family_member_closed:
  "x \<in> set (family_members L) \<Longrightarrow> y \<in> set (family x) \<Longrightarrow> y \<in> set (family_members L)"
  by (auto simp: family_members_def intro: family_trans)

lemma distinct_ids_not_both:
  "distinct (ids (family m @ family_members ms)) \<Longrightarrow> x \<in> set (family m) \<Longrightarrow> x \<notin> set (family_members ms)"
  by (auto simp: set_ids)

lemma no_removed_above_Cons_other:
  assumes "x \<notin> set (family m)"
  shows "no_removed_above rm (m # ms) x \<longleftrightarrow> no_removed_above rm ms x"
  using assms family_trans by (auto simp: no_removed_above_def)

lemma survives_Cons_other:
  "x \<notin> set (family m) \<Longrightarrow> survives rm (m # ms) x \<longleftrightarrow> survives rm ms x"
  by (simp add: survives_def no_removed_above_Cons_other)

lemma survives_restrict:
  assumes "x \<in> set (family_members (submobjects m))"
  shows "survives (filter (\<lambda>i. i \<in> set (ids (family m))) rm) (submobjects m) x
           \<longleftrightarrow> survives rm (submobjects m) x"
proof -
  have fx: "set (family x) \<subseteq> set (family m)"
    using assms family_members_sub_subset family_trans by blast
  have fa: "set (family_members (submobjects m)) \<subseteq> set (family m)"
    by (rule family_members_sub_subset)
  show ?thesis
    using fx fa unfolding survives_def no_removed_above_def no_removed_below_def set_ids
    by (auto 0 3 simp: assms)
qed

lemma restructure_survives:
  "distinct (ids (family_members ms)) \<Longrightarrow>
     x \<in> set (family_members (restructure rm ms)) \<longleftrightarrow> survives rm ms x"
proof (induction rm ms rule: restructure.induct)
  case (1 rm)
  then show ?case by (simp add: survives_def)
next
  case (2 rm m ms)
  let ?hit = "filter (\<lambda>i. i \<in> set (ids (family m))) rm"
  have dist: "distinct (ids (family m @ family_members ms))"
    using "2.prems" by simp
  then have dms: "distinct (ids (family_members ms))" by simp
  show ?case
  proof (cases "x \<in> set (family m)")
    case False
    then have "x \<notin> set (family_members (restructure ?hit (submobjects m)))"
      using restructure_subset family_members_sub_subset by blast
    with False "2.IH" dms show ?thesis
      by (auto simp: survives_Cons_other)
  next
    case xm: True
    then have x_ms: "x \<notin> set (family_members ms)"
      using dist distinct_ids_not_both by blast
    then have x_rest: "x \<notin> set (family_members (restructure rm ms))"
      using restructure_subset by blast
    have above_ms: "no_removed_above rm (m # ms) x \<longleftrightarrow> no_removed_above rm [m] x"
      using x_ms family_member_closed by (fastforce simp: no_removed_above_def)
    show ?thesis
    proof (cases "mob_id m \<in> set rm")
      case True
      then have "\<not> survives rm (m # ms) x"
        using xm by (auto simp: survives_def no_removed_above_def)
      with True x_rest show ?thesis by simp
    next
      case notin: False
      show ?thesis
      proof (cases "?hit \<noteq> []")
        case hit: True
        show ?thesis
        proof (cases "x = m")
          case True
          have "m \<notin> set (family_members (submobjects m))"
            using dist by (auto simp: family_Cons [of m] set_ids)
          then have "m \<notin> set (family_members (restructure ?hit (submobjects m)))"
            using restructure_subset by blast
          moreover have "\<not> no_removed_below rm m"
            using hit by (auto simp: no_removed_below_def filter_empty_conv set_ids)
          ultimately show ?thesis
            using True notin hit x_rest by (simp add: survives_def)
        next
          case False
          with xm have xs: "x \<in> set (family_members (submobjects m))"
            by (simp add: family_Cons [of m])
          have ds: "distinct (ids (family_members (submobjects m)))"
            using dist distinct_ids_family_sub by simp
          have "x \<in> set (family_members (restructure ?hit (submobjects m)))
                  \<longleftrightarrow> survives rm (submobjects m) x"
            using "2.IH"(2) [OF notin hit ds] survives_restrict [OF xs] by simp
          moreover have "survives rm (submobjects m) x \<longleftrightarrow> survives rm (m # ms) x"
            using xs xm notin above_ms
            by (auto simp: survives_def no_removed_above_def family_Cons [of m])
          ultimately show ?thesis
            using notin hit x_rest by simp
        qed
      next
        case nohit: False
        have "survives rm (m # ms) x"
          using xm nohit above_ms family_trans
          by (auto simp: survives_def no_removed_above_def no_removed_below_def
                filter_empty_conv set_ids)
        with notin nohit xm show ?thesis by simp
      qed
    qed
  qed
qed

text \<open>\<open>Scene.remove\<close> meets its contract on a well-formed scene: the
  objects reachable afterwards are exactly those that survive the removal,
  i.e. that are neither a removed object nor inside one, and whose chain of
  enclosing groups on screen contains no removed object (a group holding a
  removed object is broken up into its other members).\<close>

theorem scene_remove_contract:
  "scene_wf s \<Longrightarrow> set (scene_family (scene_remove ms s)) = {x. survives (ids ms) (mobjects s) x}"
  by (auto simp: scene_wf_def mobs_wf_def scene_remove_def remove_mobs_def restructure_survives)

text \<open>\<open>Scene.add\<close> meets its contract on a well-formed scene: the
  objects reachable afterwards are those that survive the removal of the
  added objects and everything inside them, together with the added objects
  and their members (an object added twice appears once).\<close>

theorem scene_add_contract:
  "scene_wf s \<Longrightarrow>
     set (scene_family (scene_add ms s)) =
       {x. survives (ids (family_members ms)) (mobjects s) x} \<union> set (family_members ms)"
  by (auto simp: scene_wf_def mobs_wf_def scene_add_def add_mobs_def restructure_survives)

lemma scene_remove_wf: "scene_wf s \<Longrightarrow> scene_wf (scene_remove ms s)"
  by (simp add: scene_wf_def remove_mobs_wf)

lemma scene_add_wf:
  "scene_wf s \<Longrightarrow> distinct (ids (family_members ms)) \<Longrightarrow> scene_wf (scene_add ms s)"
  by (simp add: scene_wf_def add_mobs_wf)

lemma scene_clear_wf: "scene_wf (scene_clear s)"
  by (simp add: scene_wf_def mobs_wf_def)

lemma family_members_filter_subset: "set (family_members (filter P L)) \<subseteq> set (family_members L)"
  by (induction L) auto

lemma mobs_wf_filter: "mobs_wf L \<Longrightarrow> mobs_wf (filter P L)"
  unfolding mobs_wf_def
proof (induction L)
  case (Cons m L)
  then show ?case
    using family_members_filter_subset [of P L] by (auto simp: set_ids)
qed simp

subsection \<open>Restructuring leaves alone what it does not name\<close>

lemma restructure_fresh: "set rm \<inter> set (ids (family_members L)) = {} \<Longrightarrow> restructure rm L = L"
proof (induction rm L rule: restructure.induct)
  case (2 rm m ms)
  have "set (ids (family m)) \<subseteq> set (ids (family_members (m # ms)))"
    by (auto simp: set_ids)
  moreover have "mob_id m \<in> set (ids (family m))"
    by (simp add: set_ids)
  ultimately have "mob_id m \<notin> set rm" "filter (\<lambda>i. i \<in> set (ids (family m))) rm = []"
    using "2.prems" by (auto simp: filter_empty_conv)
  with 2 show ?case
    by (simp add: set_ids Int_Un_distrib)
qed simp

lemma restructure_append: "restructure rm (L @ M) = restructure rm L @ restructure rm M"
  by (induction L) simp_all

text \<open>What a stage made of new objects does to the visible list: the objects
  already there are neither split nor dropped, only the new ones come and go.\<close>

lemmas fresh_simps = fresh_for_def restructure_append restructure_fresh add_from_anims.simps

end
