(* ===== verification/Stages_Setup.thy ===== *)
theory Stages_Setup
  imports Scene
begin

text \<open>
  The first six stages of \<open>MUL8086Animation.construct\<close>
  (src/manim_8086_mul.py): the extended intro, the architecture overview, the
  detailed register setup, the memory and program-counter setup, the
  instruction fetch and the decode. Each object the script creates is a
  constant (its identity is a number unique in the whole script); each stage
  method is a function on the scene, with the \<open>self.play\<close>, \<open>self.wait\<close>,
  \<open>self.add\<close>, \<open>self.remove\<close> and \<open>self.clear\<close> calls of its body in order.
  A method that indexes a group (\<open>pc_arrow[0]\<close>) may raise \<open>IndexError\<close>,
  so it returns \<open>py_error + scene\<close>. The cleanup heuristics of the
  \<open>*_detailed\<close> wrappers read the objects' attributes and, through the
  geometry \<open>g\<close>, their centres.
\<close>

subsection \<open>intro_scene_extended (lines 60--97)\<close>

definition intro_title :: mob where [mob_defs]:
  "intro_title = Mob 1 (Text 80 ''8086 MUL Instruction'') []"

definition intro_subtitle :: mob where [mob_defs]:
  "intro_subtitle = Mob 2 (Text 52 ''Execution Cycle Animation'') []"

definition intro_title_glow1 :: mob where [mob_defs]:
  "intro_title_glow1 = Mob 3 (Text 80 ''8086 MUL Instruction'') []"

definition intro_title_glow2 :: mob where [mob_defs]:
  "intro_title_glow2 = Mob 4 (Text 80 ''8086 MUL Instruction'') []"

definition processor_info :: mob where [mob_defs]:
  "processor_info = Mob 5 (Text 24 (py_lines
     [''Intel 8086 Microprocessor'', ''16-bit Architecture'', ''Clock Speed: 5-10 MHz''])) []"

definition intro_scene_extended :: "scene \<Rightarrow> scene" where [stage_defs]:
  "intro_scene_extended = run
     [Play [FadeIn intro_title_glow1, FadeIn intro_title_glow2, Write intro_title] 3,
      Play [FadeIn intro_subtitle] 2,
      Wait 2,
      Play [FadeIn processor_info] 2,
      Wait 2,
      Play [FadeOut intro_title, FadeOut intro_title_glow1, FadeOut intro_title_glow2,
            FadeOut intro_subtitle, FadeOut processor_info] 2]"

subsection \<open>cpu_architecture_overview (lines 99--161)\<close>

definition arch_title :: mob where [mob_defs]:
  "arch_title = Mob 6 (Text 48 ''8086 CPU Architecture'') []"

definition cpu_components :: "string list" where
  "cpu_components =
     [''Execution Unit (EU)'', ''Bus Interface Unit (BIU)'', ''Arithmetic Logic Unit (ALU)'',
      ''Control Unit (CU)'', ''Registers (AX, BX, CX, DX)'', ''Instruction Queue (6 bytes)'']"

text \<open>\<open>for i, comp in enumerate(components): component_group.add(Text(comp, font_size=20))\<close>\<close>

definition component_group :: mob where [mob_defs]:
  "component_group = Mob 13 VGroup
     (map (\<lambda>(i, c). Mob (7 + i) (Text 20 c) []) (enumerate 0 cpu_components))"

definition pipeline_title :: mob where [mob_defs]:
  "pipeline_title = Mob 14 (Text 24 ''Instruction Pipeline'') []"

definition pipeline_steps :: "string list" where
  "pipeline_steps =
     [''1. Fetch'', ''2. Decode'', ''3. Execute'', ''4. Memory Access'', ''5. Write Back'',
      ''6. Update Flags'']"

definition pipeline_group :: mob where [mob_defs]:
  "pipeline_group = Mob 21 VGroup
     (map (\<lambda>(i, c). Mob (15 + i) (Text 18 c) []) (enumerate 0 pipeline_steps))"

definition cpu_architecture_overview :: "scene \<Rightarrow> scene" where [stage_defs]:
  "cpu_architecture_overview = run
     ([Play [FadeIn arch_title] (3/2)]
      @ concat (map (\<lambda>comp. [Play [FadeIn comp] (4/5), Wait (3/10)]) (submobjects component_group))
      @ [Play [FadeIn pipeline_title] 1]
      @ concat (map (\<lambda>step. [Play [FadeIn step] (3/5), Wait (1/5)]) (submobjects pipeline_group))
      @ [Wait 3,
         Play [FadeOut arch_title, FadeOut component_group, FadeOut pipeline_title,
               FadeOut pipeline_group] 2])"

subsection \<open>setup_registers_detailed (lines 219--297)\<close>

definition reg_stage_title :: mob where [mob_defs]:
  "reg_stage_title = Mob 22 (Text 42 ''CPU Registers Setup'') []"

definition ax_box :: mob where [mob_defs]: "ax_box = Mob 23 (Rectangle (5/2) (6/5)) []"
definition bx_box :: mob where [mob_defs]: "bx_box = Mob 24 (Rectangle (5/2) (6/5)) []"
definition dx_box :: mob where [mob_defs]: "dx_box = Mob 25 (Rectangle (5/2) (6/5)) []"

definition ax_label :: mob where [mob_defs]: "ax_label = Mob 26 (Text 28 ''AX'') []"
definition ax_value :: mob where [mob_defs]: "ax_value = Mob 27 (Text 24 ''0xFFFF'') []"
definition ax_desc :: mob where [mob_defs]: "ax_desc = Mob 28 (Text 14 ''Accumulator'') []"

definition bx_label :: mob where [mob_defs]: "bx_label = Mob 29 (Text 28 ''BX'') []"
definition bx_value :: mob where [mob_defs]: "bx_value = Mob 30 (Text 24 ''0xFFFF'') []"
definition bx_desc :: mob where [mob_defs]: "bx_desc = Mob 31 (Text 14 ''Base Register'') []"

definition dx_label :: mob where [mob_defs]: "dx_label = Mob 32 (Text 28 ''DX'') []"
definition dx_value :: mob where [mob_defs]: "dx_value = Mob 33 (Text 24 ''0x0000'') []"
definition dx_desc :: mob where [mob_defs]: "dx_desc = Mob 34 (Text 14 ''Data Register'') []"

definition ax_reg :: mob where [mob_defs]:
  "ax_reg = Mob 35 VGroup [ax_box, ax_label, ax_value, ax_desc]"
definition bx_reg :: mob where [mob_defs]:
  "bx_reg = Mob 36 VGroup [bx_box, bx_label, bx_value, bx_desc]"
definition dx_reg :: mob where [mob_defs]:
  "dx_reg = Mob 37 VGroup [dx_box, dx_label, dx_value, dx_desc]"

definition reg_explanation :: mob where [mob_defs]:
  "reg_explanation = Mob 38 (Text 18 (py_lines
     [''AX (Accumulator): Multiplicand = 65,535 decimal'',
      ''BX (Base): Multiplier = 65,535 decimal'',
      ''DX (Data): Will store high 16 bits of result''])) []"

definition setup_registers_detailed :: "scene \<Rightarrow> scene \<times> mob \<times> mob \<times> mob" where [stage_defs]:
  "setup_registers_detailed s = (run
     [Clear,
      Play [FadeIn reg_stage_title] (3/2),
      Play [GrowFromCenter ax_reg] (3/2),
      Wait (1/2),
      Play [GrowFromCenter bx_reg] (3/2),
      Wait (1/2),
      Play [GrowFromCenter dx_reg] (3/2),
      Play [FadeIn reg_explanation] 2,
      Wait 3,
      Play [FadeOut reg_stage_title, FadeOut reg_explanation] 1] s,
     ax_reg, bx_reg, dx_reg)"

subsection \<open>setup_memory_and_pc (lines 299--337) and its detailed wrapper (801--806)\<close>

definition memory_box :: mob where [mob_defs]: "memory_box = Mob 39 (Rectangle 3 (3/2)) []"
definition memory_addr :: mob where [mob_defs]: "memory_addr = Mob 40 (Text 16 ''1000h'') []"
definition memory_instr :: mob where [mob_defs]:
  "memory_instr = Mob 41 (Text 14 (py_lines [''F7 E3'', ''(MUL BX)''])) []"
definition memory_cell :: mob where [mob_defs]:
  "memory_cell = Mob 42 VGroup [memory_box, memory_addr, memory_instr]"

definition pc_arrow_shape :: mob where [mob_defs]: "pc_arrow_shape = Mob 43 Arrow []"
definition pc_label :: mob where [mob_defs]: "pc_label = Mob 44 (Text 18 ''PC'') []"
definition pc_arrow :: mob where [mob_defs]:
  "pc_arrow = Mob 45 VGroup [pc_arrow_shape, pc_label]"

definition ir_box :: mob where [mob_defs]: "ir_box = Mob 46 (Rectangle (5/2) (6/5)) []"
definition ir_label :: mob where [mob_defs]: "ir_label = Mob 47 (Text 20 ''IR'') []"
definition ir_value :: mob where [mob_defs]: "ir_value = Mob 48 (Text 16 ''F7 E3'') []"
definition ir_reg :: mob where [mob_defs]:
  "ir_reg = Mob 49 VGroup [ir_box, ir_label, ir_value]"

text \<open>\<open>setup_memory_and_pc\<close> only builds objects: it returns them and leaves the
  scene alone.\<close>

definition setup_memory_and_pc :: "mob \<times> mob \<times> mob" where
  "setup_memory_and_pc = (memory_cell, pc_arrow, ir_reg)"

text \<open>Line 804: remove every top-level object that is not a \<open>VGroup\<close> of at
  least three parts.\<close>

definition setup_memory_and_pc_detailed :: "scene \<Rightarrow> scene \<times> mob \<times> mob \<times> mob" where [stage_defs]:
  "setup_memory_and_pc_detailed s =
     (scene_remove (filter (\<lambda>obj. \<not> is_vgroup obj \<or> py_len obj < 3) (mobjects s)) s,
      setup_memory_and_pc)"

subsection \<open>instruction_fetch (lines 339--396) and its detailed wrapper (808--815)\<close>

definition fetch_title :: mob where [mob_defs]:
  "fetch_title = Mob 50 (Text 36 ''Instruction Fetch'') []"
definition data_path :: mob where [mob_defs]: "data_path = Mob 51 Arrow []"
definition flowing_dot :: mob where [mob_defs]: "flowing_dot = Mob 52 Dot []"

text \<open>
  The body indexes \<open>pc_arrow[0]\<close>, \<open>pc_arrow[1]\<close>, \<open>memory_cell[0]\<close> and
  \<open>ir_reg[0]\<close> (the last two only to place \<open>data_path\<close>). An \<open>IndexError\<close> ends
  the whole run, so it is the result whichever of them raises.
\<close>

definition instruction_fetch :: "mob \<Rightarrow> mob \<Rightarrow> mob \<Rightarrow> scene \<Rightarrow> py_error + scene" where [stage_defs]:
  "instruction_fetch mcell pc ir s =
     res_bind (getitem pc 0) (\<lambda>pc_shape.
     res_bind (getitem pc 1) (\<lambda>pc_lbl.
     res_bind (getitem mcell 0) (\<lambda>_.
     res_bind (getitem ir 0) (\<lambda>_.
       Inr (run
         [Play [FadeIn fetch_title] 1,
          Play [GrowFromCenter mcell, GrowArrow pc_shape] 2,
          Play [FadeIn pc_lbl] (1/2),
          Play [GrowArrow data_path] (3/2),
          Play [GrowFromCenter ir] (3/2),
          Add [flowing_dot],
          Play [MoveAlongPath flowing_dot data_path] 2,
          Play [Set_stroke ir 4] (1/2),
          Play [Set_stroke ir 1] (1/2),
          Play [FadeOut fetch_title, FadeOut flowing_dot, FadeOut data_path] 1] s)))))"

text \<open>Line 811: remove the top-level objects whose centre lies right of \<open>x = 2\<close>.\<close>

definition instruction_fetch_detailed ::
  "geometry \<Rightarrow> mob \<Rightarrow> mob \<Rightarrow> mob \<Rightarrow> scene \<Rightarrow> py_error + scene" where [stage_defs]:
  "instruction_fetch_detailed g mcell pc ir s =
     (let stage_elements = filter (\<lambda>obj. fst (g obj) > 2) (mobjects s);
          s' = (if stage_elements \<noteq> [] then scene_remove stage_elements s else s)
      in instruction_fetch mcell pc ir s')"

subsection \<open>decode_instruction (lines 398--447) and its detailed wrapper (817--822)\<close>

definition decode_title :: mob where [mob_defs]:
  "decode_title = Mob 53 (Text 32 ''Instruction Decode'') []"
definition cu_box :: mob where [mob_defs]: "cu_box = Mob 54 (Rectangle (16/5) (8/5)) []"
definition cu_label :: mob where [mob_defs]: "cu_label = Mob 55 (Text 18 ''Control Unit'') []"
definition control_unit :: mob where [mob_defs]:
  "control_unit = Mob 56 VGroup [cu_box, cu_label]"
definition opcode_bits :: mob where [mob_defs]:
  "opcode_bits = Mob 57 (Text 12 (py_lines [''F7 = 11110111'', ''4 = 100 (reg)''])) []"

definition control_signals :: "string list" where
  "control_signals = [''MUL_OP'', ''REG_READ'', ''ALU_EN'']"

definition signal_texts :: mob where [mob_defs]:
  "signal_texts = Mob 61 VGroup
     (map (\<lambda>(i, c). Mob (58 + i) (Text 10 c) []) (enumerate 0 control_signals))"

text \<open>The group returned by \<open>decode_instruction\<close> (line 447).\<close>

definition decode_result :: mob where [mob_defs]:
  "decode_result = Mob 62 VGroup [control_unit, opcode_bits, signal_texts]"

definition decode_instruction :: "mob \<Rightarrow> scene \<Rightarrow> scene \<times> mob" where [stage_defs]:
  "decode_instruction ir s =
     (run
       ([Play [FadeIn decode_title] 1,
         Play [GrowFromCenter control_unit] (3/2),
         Play [Write opcode_bits] 2]
        @ map (\<lambda>st. Play [FadeIn st, Set_stroke st 2] (3/5)) (submobjects signal_texts)
        @ [Wait 1,
           Play [FadeOut decode_title] (1/2)]) s,
      decode_result)"

text \<open>Line 820: remove the top-level texts with a font larger than 30.\<close>

definition decode_instruction_detailed :: "mob \<Rightarrow> scene \<Rightarrow> scene \<times> mob" where [stage_defs]:
  "decode_instruction_detailed ir s =
     decode_instruction ir
       (scene_remove (filter (\<lambda>obj. case font_size_attr obj of Some fs \<Rightarrow> fs > 30 | None \<Rightarrow> False)
                       (mobjects s)) s)"

end
