(* ===== verification/Stages_Execute.thy ===== *)
theory Stages_Execute
  imports Stages_Setup
begin

text \<open>
  The remaining stages of \<open>MUL8086Animation.construct\<close>
  (src/manim_8086_mul.py): ALU setup, operand fetch, execution, write-back,
  flag update, performance analysis and the final summary, and
  \<open>construct\<close> itself, which runs the thirteen stages in order and passes the
  objects one stage returns to the stages that take them.
\<close>

subsection \<open>setup_alu (lines 449--465) and its detailed wrapper (824--831)\<close>

definition alu_body :: mob where [mob_defs]: "alu_body = Mob 63 (Rectangle (7/2) (11/5)) []"
definition alu_label :: mob where [mob_defs]: "alu_label = Mob 64 (Text 28 ''ALU'') []"
definition alu_gear :: mob where [mob_defs]: "alu_gear = Mob 65 (Text 40 u_gear) []"
definition alu :: mob where [mob_defs]: "alu = Mob 66 VGroup [alu_body, alu_label, alu_gear]"

definition setup_alu :: mob where
  "setup_alu = alu"

text \<open>Line 827: remove the top-level objects whose centre lies above \<open>y = 1.5\<close>
  and right of \<open>x = 1\<close>.\<close>

definition setup_alu_detailed :: "geometry \<Rightarrow> scene \<Rightarrow> scene \<times> mob" where [stage_defs]:
  "setup_alu_detailed g s =
     (let to_remove = filter (\<lambda>obj. snd (g obj) > 3/2 \<and> fst (g obj) > 1) (mobjects s)
      in (if to_remove \<noteq> [] then scene_remove to_remove s else s, setup_alu))"

subsection \<open>operand_fetch (lines 467--540) and its detailed wrapper (833--840)\<close>

definition operand_fetch_title :: mob where [mob_defs]:
  "operand_fetch_title = Mob 67 (Text 32 ''Operand Fetch'') []"
definition ax_path :: mob where [mob_defs]: "ax_path = Mob 68 Arrow []"
definition bx_path :: mob where [mob_defs]: "bx_path = Mob 69 Arrow []"
definition ax_dot :: mob where [mob_defs]: "ax_dot = Mob 70 Dot []"
definition bx_dot :: mob where [mob_defs]: "bx_dot = Mob 71 Dot []"
definition operand_text :: mob where [mob_defs]:
  "operand_text = Mob 72 (Text 12 (py_lines [''AX: 0xFFFF'', ''BX: 0xFFFF''])) []"

definition operand_fetch :: "mob \<Rightarrow> mob \<Rightarrow> mob \<Rightarrow> scene \<Rightarrow> scene" where [stage_defs]:
  "operand_fetch axr bxr alu_grp = run
     [Play [FadeIn operand_fetch_title] 1,
      Play [GrowFromCenter alu_grp] (3/2),
      Play [GrowArrow ax_path, GrowArrow bx_path] (3/2),
      Play [Set_stroke axr 4, Set_stroke bxr 4] 1,
      Add [ax_dot, bx_dot],
      Play [MoveAlongPath ax_dot ax_path, MoveAlongPath bx_dot bx_path] 2,
      Play [FadeIn operand_text] 1,
      Play [FadeOut operand_fetch_title, FadeOut ax_dot, FadeOut bx_dot] (4/5),
      Play [FadeOut ax_path, FadeOut bx_path, FadeOut operand_text,
            Set_stroke axr 0, Set_stroke bxr 0] 1]"

text \<open>Lines 836 and 919: remove the top-level texts with a font smaller than 20.\<close>

definition small_texts :: "mob list \<Rightarrow> mob list" where
  "small_texts ms = filter (\<lambda>obj. case font_size_attr obj of Some fs \<Rightarrow> fs < 20 | None \<Rightarrow> False) ms"

definition operand_fetch_detailed :: "mob \<Rightarrow> mob \<Rightarrow> mob \<Rightarrow> scene \<Rightarrow> scene" where [stage_defs]:
  "operand_fetch_detailed axr bxr alu_grp s =
     (let temp_elements = small_texts (mobjects s);
          s' = (if temp_elements \<noteq> [] then scene_remove temp_elements s else s)
      in operand_fetch axr bxr alu_grp s')"

subsection \<open>execute_multiplication_detailed (lines 842--914)\<close>

definition exec_title :: mob where [mob_defs]:
  "exec_title = Mob 73 (Text 36 ''Execute Multiplication'') []"

definition multiplication_steps :: mob where [mob_defs]:
  "multiplication_steps = Mob 74 (Text 14 (py_lines
     [''Multiplication Algorithm:'', ''1. Initialize result = 0'', ''2. For each bit in multiplier:'',
      ''   - If bit = 1, add multiplicand'', ''   - Shift multiplicand left'',
      ''3. Store 32-bit result in DX:AX''])) []"

definition calc_steps :: "string list" where
  "calc_steps =
     [''Step 1: 0xFFFF '' @ u_times @ '' 0xFFFF = 0xFFFE0001'',
      ''Result: 4,294,836,225 decimal'',
      ''Overflow: Result > 16-bit maximum'']"

definition step_group :: mob where [mob_defs]:
  "step_group = Mob 78 VGroup (map (\<lambda>(i, c). Mob (75 + i) (Text 14 c) []) (enumerate 0 calc_steps))"

definition exec_result_text :: mob where [mob_defs]:
  "exec_result_text = Mob 79 (Text 18 ''Final Result: DX:AX = 0xFFFE:0x0001'') []"

text \<open>Line 845: remove the top-level texts with a font larger than 20 whose centre
  lies above \<open>y = 2\<close>. Line 875 indexes \<open>alu[2]\<close>.\<close>

definition execute_multiplication_detailed ::
  "geometry \<Rightarrow> mob \<Rightarrow> mob \<Rightarrow> mob \<Rightarrow> scene \<Rightarrow> py_error + scene" where [stage_defs]:
  "execute_multiplication_detailed g alu_grp axr bxr s =
     (let s1 = scene_remove
                 (filter (\<lambda>obj. case font_size_attr obj of
                                  Some fs \<Rightarrow> fs > 20 \<and> snd (g obj) > 2 | None \<Rightarrow> False)
                   (mobjects s)) s
      in res_bind (getitem alu_grp 2) (\<lambda>gear.
         Inr (run
          ([Play [FadeIn exec_title] 1,
            Play [Set_stroke alu_grp 4] 1,
            Play [FadeIn multiplication_steps] 2,
            Wait 2,
            Play [Rotate gear] 4]
           @ concat (map (\<lambda>st. [Play [FadeIn st] 1, Wait (1/2)]) (submobjects step_group))
           @ [Play [FadeIn exec_result_text] (3/2),
              Wait 2,
              Play [FadeOut exec_title, FadeOut multiplication_steps, FadeOut step_group,
                    FadeOut exec_result_text, Set_stroke alu_grp 0] 2]) s1)))"

subsection \<open>write_back_results (lines 593--679) and its detailed wrapper (916--923)\<close>

definition wb_title :: mob where [mob_defs]:
  "wb_title = Mob 80 (Text 32 ''Write Back Results'') []"
definition ax_result_path :: mob where [mob_defs]: "ax_result_path = Mob 81 Arrow []"
definition dx_result_path :: mob where [mob_defs]: "dx_result_path = Mob 82 Arrow []"
definition ax_result_dot :: mob where [mob_defs]: "ax_result_dot = Mob 83 Dot []"
definition dx_result_dot :: mob where [mob_defs]: "dx_result_dot = Mob 84 Dot []"
definition new_ax_value :: mob where [mob_defs]: "new_ax_value = Mob 85 (Text 18 ''0x0001'') []"
definition new_dx_value :: mob where [mob_defs]: "new_dx_value = Mob 86 (Text 18 ''0xFFFE'') []"
definition breakdown_text :: mob where [mob_defs]:
  "breakdown_text = Mob 87 (Text 16 (py_lines [''DX:AX = 0xFFFE:0x0001'', ''(32-bit overflow result)''])) []"

text \<open>Lines 637--644 index \<open>ax_reg[2]\<close> and \<open>dx_reg[2]\<close>, the value texts.\<close>

definition write_back_results :: "mob \<Rightarrow> mob \<Rightarrow> mob \<Rightarrow> scene \<Rightarrow> py_error + scene" where [stage_defs]:
  "write_back_results alu_grp axr dxr s =
     res_bind (getitem axr 2) (\<lambda>ax_val.
     res_bind (getitem dxr 2) (\<lambda>dx_val.
       Inr (run
         [Play [FadeIn wb_title] 1,
          Play [GrowArrow ax_result_path, GrowArrow dx_result_path] (3/2),
          Add [ax_result_dot, dx_result_dot],
          Play [MoveAlongPath ax_result_dot ax_result_path,
                MoveAlongPath dx_result_dot dx_result_path] 2,
          Play [Transform ax_val new_ax_value, Transform dx_val new_dx_value] (3/2),
          Play [Set_stroke axr 4, Set_stroke dxr 4] 1,
          Play [FadeIn breakdown_text] (3/2),
          Wait 1,
          Play [FadeOut wb_title, FadeOut ax_result_dot, FadeOut dx_result_dot] (4/5),
          Play [FadeOut ax_result_path, FadeOut dx_result_path, FadeOut breakdown_text,
                Set_stroke axr 0, Set_stroke dxr 0] 1] s)))"

definition write_back_results_detailed :: "mob \<Rightarrow> mob \<Rightarrow> mob \<Rightarrow> scene \<Rightarrow> py_error + scene" where [stage_defs]:
  "write_back_results_detailed alu_grp axr dxr s =
     (let temp_elements = small_texts (mobjects s);
          s' = (if temp_elements \<noteq> [] then scene_remove temp_elements s else s)
      in write_back_results alu_grp axr dxr s')"

subsection \<open>update_flags_detailed (lines 925--1022)\<close>

definition flags_title :: mob where [mob_defs]:
  "flags_title = Mob 88 (Text 36 ''Update Status Flags'') []"

definition cf_box :: mob where [mob_defs]: "cf_box = Mob 89 (Rectangle (9/5) (4/5)) []"
definition of_box :: mob where [mob_defs]: "of_box = Mob 90 (Rectangle (9/5) (4/5)) []"
definition sf_box :: mob where [mob_defs]: "sf_box = Mob 91 (Rectangle (9/5) (4/5)) []"
definition zf_box :: mob where [mob_defs]: "zf_box = Mob 92 (Rectangle (9/5) (4/5)) []"

definition cf_label :: mob where [mob_defs]: "cf_label = Mob 93 (Text 16 ''CF'') []"
definition cf_value :: mob where [mob_defs]: "cf_value = Mob 94 (Text 18 ''1'') []"
definition of_label :: mob where [mob_defs]: "of_label = Mob 95 (Text 16 ''OF'') []"
definition of_value :: mob where [mob_defs]: "of_value = Mob 96 (Text 18 ''1'') []"
definition sf_label :: mob where [mob_defs]: "sf_label = Mob 97 (Text 16 ''SF'') []"
definition sf_value :: mob where [mob_defs]: "sf_value = Mob 98 (Text 18 ''0'') []"
definition zf_label :: mob where [mob_defs]: "zf_label = Mob 99 (Text 16 ''ZF'') []"
definition zf_value :: mob where [mob_defs]: "zf_value = Mob 100 (Text 18 ''0'') []"

definition cf_flag :: mob where [mob_defs]: "cf_flag = Mob 101 VGroup [cf_box, cf_label, cf_value]"
definition of_flag :: mob where [mob_defs]: "of_flag = Mob 102 VGroup [of_box, of_label, of_value]"
definition sf_flag :: mob where [mob_defs]: "sf_flag = Mob 103 VGroup [sf_box, sf_label, sf_value]"
definition zf_flag :: mob where [mob_defs]: "zf_flag = Mob 104 VGroup [zf_box, zf_label, zf_value]"

definition flag_explanation :: mob where [mob_defs]:
  "flag_explanation = Mob 105 (Text 12 (py_lines
     [''Flag Conditions for MUL:'',
      ''CF=1, OF=1: Overflow occurred (result '' @ u_geq @ '' 65536)'',
      ''SF=0: Result is positive'',
      ''ZF=0: Result is not zero''])) []"

text \<open>Line 928: remove the top-level objects whose centre lies below \<open>y = -1\<close>.\<close>

definition update_flags_detailed :: "geometry \<Rightarrow> scene \<Rightarrow> scene" where [stage_defs]:
  "update_flags_detailed g s =
     run
       ([Remove (filter (\<lambda>obj. snd (g obj) < -1) (mobjects s)),
         Play [FadeIn flags_title] 1,
         Play [GrowFromCenter cf_flag] 1,
         Play [GrowFromCenter of_flag] 1,
         Play [GrowFromCenter sf_flag] 1,
         Play [GrowFromCenter zf_flag] 1,
         Play [FadeIn flag_explanation] 2,
         Wait 3]
        @ concat (replicate 2
            [Play [Set_stroke cf_flag 4, Set_stroke of_flag 4, Set_stroke sf_flag 4, Set_stroke zf_flag 4] (1/2),
             Play [Set_stroke cf_flag 0, Set_stroke of_flag 0, Set_stroke sf_flag 0, Set_stroke zf_flag 0] (1/2)])
        @ [Wait 2,
           Play [FadeOut flags_title, FadeOut cf_flag, FadeOut of_flag, FadeOut sf_flag,
                 FadeOut zf_flag, FadeOut flag_explanation] 2]) s"

subsection \<open>performance_analysis (lines 1024--1088)\<close>

definition perf_title :: mob where [mob_defs]:
  "perf_title = Mob 106 (Text 42 ''Performance Analysis'') []"

definition metrics :: mob where [mob_defs]:
  "metrics = Mob 107 (Text 18 (py_lines
     [''8086 MUL Instruction Performance:'', '''',
      ''Clock Cycles: 70-77 cycles'',
      ''Execution Time: 14-15.4 '' @ u_micro @ ''s @ 5MHz'',
      ''Memory Access: 2 reads, 0 writes'',
      ''Register Updates: AX, DX, Flags'', '''',
      ''Comparison with Modern CPUs:'',
      ''Modern x86: 1-3 cycles'',
      ''Speedup Factor: 25-75x faster!''])) []"

definition timing_title :: mob where [mob_defs]:
  "timing_title = Mob 108 (Text 18 ''Instruction Timing'') []"

definition timing_stages :: "string list" where
  "timing_stages = [''Fetch'', ''Decode'', ''Execute'', ''Flags'']"

definition timing_cycles :: "nat list" where
  "timing_cycles = [4, 3, 70, 2]"

text \<open>\<open>for i, (stage, cycle) in enumerate(zip(stages, cycles)):
  timing_bars.add(bar, stage_label, cycle_label)\<close>, the bar \<open>cycle/10\<close> wide.\<close>

definition timing_bars :: mob where [mob_defs]:
  "timing_bars = Mob 109 VGroup
     (concat (map (\<lambda>(i, st, c).
        [Mob (110 + 3 * i) (Rectangle (of_nat c / 10) (3/10)) [],
         Mob (111 + 3 * i) (Text 14 st) [],
         Mob (112 + 3 * i) (Text 12 (py_str_nat c)) []])
      (enumerate 0 (zip timing_stages timing_cycles))))"

text \<open>Lines 1027--1030: keep only the top-level objects whose centre lies left of
  \<open>x = -1\<close>.\<close>

definition performance_analysis :: "geometry \<Rightarrow> scene \<Rightarrow> scene" where [stage_defs]:
  "performance_analysis g s =
     (let elements_to_keep = filter (\<lambda>obj. fst (g obj) < -1) (mobjects s);
          s1 = scene_clear s;
          s2 = (if elements_to_keep \<noteq> [] then scene_add elements_to_keep s1 else s1)
      in run
       [Play [FadeIn perf_title] (3/2),
        Play [FadeIn metrics] 3,
        Wait 4,
        Play [FadeIn timing_title] 1,
        Play [FadeIn timing_bars] 2,
        Wait 3,
        Play [FadeOut perf_title, FadeOut metrics, FadeOut timing_title, FadeOut timing_bars] 2] s2)"

subsection \<open>final_summary_extended (lines 1090--1144)\<close>

definition final_title :: mob where [mob_defs]:
  "final_title = Mob 122 (Text 48 ''Execution Complete'') []"

definition final_summary_text :: mob where [mob_defs]:
  "final_summary_text = Mob 123 (Text 12 (py_lines
     [''8086 MUL BX Instruction - Complete Execution Summary'', '''',
      ''Initial State:'',
      ''  '' @ u_bullet @ '' AX (Accumulator) = 0xFFFF (65,535 decimal)'',
      ''  '' @ u_bullet @ '' BX (Base) = 0xFFFF (65,535 decimal)'',
      ''  '' @ u_bullet @ '' DX (Data) = 0x0000'', '''',
      ''Final Result:'',
      ''  '' @ u_bullet @ '' DX:AX = 0xFFFE:0x0001 (4,294,836,225 decimal)'',
      ''  '' @ u_bullet @ '' Mathematical verification: 65,535 '' @ u_times @ '' 65,535 = 4,294,836,225 '' @ u_check,
      ''  '' @ u_bullet @ '' Overflow occurred: CF=1, OF=1'', '''',
      ''CPU Cycle Summary:'',
      ''  '' @ u_bullet @ '' Total execution time: ~77 clock cycles'',
      ''  '' @ u_bullet @ '' Flags updated: CF=1, OF=1, SF=0, ZF=0'',
      ''  '' @ u_bullet @ '' Memory accesses: 2 instruction fetches''])) []"

definition thank_you :: mob where [mob_defs]:
  "thank_you = Mob 124 (Text 28 ''Thank You for Watching!'') []"

text \<open>The registers are moved (lines 1096--1097) before they are added back; the
  move changes only their position.\<close>

definition final_summary_extended :: "mob \<Rightarrow> mob \<Rightarrow> scene \<Rightarrow> scene" where [stage_defs]:
  "final_summary_extended axr dxr = run
     [Clear,
      Add [axr, dxr],
      Play [FadeIn final_title] 2,
      Wait 1,
      Play [Write final_summary_text] 4,
      Wait 1,
      Play [Set_stroke axr 6, Set_stroke dxr 6] 2,
      Play [FadeIn thank_you] 2,
      Wait 5]"

subsection \<open>construct (lines 10--58)\<close>

definition mul8086_construct :: "geometry \<Rightarrow> scene \<Rightarrow> py_error + scene" where [stage_defs]:
  "mul8086_construct g s0 =
     (let s1 = intro_scene_extended s0;
          s2 = cpu_architecture_overview s1;
          (s3, axr, bxr, dxr) = setup_registers_detailed s2;
          (s4, mcell, pc, ir) = setup_memory_and_pc_detailed s3
      in res_bind (instruction_fetch_detailed g mcell pc ir s4) (\<lambda>s5.
         let (s6, cu) = decode_instruction_detailed ir s5;
             (s7, alu_grp) = setup_alu_detailed g s6;
             s8 = operand_fetch_detailed axr bxr alu_grp s7
         in res_bind (execute_multiplication_detailed g alu_grp axr bxr s8) (\<lambda>s9.
            res_bind (write_back_results_detailed alu_grp axr dxr s9) (\<lambda>s10.
              let s11 = update_flags_detailed g s10;
                  s12 = performance_analysis g s11
              in Inr (final_summary_extended axr dxr s12)))))"

end
