(* ===== verification/Script_Run.thy ===== *)
theory Script_Run
  imports Stages_Execute
begin

text \<open>
  What \<open>MUL8086Animation.construct\<close> does, stage by stage: for each stage method,
  the list of top-level objects it leaves on the scene given the list it finds,
  and how far it advances the clock. The cleanup heuristics of the detailed
  wrappers decide by the centres of the objects, so the lemmas for those
  stages assume the centres that the script's layout gives (the facts collected
  in \<open>script_geometry\<close>, discharged for the layout in \<open>Layout\<close>). The
  lemmas compute the visible list through the projection \<open>run_mobjects\<close> of
  \<open>Scene\<close>, never through the whole scene record.
\<close>

text \<open>The facts about the layout that the cleanups at lines 811, 827, 928 and
  1027 consult.\<close>

definition script_geometry :: "geometry \<Rightarrow> bool" where
  "script_geometry g \<longleftrightarrow>
     fst (g ax_reg) < -1 \<and> fst (g bx_reg) < -1 \<and> fst (g dx_reg) < -1 \<and>
     -1 \<le> snd (g ax_reg) \<and> -1 \<le> snd (g bx_reg) \<and> snd (g dx_reg) < -1 \<and>
     1 < fst (g memory_cell) \<and> 3/2 < snd (g memory_cell) \<and>
     1 < fst (g pc_arrow_shape) \<and> 3/2 < snd (g pc_arrow_shape) \<and>
     fst (g pc_label) \<le> 1 \<and>
     -1 \<le> fst (g ir_reg) \<and> -1 \<le> snd (g ir_reg) \<and> snd (g ir_reg) \<le> 3/2 \<and>
     -1 \<le> fst (g control_unit) \<and> -1 \<le> snd (g control_unit) \<and> snd (g control_unit) \<le> 3/2 \<and>
     snd (g opcode_bits) \<le> 3/2 \<and> list_all (\<lambda>m. snd (g m) \<le> 3/2) (submobjects signal_texts) \<and>
     -1 \<le> fst (g alu) \<and> -1 \<le> snd (g alu)"

text \<open>A scene whose visible list is \<open>L\<close>, at the start of the video.\<close>

definition scene_with :: "mob list \<Rightarrow> scene" where
  "scene_with L = init_scene\<lparr>mobjects := L\<rparr>"

text \<open>The scenes after each of the thirteen stages of \<open>construct\<close>, in order:
  \<open>construct\<close> with every intermediate scene kept.\<close>

definition construct_trace :: "geometry \<Rightarrow> scene \<Rightarrow> py_error + scene list" where
  "construct_trace g s0 =
     (let s1 = intro_scene_extended s0;
          s2 = cpu_architecture_overview s1;
          (s3, axr, bxr, dxr) = setup_registers_detailed s2;
          (s4, mcell, pc, ir) = setup_memory_and_pc_detailed s3
      in res_bind (instruction_fetch_detailed g mcell pc ir s4) (\<lambda>s5.
         let (s6, cu) = decode_instruction_detailed ir s5;
             (s7, alu_grp) = setup_alu_detailed g s6;
             s8 = operand_fetch_detailed axr bxr alu_grp s7
         in res_bind (execute_multiplication_detailed g alu_grp axr bxr s8) (\<lambda>s9.
            res_bind (write_back_results_detailed alu_grp axr dxr s9) (\<lambda>s10.
              let s11 = update_flags_detailed g s10;
                  s12 = performance_analysis g s11
              in Inr [s1, s2, s3, s4, s5, s6, s7, s8, s9, s10, s11, s12,
                      final_summary_extended axr dxr s12]))))"

text \<open>What the run shows after each stage, and the clock after each stage in seconds.\<close>

definition stage_visible :: "mob list list" where
  "stage_visible =
       [[], [], [ax_reg, bx_reg, dx_reg], [ax_reg, bx_reg, dx_reg],
        [ax_reg, bx_reg, dx_reg, memory_cell, pc_arrow_shape, pc_label, ir_reg],
        [ax_reg, bx_reg, dx_reg, memory_cell, pc_arrow_shape, pc_label, ir_reg, control_unit, opcode_bits]
          @ submobjects signal_texts,
        [ax_reg, bx_reg, dx_reg, pc_label, ir_reg, control_unit, opcode_bits] @ submobjects signal_texts,
        [ax_reg, bx_reg, dx_reg, ir_reg, control_unit, alu],
        [ax_reg, bx_reg, dx_reg, ir_reg, control_unit, alu],
        [ax_reg, bx_reg, dx_reg, ir_reg, control_unit, alu],
        [ax_reg, bx_reg, ir_reg, control_unit, alu],
        [ax_reg, bx_reg],
        [ax_reg, dx_reg, final_title, final_summary_text, thank_you]]"

definition stage_times :: "rat list" where
  "stage_times = [13, 319/10, 449/10, 449/10, 277/5, 316/5, 316/5, 73, 93, 1043/10, 1203/10, 684/5, 769/5]"

lemmas visible_simps =
  run_mobjects run_time op_mobs.simps op_time.simps setup_anim_def add_mobs_def
  remove_mobs_def cleanup_mobs_def mob_defs

subsection \<open>Indexing never raises\<close>

lemma script_getitems:
  "getitem pc_arrow 0 = Inr pc_arrow_shape" "getitem pc_arrow 1 = Inr pc_label"
  "getitem memory_cell 0 = Inr memory_box" "getitem ir_reg 0 = Inr ir_box"
  "getitem alu 2 = Inr alu_gear" "getitem ax_reg 2 = Inr ax_value" "getitem dx_reg 2 = Inr dx_value"
  by (simp_all add: getitem_def mob_split_def has_points_def mob_defs)

subsection \<open>The stages\<close>

lemma intro_scene_extended_run:
  "mobjects s = [] \<Longrightarrow>
   mobjects (intro_scene_extended s) = [] \<and> time (intro_scene_extended s) = time s + 13"
  unfolding intro_scene_extended_def by (simp add: visible_simps)

lemma cpu_architecture_overview_run:
  "mobjects s = [] \<Longrightarrow>
   mobjects (cpu_architecture_overview s) = [] \<and> time (cpu_architecture_overview s) = time s + 189/10"
  unfolding cpu_architecture_overview_def
  by (simp add: visible_simps cpu_components_def pipeline_steps_def)

lemma setup_registers_detailed_run:
  "mobjects (fst (setup_registers_detailed s)) = [ax_reg, bx_reg, dx_reg] \<and>
   time (fst (setup_registers_detailed s)) = time s + 13 \<and>
   snd (setup_registers_detailed s) = (ax_reg, bx_reg, dx_reg)"
  unfolding setup_registers_detailed_def by (simp add: visible_simps)

lemma setup_memory_and_pc_detailed_run:
  "mobjects s = [ax_reg, bx_reg, dx_reg] \<Longrightarrow>
   mobjects (fst (setup_memory_and_pc_detailed s)) = [ax_reg, bx_reg, dx_reg] \<and>
   time (fst (setup_memory_and_pc_detailed s)) = time s \<and>
   snd (setup_memory_and_pc_detailed s) = (memory_cell, pc_arrow, ir_reg)"
  unfolding setup_memory_and_pc_detailed_def setup_memory_and_pc_def
  by (simp add: visible_simps is_vgroup_def py_len_def)

lemma instruction_fetch_detailed_run:
  assumes "mobjects s = [ax_reg, bx_reg, dx_reg]"
    and "fst (g ax_reg) \<le> 2" "fst (g bx_reg) \<le> 2" "fst (g dx_reg) \<le> 2"
  shows "\<exists>s'. instruction_fetch_detailed g memory_cell pc_arrow ir_reg s = Inr s' \<and>
     mobjects s' = [ax_reg, bx_reg, dx_reg, memory_cell, pc_arrow_shape, pc_label, ir_reg] \<and>
     time s' = time s + 21/2"
  using assms unfolding instruction_fetch_detailed_def instruction_fetch_def
  by (simp add: script_getitems Let_def) (simp add: visible_simps)

lemma decode_instruction_detailed_run:
  "mobjects s = [ax_reg, bx_reg, dx_reg, memory_cell, pc_arrow_shape, pc_label, ir_reg] \<Longrightarrow>
   mobjects (fst (decode_instruction_detailed ir_reg s)) =
     [ax_reg, bx_reg, dx_reg, memory_cell, pc_arrow_shape, pc_label, ir_reg, control_unit, opcode_bits]
     @ submobjects signal_texts \<and>
   time (fst (decode_instruction_detailed ir_reg s)) = time s + 39/5 \<and>
   snd (decode_instruction_detailed ir_reg s) = decode_result"
  unfolding decode_instruction_detailed_def decode_instruction_def
  by (simp add: visible_simps font_size_attr_def control_signals_def)

lemma setup_alu_detailed_run:
  assumes "mobjects s = [ax_reg, bx_reg, dx_reg, memory_cell, pc_arrow_shape, pc_label, ir_reg,
      control_unit, opcode_bits] @ submobjects signal_texts"
    and "fst (g ax_reg) \<le> 1" "fst (g bx_reg) \<le> 1" "fst (g dx_reg) \<le> 1"
    and "1 < fst (g memory_cell)" "3/2 < snd (g memory_cell)"
    and "1 < fst (g pc_arrow_shape)" "3/2 < snd (g pc_arrow_shape)"
    and "fst (g pc_label) \<le> 1" "snd (g ir_reg) \<le> 3/2" "snd (g control_unit) \<le> 3/2"
    and "snd (g opcode_bits) \<le> 3/2" "list_all (\<lambda>m. snd (g m) \<le> 3/2) (submobjects signal_texts)"
  shows "mobjects (fst (setup_alu_detailed g s)) =
     [ax_reg, bx_reg, dx_reg, pc_label, ir_reg, control_unit, opcode_bits] @ submobjects signal_texts \<and>
   time (fst (setup_alu_detailed g s)) = time s \<and> snd (setup_alu_detailed g s) = alu"
  using assms unfolding setup_alu_detailed_def setup_alu_def
  by (simp add: Let_def) (simp add: visible_simps control_signals_def)

lemma operand_fetch_detailed_run:
  "mobjects s = [ax_reg, bx_reg, dx_reg, pc_label, ir_reg, control_unit, opcode_bits]
     @ submobjects signal_texts \<Longrightarrow>
   mobjects (operand_fetch_detailed ax_reg bx_reg alu s) = [ax_reg, bx_reg, dx_reg, ir_reg, control_unit, alu] \<and>
   time (operand_fetch_detailed ax_reg bx_reg alu s) = time s + 49/5"
  unfolding operand_fetch_detailed_def operand_fetch_def
  by (simp add: Let_def) (simp add: visible_simps small_texts_def font_size_attr_def control_signals_def)

lemma execute_multiplication_detailed_run:
  "mobjects s = [ax_reg, bx_reg, dx_reg, ir_reg, control_unit, alu] \<Longrightarrow>
   \<exists>s'. execute_multiplication_detailed g alu ax_reg bx_reg s = Inr s' \<and>
     mobjects s' = [ax_reg, bx_reg, dx_reg, ir_reg, control_unit, alu] \<and> time s' = time s + 20"
  unfolding execute_multiplication_detailed_def
  apply (simp only: Let_def script_getitems res_bind_Inr sum.inject ex_simps simp_thms
      run_mobjects run_time scene_ops_fields)
  apply (intro conjI)
   apply (simp add: visible_simps font_size_attr_def calc_steps_def)
  apply (simp add: calc_steps_def step_group_def)
  done

lemma write_back_results_detailed_run:
  "mobjects s = [ax_reg, bx_reg, dx_reg, ir_reg, control_unit, alu] \<Longrightarrow>
   \<exists>s'. write_back_results_detailed alu ax_reg dx_reg s = Inr s' \<and>
     mobjects s' = [ax_reg, bx_reg, dx_reg, ir_reg, control_unit, alu] \<and> time s' = time s + 113/10"
  unfolding write_back_results_detailed_def write_back_results_def
  by (simp add: Let_def script_getitems) (simp add: visible_simps small_texts_def font_size_attr_def)

lemma update_flags_detailed_run:
  assumes "mobjects s = [ax_reg, bx_reg, dx_reg, ir_reg, control_unit, alu]"
    and "-1 \<le> snd (g ax_reg)" "-1 \<le> snd (g bx_reg)" "snd (g dx_reg) < -1"
    and "-1 \<le> snd (g ir_reg)" "-1 \<le> snd (g control_unit)" "-1 \<le> snd (g alu)"
  shows "mobjects (update_flags_detailed g s) = [ax_reg, bx_reg, ir_reg, control_unit, alu] \<and>
     time (update_flags_detailed g s) = time s + 16"
  using assms unfolding update_flags_detailed_def
  apply (simp only: run_mobjects run_time)
  apply (intro conjI)
   apply (simp add: visible_simps numeral_2_eq_2)
  apply (simp add: numeral_2_eq_2)
  done

lemma performance_analysis_run:
  assumes "mobjects s = [ax_reg, bx_reg, ir_reg, control_unit, alu]"
    and "fst (g ax_reg) < -1" "fst (g bx_reg) < -1"
    and "-1 \<le> fst (g ir_reg)" "-1 \<le> fst (g control_unit)" "-1 \<le> fst (g alu)"
  shows "mobjects (performance_analysis g s) = [ax_reg, bx_reg] \<and>
     time (performance_analysis g s) = time s + 33/2"
  using assms unfolding performance_analysis_def
  by (simp add: Let_def) (simp add: visible_simps timing_stages_def timing_cycles_def)

lemma final_summary_extended_run:
  "mobjects (final_summary_extended ax_reg dx_reg s) =
     [ax_reg, dx_reg, final_title, final_summary_text, thank_you] \<and>
   time (final_summary_extended ax_reg dx_reg s) = time s + 17"
  unfolding final_summary_extended_def by (simp add: visible_simps)

subsection \<open>The whole script\<close>

lemma construct_prefix:
  fixes s0 :: scene
  defines "s2 \<equiv> cpu_architecture_overview (intro_scene_extended s0)"
  defines "s4 \<equiv> fst (setup_memory_and_pc_detailed (fst (setup_registers_detailed s2)))"
  shows "mul8086_construct g s0 =
           res_bind (instruction_fetch_detailed g memory_cell pc_arrow ir_reg s4) (\<lambda>s5.
             let s7 = fst (setup_alu_detailed g (fst (decode_instruction_detailed ir_reg s5)));
                 s8 = operand_fetch_detailed ax_reg bx_reg alu s7
             in res_bind (execute_multiplication_detailed g alu ax_reg bx_reg s8) (\<lambda>s9.
                res_bind (write_back_results_detailed alu ax_reg dx_reg s9) (\<lambda>s10.
                  Inr (final_summary_extended ax_reg dx_reg
                         (performance_analysis g (update_flags_detailed g s10))))))"
proof -
  have r: "snd (setup_registers_detailed s) = (ax_reg, bx_reg, dx_reg)"
    "snd (setup_memory_and_pc_detailed s) = (memory_cell, pc_arrow, ir_reg)"
    "snd (setup_alu_detailed g s) = alu" for s
    by (simp_all add: setup_registers_detailed_def setup_memory_and_pc_detailed_def
        setup_memory_and_pc_def setup_alu_detailed_def setup_alu_def Let_def)
  show ?thesis
    unfolding mul8086_construct_def s2_def s4_def
    by (simp only: Let_def case_prod_unfold r fst_conv snd_conv)
qed

lemma construct_trace_last: "mul8086_construct g s0 = map_sum id last (construct_trace g s0)"
  unfolding mul8086_construct_def construct_trace_def
  by (simp add: Let_def case_prod_unfold res_bind_def split: sum.split)

lemma construct_trace_prefix:
  fixes s0 :: scene
  defines "s2 \<equiv> cpu_architecture_overview (intro_scene_extended s0)"
  defines "s3 \<equiv> fst (setup_registers_detailed s2)"
  defines "s4 \<equiv> fst (setup_memory_and_pc_detailed s3)"
  shows "construct_trace g s0 =
           res_bind (instruction_fetch_detailed g memory_cell pc_arrow ir_reg s4) (\<lambda>s5.
             let s6 = fst (decode_instruction_detailed ir_reg s5);
                 s7 = fst (setup_alu_detailed g s6);
                 s8 = operand_fetch_detailed ax_reg bx_reg alu s7
             in res_bind (execute_multiplication_detailed g alu ax_reg bx_reg s8) (\<lambda>s9.
                res_bind (write_back_results_detailed alu ax_reg dx_reg s9) (\<lambda>s10.
                  let s11 = update_flags_detailed g s10;
                      s12 = performance_analysis g s11
                  in Inr [intro_scene_extended s0, s2, s3, s4, s5, s6, s7, s8, s9, s10, s11, s12,
                          final_summary_extended ax_reg dx_reg s12])))"
proof -
  have r: "snd (setup_registers_detailed s) = (ax_reg, bx_reg, dx_reg)"
    "snd (setup_memory_and_pc_detailed s) = (memory_cell, pc_arrow, ir_reg)"
    "snd (setup_alu_detailed g s) = alu" for s
    by (simp_all add: setup_registers_detailed_def setup_memory_and_pc_detailed_def
        setup_memory_and_pc_def setup_alu_detailed_def setup_alu_def Let_def)
  show ?thesis
    unfolding construct_trace_def s2_def s3_def s4_def
    by (simp only: Let_def case_prod_unfold r fst_conv snd_conv)
qed

lemma construct_trace_run:
  assumes g: "script_geometry g"
  shows "\<exists>ss. construct_trace g init_scene = Inr ss \<and>
     map mobjects ss = stage_visible \<and> map time ss = stage_times"
proof -
  let ?s1 = "intro_scene_extended init_scene"
  let ?s2 = "cpu_architecture_overview ?s1"
  let ?s3 = "fst (setup_registers_detailed ?s2)"
  let ?s4 = "fst (setup_memory_and_pc_detailed ?s3)"
  have t1: "mobjects ?s1 = [] \<and> time ?s1 = 13"
    using intro_scene_extended_run [of init_scene] by (simp add: init_scene_def)
  have t2: "mobjects ?s2 = [] \<and> time ?s2 = 319/10"
    using t1 cpu_architecture_overview_run [of ?s1] by simp
  have t3: "mobjects ?s3 = [ax_reg, bx_reg, dx_reg] \<and> time ?s3 = 449/10"
    using t2 setup_registers_detailed_run [of ?s2] by simp
  have t4: "mobjects ?s4 = [ax_reg, bx_reg, dx_reg] \<and> time ?s4 = 449/10"
    using t3 setup_memory_and_pc_detailed_run [of ?s3] by simp
  obtain s5 where i5: "instruction_fetch_detailed g memory_cell pc_arrow ir_reg ?s4 = Inr s5"
    and t5: "mobjects s5 = [ax_reg, bx_reg, dx_reg, memory_cell, pc_arrow_shape, pc_label, ir_reg]"
      "time s5 = 277/5"
    using instruction_fetch_detailed_run [of ?s4 g] t4 g by (auto simp: script_geometry_def)
  let ?s6 = "fst (decode_instruction_detailed ir_reg s5)"
  let ?s7 = "fst (setup_alu_detailed g ?s6)"
  let ?s8 = "operand_fetch_detailed ax_reg bx_reg alu ?s7"
  have t6: "mobjects ?s6 = [ax_reg, bx_reg, dx_reg, memory_cell, pc_arrow_shape, pc_label, ir_reg,
      control_unit, opcode_bits] @ submobjects signal_texts \<and> time ?s6 = 316/5"
    using decode_instruction_detailed_run [of s5] t5 by simp
  have t7: "mobjects ?s7 = [ax_reg, bx_reg, dx_reg, pc_label, ir_reg, control_unit, opcode_bits]
      @ submobjects signal_texts \<and> time ?s7 = 316/5"
    using setup_alu_detailed_run [of ?s6 g] t6 g by (simp add: script_geometry_def)
  have t8: "mobjects ?s8 = [ax_reg, bx_reg, dx_reg, ir_reg, control_unit, alu] \<and> time ?s8 = 73"
    using operand_fetch_detailed_run [of ?s7] t7 by simp
  obtain s9 where i9: "execute_multiplication_detailed g alu ax_reg bx_reg ?s8 = Inr s9"
    and t9: "mobjects s9 = [ax_reg, bx_reg, dx_reg, ir_reg, control_unit, alu]" "time s9 = 93"
    using execute_multiplication_detailed_run [of ?s8 g] t8 by auto
  obtain s10 where i10: "write_back_results_detailed alu ax_reg dx_reg s9 = Inr s10"
    and t10: "mobjects s10 = [ax_reg, bx_reg, dx_reg, ir_reg, control_unit, alu]" "time s10 = 1043/10"
    using write_back_results_detailed_run [of s9] t9 by auto
  let ?s11 = "update_flags_detailed g s10"
  let ?s12 = "performance_analysis g ?s11"
  have t11: "mobjects ?s11 = [ax_reg, bx_reg, ir_reg, control_unit, alu] \<and> time ?s11 = 1203/10"
    using update_flags_detailed_run [of s10 g] t10 g by (simp add: script_geometry_def)
  have t12: "mobjects ?s12 = [ax_reg, bx_reg] \<and> time ?s12 = 684/5"
    using performance_analysis_run [of ?s11 g] t11 g by (simp add: script_geometry_def)
  have t13: "mobjects (final_summary_extended ax_reg dx_reg ?s12) =
      [ax_reg, dx_reg, final_title, final_summary_text, thank_you] \<and>
      time (final_summary_extended ax_reg dx_reg ?s12) = 769/5"
    using final_summary_extended_run [of ?s12] t12 by simp
  have "construct_trace g init_scene =
          Inr [?s1, ?s2, ?s3, ?s4, s5, ?s6, ?s7, ?s8, s9, s10, ?s11, ?s12,
               final_summary_extended ax_reg dx_reg ?s12]"
    unfolding construct_trace_prefix by (simp add: i5 i9 i10 Let_def)
  then show ?thesis
    using t1 t2 t3 t4 t5 t6 t7 t8 t9 t10 t11 t12 t13 by (simp add: stage_visible_def stage_times_def)
qed

theorem construct_completes:
  assumes g: "script_geometry g"
  shows "\<exists>s. mul8086_construct g init_scene = Inr s \<and>
           mobjects s = [ax_reg, dx_reg, final_title, final_summary_text, thank_you] \<and>
           time s = 769/5"
proof -
  obtain ss where tr: "construct_trace g init_scene = Inr ss"
    and m: "map mobjects ss = stage_visible" and t: "map time ss = stage_times"
    using construct_trace_run [OF g] by blast
  have "ss \<noteq> []"
    using t by (auto simp: stage_times_def)
  then have "mobjects (last ss) = last (map mobjects ss)" "time (last ss) = last (map time ss)"
    by (simp_all add: last_map)
  then show ?thesis
    using m t by (simp add: construct_trace_last tr stage_visible_def stage_times_def)
qed

end
