(* ===== verification/Layout.thy ===== *)
theory Layout
  imports Script_Run
begin

text \<open>
  The screen layout of the script: where each object the cleanup heuristics
  look at ends up, computed with the library's positioning calls
  (\<open>move_to\<close>, \<open>next_to\<close>, \<open>to_edge\<close>, \<open>shift\<close>) on bounding boxes. The frame is
  the library's default height of 8 units at the 1920x1080 resolution the
  script configures (lines 5--7), so 128/9 units wide. Rectangles have the
  sizes the code gives; a text's rendered width and height come from the font
  renderer, so they are a parameter \<open>te\<close> of the layout, and the results hold
  for every \<open>te\<close> in which these texts are at most one unit high. An arrow is
  laid out from its start and end points with the library's default buffer of
  1/4 at both ends and a tip 7/20 wide.
\<close>

datatype box = Box (bx0: rat) (bx1: rat) (by0: rat) (by1: rat)

datatype direction = UP | DOWN | LEFT | RIGHT

type_synonym extents = "mob \<Rightarrow> rat \<times> rat"

text \<open>The render configuration (lines 5--7): 1920 by 1080 pixels at 30 frames a
  second. Manim's frame is 8 units high; its width follows the pixel aspect
  ratio.\<close>

definition pixel_height :: nat where "pixel_height = 1080"
definition pixel_width :: nat where "pixel_width = 1920"
definition frame_rate :: nat where "frame_rate = 30"

definition frame_y_radius :: rat where "frame_y_radius = 4"
definition frame_x_radius :: rat where
  "frame_x_radius = frame_y_radius * of_nat pixel_width / of_nat pixel_height"

definition box_center :: "box \<Rightarrow> point" where
  "box_center b = ((bx0 b + bx1 b) / 2, (by0 b + by1 b) / 2)"

definition shift_box :: "point \<Rightarrow> box \<Rightarrow> box" where
  "shift_box v b = Box (bx0 b + fst v) (bx1 b + fst v) (by0 b + snd v) (by1 b + snd v)"

definition move_to :: "point \<Rightarrow> box \<Rightarrow> box" where
  "move_to p b = shift_box (fst p - fst (box_center b), snd p - snd (box_center b)) b"

text \<open>\<open>get_critical_point\<close>: the middle of the side facing a direction.\<close>

primrec critical_point :: "direction \<Rightarrow> box \<Rightarrow> point" where
  "critical_point UP b = (fst (box_center b), by1 b)"
| "critical_point DOWN b = (fst (box_center b), by0 b)"
| "critical_point LEFT b = (bx0 b, snd (box_center b))"
| "critical_point RIGHT b = (bx1 b, snd (box_center b))"

primrec dir_vec :: "direction \<Rightarrow> point" where
  "dir_vec UP = (0, 1)"
| "dir_vec DOWN = (0, -1)"
| "dir_vec LEFT = (-1, 0)"
| "dir_vec RIGHT = (1, 0)"

primrec opposite :: "direction \<Rightarrow> direction" where
  "opposite UP = DOWN"
| "opposite DOWN = UP"
| "opposite LEFT = RIGHT"
| "opposite RIGHT = LEFT"

text \<open>\<open>b.next_to(t, d, buff)\<close>: the side of \<open>b\<close> facing \<open>t\<close> is put \<open>buff\<close> away
  from the side of \<open>t\<close> facing \<open>d\<close>, centred on it.\<close>

definition next_to :: "box \<Rightarrow> direction \<Rightarrow> rat \<Rightarrow> box \<Rightarrow> box" where
  "next_to t d buff b =
     (let target = critical_point d t; v = dir_vec d; p = critical_point (opposite d) b
      in shift_box (fst target + buff * fst v - fst p, snd target + buff * snd v - snd p) b)"

text \<open>\<open>b.to_edge(d, buff)\<close>: moved along \<open>d\<close> only, to \<open>buff\<close> from the frame's edge.\<close>

primrec to_edge :: "direction \<Rightarrow> rat \<Rightarrow> box \<Rightarrow> box" where
  "to_edge UP buff b = shift_box (0, frame_y_radius - buff - by1 b) b"
| "to_edge DOWN buff b = shift_box (0, - frame_y_radius + buff - by0 b) b"
| "to_edge LEFT buff b = shift_box (- frame_x_radius + buff - bx0 b, 0) b"
| "to_edge RIGHT buff b = shift_box (frame_x_radius - buff - bx1 b, 0) b"

text \<open>A new object is centred on the origin.\<close>

definition rect_box :: "rat \<Rightarrow> rat \<Rightarrow> box" where
  "rect_box w h = Box (- w / 2) (w / 2) (- h / 2) (h / 2)"

definition text_box :: "extents \<Rightarrow> mob \<Rightarrow> box" where
  "text_box te m = rect_box (fst (te m)) (snd (te m))"

definition union_box :: "box \<Rightarrow> box \<Rightarrow> box" where
  "union_box a b = Box (min (bx0 a) (bx0 b)) (max (bx1 a) (bx1 b)) (min (by0 a) (by0 b)) (max (by1 a) (by1 b))"

text \<open>The bounding box of a \<open>VGroup\<close>: the union of its parts' boxes.\<close>

fun group_box :: "box list \<Rightarrow> box" where
  "group_box [] = Box 0 0 0 0"
| "group_box [b] = b"
| "group_box (b # bs) = union_box b (group_box bs)"

definition horizontal_arrow_box :: "point \<Rightarrow> point \<Rightarrow> box" where
  "horizontal_arrow_box s e = Box (fst s + 1/4) (fst e - 1/4) (snd s - 7/40) (snd s + 7/40)"

subsection \<open>Where the script puts its objects\<close>

text \<open>Registers (lines 249--264): AX at the left edge, raised by 2.5; BX and DX
  below it; in each, the label below the top edge, the value in the middle and
  the description above the bottom edge.\<close>

definition ax_box_at :: box where
  "ax_box_at = shift_box (0, 5/2) (to_edge LEFT (1/2) (rect_box (5/2) (6/5)))"

definition bx_box_at :: box where
  "bx_box_at = next_to ax_box_at DOWN (6/5) (rect_box (5/2) (6/5))"

definition dx_box_at :: box where
  "dx_box_at = next_to bx_box_at DOWN (6/5) (rect_box (5/2) (6/5))"

definition register_at :: "extents \<Rightarrow> box \<Rightarrow> mob \<Rightarrow> mob \<Rightarrow> mob \<Rightarrow> box" where
  "register_at te b lbl val desc = group_box
     [b,
      move_to (fst (critical_point UP b), snd (critical_point UP b) - 1/5) (text_box te lbl),
      move_to (box_center b) (text_box te val),
      move_to (fst (critical_point DOWN b), snd (critical_point DOWN b) + 3/20) (text_box te desc)]"

text \<open>Memory cell, program counter and instruction register (lines 302--333).\<close>

definition memory_box_at :: box where
  "memory_box_at = move_to (9/2, 3) (rect_box 3 (3/2))"

definition memory_cell_at :: "extents \<Rightarrow> box" where
  "memory_cell_at te = group_box
     [memory_box_at,
      next_to memory_box_at UP (1/5) (text_box te memory_addr),
      move_to (box_center memory_box_at) (text_box te memory_instr)]"

definition pc_arrow_at :: box where
  "pc_arrow_at = horizontal_arrow_box
     (fst (critical_point LEFT memory_box_at) - 2, snd (critical_point LEFT memory_box_at))
     (fst (critical_point LEFT memory_box_at) - 1/10, snd (critical_point LEFT memory_box_at))"

definition pc_label_at :: "extents \<Rightarrow> box" where
  "pc_label_at te = next_to pc_arrow_at LEFT (3/10) (text_box te pc_label)"

definition ir_box_at :: box where
  "ir_box_at = next_to memory_box_at DOWN (3/2) (rect_box (5/2) (6/5))"

definition ir_reg_at :: "extents \<Rightarrow> box" where
  "ir_reg_at te = group_box
     [ir_box_at,
      next_to ir_box_at UP (3/20) (text_box te ir_label),
      move_to (box_center ir_box_at) (text_box te ir_value)]"

text \<open>Control unit, opcode and control signals (lines 407--432).\<close>

definition cu_box_at :: box where
  "cu_box_at = move_to (5/2, -1/2) (rect_box (16/5) (8/5))"

definition control_unit_at :: "extents \<Rightarrow> box" where
  "control_unit_at te = group_box [cu_box_at, next_to cu_box_at UP (1/10) (text_box te cu_label)]"

definition opcode_bits_at :: "extents \<Rightarrow> box" where
  "opcode_bits_at te = move_to (box_center cu_box_at) (text_box te opcode_bits)"

definition signal_at :: "extents \<Rightarrow> nat \<Rightarrow> mob \<Rightarrow> box" where
  "signal_at te i m =
     move_to (fst (critical_point RIGHT cu_box_at) + 6/5,
              snd (critical_point RIGHT cu_box_at) - (of_nat i * 3/10 - 3/10)) (text_box te m)"

text \<open>The ALU (lines 452--461).\<close>

definition alu_body_at :: box where
  "alu_body_at = move_to (3/2, -1/2) (rect_box (7/2) (11/5))"

definition alu_at :: "extents \<Rightarrow> box" where
  "alu_at te = group_box
     [alu_body_at,
      next_to alu_body_at UP (1/5) (text_box te alu_label),
      move_to (box_center alu_body_at) (text_box te alu_gear)]"

text \<open>The flag boxes of the detailed flag stage, in one row (lines 943--946),
  and the bars of the timing diagram (lines 1063--1067).\<close>

definition cf_box_at :: box where "cf_box_at = move_to (1, -1/2) (rect_box (9/5) (4/5))"
definition of_box_at :: box where "of_box_at = next_to cf_box_at RIGHT (3/10) (rect_box (9/5) (4/5))"
definition sf_box_at :: box where "sf_box_at = next_to of_box_at RIGHT (3/10) (rect_box (9/5) (4/5))"
definition zf_box_at :: box where "zf_box_at = next_to sf_box_at RIGHT (3/10) (rect_box (9/5) (4/5))"

definition timing_bar_at :: "nat \<Rightarrow> nat \<Rightarrow> box" where
  "timing_bar_at i cycle = move_to (4, 3/2 - of_nat i * 7/20) (rect_box (of_nat cycle / 10) (3/10))"

text \<open>The centres the cleanups read; an object no cleanup sees gets the origin.\<close>

definition layout_boxes :: "extents \<Rightarrow> (mob \<times> box) list" where
  "layout_boxes te =
     [(ax_reg, register_at te ax_box_at ax_label ax_value ax_desc),
      (bx_reg, register_at te bx_box_at bx_label bx_value bx_desc),
      (dx_reg, register_at te dx_box_at dx_label dx_value dx_desc),
      (memory_cell, memory_cell_at te), (pc_arrow_shape, pc_arrow_at), (pc_label, pc_label_at te),
      (ir_reg, ir_reg_at te), (control_unit, control_unit_at te), (opcode_bits, opcode_bits_at te),
      (alu, alu_at te)]
     @ map (\<lambda>(i, m). (m, signal_at te i m)) (enumerate 0 (submobjects signal_texts))"

definition script_layout :: "extents \<Rightarrow> geometry" where
  "script_layout te m =
     (case map_of (map (\<lambda>(k, b). (mob_id k, b)) (layout_boxes te)) (mob_id m) of
        Some b \<Rightarrow> box_center b
      | None \<Rightarrow> (0, 0))"

definition layout_texts :: "mob list" where
  "layout_texts =
     [ax_label, ax_value, ax_desc, bx_label, bx_value, bx_desc, dx_label, dx_value, dx_desc,
      memory_addr, memory_instr, pc_label, ir_label, ir_value, cu_label, opcode_bits,
      alu_label, alu_gear] @ submobjects signal_texts"

definition text_extents_ok :: "extents \<Rightarrow> bool" where
  "text_extents_ok te \<longleftrightarrow>
     list_all (\<lambda>m. 0 \<le> fst (te m) \<and> 0 \<le> snd (te m) \<and> snd (te m) \<le> 1) layout_texts"

text \<open>Two boxes overlap when their interiors meet; a box is on screen when it
  lies inside the frame.\<close>

definition boxes_overlap :: "box \<Rightarrow> box \<Rightarrow> bool" where
  "boxes_overlap a b \<longleftrightarrow> bx0 a < bx1 b \<and> bx0 b < bx1 a \<and> by0 a < by1 b \<and> by0 b < by1 a"

definition on_screen :: "box \<Rightarrow> bool" where
  "on_screen b \<longleftrightarrow> - frame_x_radius \<le> bx0 b \<and> bx1 b \<le> frame_x_radius \<and>
     - frame_y_radius \<le> by0 b \<and> by1 b \<le> frame_y_radius"

definition inside_box :: "point \<Rightarrow> box \<Rightarrow> bool" where
  "inside_box p b \<longleftrightarrow> bx0 b < fst p \<and> fst p < bx1 b \<and> by0 b < snd p \<and> snd p < by1 b"

subsection \<open>Positions\<close>

lemma frame_x_radius_value: "frame_x_radius = 64/9"
  by (simp add: frame_x_radius_def frame_y_radius_def pixel_width_def pixel_height_def)

lemma box_sel_simps [simp]:
  "bx0 (shift_box v b) = bx0 b + fst v" "bx1 (shift_box v b) = bx1 b + fst v"
  "by0 (shift_box v b) = by0 b + snd v" "by1 (shift_box v b) = by1 b + snd v"
  "bx0 (rect_box w h) = - w / 2" "bx1 (rect_box w h) = w / 2"
  "by0 (rect_box w h) = - h / 2" "by1 (rect_box w h) = h / 2"
  by (simp_all add: shift_box_def rect_box_def)

lemma move_to_sel [simp]:
  "bx0 (move_to p b) = fst p - (bx1 b - bx0 b) / 2" "bx1 (move_to p b) = fst p + (bx1 b - bx0 b) / 2"
  "by0 (move_to p b) = snd p - (by1 b - by0 b) / 2" "by1 (move_to p b) = snd p + (by1 b - by0 b) / 2"
  by (simp_all add: move_to_def box_center_def field_simps)

lemma next_to_up_sel [simp]:
  "bx0 (next_to t UP d b) = (bx0 t + bx1 t) / 2 - (bx1 b - bx0 b) / 2"
  "bx1 (next_to t UP d b) = (bx0 t + bx1 t) / 2 + (bx1 b - bx0 b) / 2"
  "by0 (next_to t UP d b) = by1 t + d" "by1 (next_to t UP d b) = by1 t + d + (by1 b - by0 b)"
  by (simp_all add: next_to_def box_center_def field_simps)

lemma next_to_down_sel [simp]:
  "bx0 (next_to t DOWN d b) = (bx0 t + bx1 t) / 2 - (bx1 b - bx0 b) / 2"
  "bx1 (next_to t DOWN d b) = (bx0 t + bx1 t) / 2 + (bx1 b - bx0 b) / 2"
  "by0 (next_to t DOWN d b) = by0 t - d - (by1 b - by0 b)" "by1 (next_to t DOWN d b) = by0 t - d"
  by (simp_all add: next_to_def box_center_def field_simps)

lemma next_to_left_sel [simp]:
  "bx0 (next_to t LEFT d b) = bx0 t - d - (bx1 b - bx0 b)" "bx1 (next_to t LEFT d b) = bx0 t - d"
  "by0 (next_to t LEFT d b) = (by0 t + by1 t) / 2 - (by1 b - by0 b) / 2"
  "by1 (next_to t LEFT d b) = (by0 t + by1 t) / 2 + (by1 b - by0 b) / 2"
  by (simp_all add: next_to_def box_center_def field_simps)

lemma next_to_right_sel [simp]:
  "bx0 (next_to t RIGHT d b) = bx1 t + d" "bx1 (next_to t RIGHT d b) = bx1 t + d + (bx1 b - bx0 b)"
  "by0 (next_to t RIGHT d b) = (by0 t + by1 t) / 2 - (by1 b - by0 b) / 2"
  "by1 (next_to t RIGHT d b) = (by0 t + by1 t) / 2 + (by1 b - by0 b) / 2"
  by (simp_all add: next_to_def box_center_def field_simps)

lemma group_box_xsum:
  "bs \<noteq> [] \<Longrightarrow> list_all (\<lambda>b. bx0 b + bx1 b = c) bs \<Longrightarrow> bx0 (group_box bs) + bx1 (group_box bs) = c"
  by (induction bs rule: group_box.induct) (auto simp: union_box_def min_def max_def)

lemma group_box_y0_lower:
  "bs \<noteq> [] \<Longrightarrow> list_all (\<lambda>b. lo \<le> by0 b) bs \<Longrightarrow> lo \<le> by0 (group_box bs)"
  by (induction bs rule: group_box.induct) (auto simp: union_box_def)

lemma group_box_y1_upper:
  "bs \<noteq> [] \<Longrightarrow> list_all (\<lambda>b. by1 b \<le> hi) bs \<Longrightarrow> by1 (group_box bs) \<le> hi"
  by (induction bs rule: group_box.induct) (auto simp: union_box_def)

lemma group_box_y0_member: "b \<in> set bs \<Longrightarrow> by0 (group_box bs) \<le> by0 b"
  by (induction bs rule: group_box.induct) (auto simp: union_box_def)

lemma group_box_y1_member: "b \<in> set bs \<Longrightarrow> by1 b \<le> by1 (group_box bs)"
  by (induction bs rule: group_box.induct) (auto simp: union_box_def)

lemma group_box_hd_y: "by0 (group_box (b # bs)) \<le> by0 b \<and> by1 b \<le> by1 (group_box (b # bs))"
  by (simp add: group_box_y0_member group_box_y1_member)

lemma text_box_sel [simp]:
  "bx1 (text_box te m) - bx0 (text_box te m) = fst (te m)"
  "by1 (text_box te m) - by0 (text_box te m) = snd (te m)"
  by (simp_all add: text_box_def)

lemma register_at_x: "fst (box_center (register_at te b l v d)) = fst (box_center b)"
  unfolding register_at_def box_center_def
  by (subst group_box_xsum [where c = "bx0 b + bx1 b"]) (simp_all add: box_center_def)

lemma script_layout_table:
  "script_layout te ax_reg = box_center (register_at te ax_box_at ax_label ax_value ax_desc)"
  "script_layout te bx_reg = box_center (register_at te bx_box_at bx_label bx_value bx_desc)"
  "script_layout te dx_reg = box_center (register_at te dx_box_at dx_label dx_value dx_desc)"
  "script_layout te memory_cell = box_center (memory_cell_at te)"
  "script_layout te pc_arrow_shape = box_center pc_arrow_at"
  "script_layout te pc_label = box_center (pc_label_at te)"
  "script_layout te ir_reg = box_center (ir_reg_at te)"
  "script_layout te control_unit = box_center (control_unit_at te)"
  "script_layout te opcode_bits = box_center (opcode_bits_at te)"
  "script_layout te alu = box_center (alu_at te)"
  by (simp_all add: script_layout_def layout_boxes_def mob_defs)

lemma group_box_center_x:
  "bs \<noteq> [] \<Longrightarrow> list_all (\<lambda>b. bx0 b + bx1 b = 2 * c) bs \<Longrightarrow> fst (box_center (group_box bs)) = c"
  using group_box_xsum [of bs "2 * c"] by (simp add: box_center_def)

lemma group_center_y_lower:
  assumes "list_all (\<lambda>x. lo \<le> by0 x) (b # bs)" "a \<le> (lo + by1 b) / 2"
  shows "a \<le> snd (box_center (group_box (b # bs)))"
proof -
  have "lo \<le> by0 (group_box (b # bs))"
    by (rule group_box_y0_lower) (use assms in simp_all)
  then show ?thesis
    using group_box_hd_y [of b bs] assms(2) by (simp add: box_center_def del: group_box.simps)
qed

lemma group_center_y_upper:
  assumes "list_all (\<lambda>x. by1 x \<le> hi) (b # bs)" "(by0 b + hi) / 2 \<le> z"
  shows "snd (box_center (group_box (b # bs))) \<le> z"
proof -
  have "by1 (group_box (b # bs)) \<le> hi"
    by (rule group_box_y1_upper) (use assms in simp_all)
  then show ?thesis
    using group_box_hd_y [of b bs] assms(2) by (simp add: box_center_def del: group_box.simps)
qed

lemma register_at_y:
  assumes "2/5 \<le> by1 b - by0 b" "0 \<le> snd (te l)" "snd (te l) \<le> 1" "0 \<le> snd (te v)" "snd (te v) \<le> 1"
    "0 \<le> snd (te d)" "snd (te d) \<le> 1"
  shows "snd (box_center b) - 7/40 \<le> snd (box_center (register_at te b l v d))
       \<and> snd (box_center (register_at te b l v d)) \<le> snd (box_center b) + 3/20"
proof
  show "snd (box_center b) - 7/40 \<le> snd (box_center (register_at te b l v d))"
    unfolding register_at_def by (rule group_center_y_lower [where lo = "by0 b - 7/20"])
       (use assms in \<open>auto simp: box_center_def box_center_def text_box_def field_simps\<close>)
  show "snd (box_center (register_at te b l v d)) \<le> snd (box_center b) + 3/20"
    unfolding register_at_def by (rule group_center_y_upper [where hi = "by1 b + 3/10"])
       (use assms in \<open>auto simp: box_center_def box_center_def text_box_def field_simps\<close>)
qed

lemma register_boxes_at:
  "box_center ax_box_at = (-64/9 + 7/4, 5/2)" "by1 ax_box_at - by0 ax_box_at = 6/5"
  "box_center bx_box_at = (-64/9 + 7/4, 1/10)" "by1 bx_box_at - by0 bx_box_at = 6/5"
  "box_center dx_box_at = (-64/9 + 7/4, -23/10)" "by1 dx_box_at - by0 dx_box_at = 6/5"
  by (simp_all add: ax_box_at_def bx_box_at_def dx_box_at_def box_center_def frame_x_radius_value)

lemma layout_text_bounds:
  assumes "text_extents_ok te"
  shows "list_all (\<lambda>m. 0 \<le> fst (te m) \<and> 0 \<le> snd (te m) \<and> snd (te m) \<le> 1)
           [ax_label, ax_value, ax_desc, bx_label, bx_value, bx_desc, dx_label, dx_value, dx_desc,
            memory_addr, memory_instr, pc_label, ir_label, ir_value, cu_label, opcode_bits,
            alu_label, alu_gear]"
  using assms by (simp add: text_extents_ok_def layout_texts_def)

lemma registers_at:
  assumes "text_extents_ok te"
  shows "fst (script_layout te ax_reg) < -1 \<and> -1 \<le> snd (script_layout te ax_reg) \<and>
         fst (script_layout te bx_reg) < -1 \<and> -1 \<le> snd (script_layout te bx_reg) \<and>
         fst (script_layout te dx_reg) < -1 \<and> snd (script_layout te dx_reg) < -1"
  using layout_text_bounds [OF assms]
    register_at_y [of ax_box_at te ax_label ax_value ax_desc]
    register_at_y [of bx_box_at te bx_label bx_value bx_desc]
    register_at_y [of dx_box_at te dx_label dx_value dx_desc]
  by (simp add: script_layout_table register_at_x register_boxes_at)

lemma memory_cell_at_center:
  assumes "text_extents_ok te"
  shows "fst (box_center (memory_cell_at te)) = 9/2 \<and> 3 \<le> snd (box_center (memory_cell_at te))"
proof
  show "fst (box_center (memory_cell_at te)) = 9/2"
    unfolding memory_cell_at_def
    by (rule group_box_center_x) (simp_all add: box_center_def memory_box_at_def)
  show "3 \<le> snd (box_center (memory_cell_at te))"
    unfolding memory_cell_at_def
    by (rule group_center_y_lower [where lo = "9/4"])
       (use layout_text_bounds [OF assms] in \<open>auto simp: box_center_def memory_box_at_def text_box_def field_simps\<close>)
qed

lemma pc_at:
  assumes "text_extents_ok te"
  shows "box_center pc_arrow_at = (39/20, 3) \<and> fst (box_center (pc_label_at te)) \<le> 19/20"
  using layout_text_bounds [OF assms]
  by (simp add: pc_label_at_def pc_arrow_at_def horizontal_arrow_box_def memory_box_at_def
      box_center_def text_box_def)

lemma ir_reg_at_center:
  assumes "text_extents_ok te"
  shows "fst (box_center (ir_reg_at te)) = 9/2 \<and> -1 \<le> snd (box_center (ir_reg_at te))
       \<and> snd (box_center (ir_reg_at te)) \<le> 3/2"
proof (intro conjI)
  show "fst (box_center (ir_reg_at te)) = 9/2"
    unfolding ir_reg_at_def
    by (rule group_box_center_x) (simp_all add: box_center_def ir_box_at_def memory_box_at_def)
  show "-1 \<le> snd (box_center (ir_reg_at te))"
    unfolding ir_reg_at_def
    by (rule group_center_y_lower [where lo = "-9/20"])
       (use layout_text_bounds [OF assms] in \<open>auto simp: box_center_def ir_box_at_def memory_box_at_def text_box_def field_simps\<close>)
  show "snd (box_center (ir_reg_at te)) \<le> 3/2"
    unfolding ir_reg_at_def
    by (rule group_center_y_upper [where hi = "19/10"])
       (use layout_text_bounds [OF assms] in \<open>auto simp: box_center_def ir_box_at_def memory_box_at_def text_box_def field_simps\<close>)
qed

lemma control_unit_at_center:
  assumes "text_extents_ok te"
  shows "fst (box_center (control_unit_at te)) = 5/2 \<and> -1 \<le> snd (box_center (control_unit_at te))
       \<and> snd (box_center (control_unit_at te)) \<le> 3/2"
proof (intro conjI)
  show "fst (box_center (control_unit_at te)) = 5/2"
    unfolding control_unit_at_def
    by (rule group_box_center_x) (simp_all add: box_center_def cu_box_at_def)
  show "-1 \<le> snd (box_center (control_unit_at te))"
    unfolding control_unit_at_def
    by (rule group_center_y_lower [where lo = "-13/10"])
       (use layout_text_bounds [OF assms] in \<open>auto simp: box_center_def cu_box_at_def text_box_def field_simps\<close>)
  show "snd (box_center (control_unit_at te)) \<le> 3/2"
    unfolding control_unit_at_def
    by (rule group_center_y_upper [where hi = "7/5"])
       (use layout_text_bounds [OF assms] in \<open>auto simp: box_center_def cu_box_at_def text_box_def field_simps\<close>)
qed

lemma alu_at_center:
  assumes "text_extents_ok te"
  shows "fst (box_center (alu_at te)) = 3/2 \<and> -1 \<le> snd (box_center (alu_at te))"
proof
  show "fst (box_center (alu_at te)) = 3/2"
    unfolding alu_at_def
    by (rule group_box_center_x) (simp_all add: box_center_def alu_body_at_def)
  show "-1 \<le> snd (box_center (alu_at te))"
    unfolding alu_at_def
    by (rule group_center_y_lower [where lo = "-8/5"])
       (use layout_text_bounds [OF assms] in \<open>auto simp: box_center_def alu_body_at_def text_box_def field_simps\<close>)
qed

lemma cu_texts_at:
  "box_center (opcode_bits_at te) = (5/2, -1/2) \<and>
   list_all (\<lambda>m. snd (script_layout te m) \<le> 3/2) (submobjects signal_texts)"
  by (simp add: opcode_bits_at_def signal_at_def cu_box_at_def box_center_def script_layout_def
      layout_boxes_def mob_defs control_signals_def)

lemma script_layout_geometry:
  assumes "text_extents_ok te"
  shows "script_geometry (script_layout te)"
  using registers_at [OF assms] memory_cell_at_center [OF assms] pc_at [OF assms]
    ir_reg_at_center [OF assms] control_unit_at_center [OF assms] alu_at_center [OF assms]
    cu_texts_at [of te]
  unfolding script_geometry_def by (simp add: script_layout_table)

text \<open>Every text one unit wide and half a unit high: a rendering the bounds admit.\<close>

lemma unit_extents_ok: "text_extents_ok (\<lambda>_. (1, 1/2))"
  by (simp add: text_extents_ok_def list_all_iff)

subsection \<open>What the layout gets wrong\<close>

text \<open>C10: The detailed flag stage puts its four flag boxes in one row from
  \<open>x = 1\<close> rightwards (lines 943--946). The CF, OF and SF boxes lie inside the
  frame, but the ZF box reaches \<open>x = 8.2\<close>, beyond the right edge at \<open>64/9\<close>:
  it is drawn partly off screen.\<close>

theorem flag_row_leaves_frame:
  "on_screen cf_box_at \<and> on_screen of_box_at \<and> on_screen sf_box_at \<and>
   \<not> on_screen zf_box_at \<and> bx1 zf_box_at = 41/5"
  by (simp add: on_screen_def cf_box_at_def of_box_at_def sf_box_at_def zf_box_at_def
      frame_x_radius_value frame_y_radius_def)

text \<open>C11: Of the four bars of the timing diagram (lines 1063--1067), centred at
  \<open>x = 4\<close> and \<open>cycle/10\<close> wide, exactly the Execute bar (70 cycles, 7 units
  wide) does not fit in the frame: it ends at \<open>x = 7.5\<close>.\<close>

theorem timing_bar_leaves_frame:
  "filter (\<lambda>i. \<not> on_screen (timing_bar_at i (timing_cycles ! i))) [0..<length timing_cycles] = [2] \<and>
   bx1 (timing_bar_at 2 (timing_cycles ! 2)) = 15/2"
  by (simp add: timing_cycles_def upt_rec on_screen_def timing_bar_at_def
      frame_x_radius_value frame_y_radius_def)

end
