(* ===== verification/Script_Invariants.thy ===== *)
theory Script_Invariants
  imports Layout
begin
















end
