(* ===== verification/Script_Trace.thy ===== *)
theory Script_Trace
  imports Script_Run
begin

text \<open>
  What the run of \<open>construct\<close> leaves on screen besides the visible list:
  the text a value caption displays after the write-back's \<open>Transform\<close>, and
  the stroke widths that \<open>set_stroke\<close> leaves on the register boxes and the
  ALU. Each stage gets a lemma saying which of these it changes; the stage
  trace \<open>construct_trace\<close> then gives them after every stage. The indexing
  of the fetch, execute and write-back stages never raises for the script's
  objects, whatever the layout and the starting scene.
\<close>

lemmas display_simps = run_strokes run_shown op_strokes.simps op_shown.simps anim_strokes.simps
  anim_shown.simps mob_defs Let_def

lemma intro_display: "shown (intro_scene_extended s) = shown s \<and> strokes (intro_scene_extended s) = strokes s"
  by (simp add: intro_scene_extended_def display_simps)

lemma arch_display: "shown (cpu_architecture_overview s) = shown s \<and> strokes (cpu_architecture_overview s) = strokes s"
  by (simp add: cpu_architecture_overview_def display_simps cpu_components_def pipeline_steps_def)

lemma regs_display: "shown (fst (setup_registers_detailed s)) = shown s \<and> strokes (fst (setup_registers_detailed s)) = strokes s"
  by (simp add: setup_registers_detailed_def display_simps)

lemma mem_display: "shown (fst (setup_memory_and_pc_detailed s)) = shown s \<and> strokes (fst (setup_memory_and_pc_detailed s)) = strokes s"
  by (simp add: setup_memory_and_pc_detailed_def)

lemma fetch_display:
  assumes "instruction_fetch_detailed g memory_cell pc_arrow ir_reg s = Inr s'"
  shows "shown s' = shown s \<and> strokes s' 23 = strokes s 23 \<and> strokes s' 24 = strokes s 24 \<and>
    strokes s' 25 = strokes s 25 \<and> strokes s' 63 = strokes s 63"
  using assms
  apply (simp only: instruction_fetch_detailed_def instruction_fetch_def Let_def script_getitems
      res_bind_Inr sum.inject)
  apply (erule subst)
  apply (simp add: display_simps)
  done

lemma decode_display:
  "shown (fst (decode_instruction_detailed ir_reg s)) = shown s \<and>
   strokes (fst (decode_instruction_detailed ir_reg s)) 23 = strokes s 23 \<and>
   strokes (fst (decode_instruction_detailed ir_reg s)) 24 = strokes s 24 \<and>
   strokes (fst (decode_instruction_detailed ir_reg s)) 25 = strokes s 25 \<and>
   strokes (fst (decode_instruction_detailed ir_reg s)) 63 = strokes s 63"
  by (simp add: decode_instruction_detailed_def decode_instruction_def display_simps control_signals_def)

lemma alu_display: "shown (fst (setup_alu_detailed g s)) = shown s \<and> strokes (fst (setup_alu_detailed g s)) = strokes s"
  by (simp add: setup_alu_detailed_def Let_def)

lemma execute_display:
  assumes "execute_multiplication_detailed g alu ax_reg bx_reg s = Inr s'"
  shows "shown s' = shown s \<and> strokes s' 23 = strokes s 23 \<and> strokes s' 24 = strokes s 24 \<and>
    strokes s' 25 = strokes s 25 \<and> strokes s' 63 = Some 0"
  using assms
  apply (simp only: execute_multiplication_detailed_def Let_def script_getitems res_bind_Inr sum.inject)
  apply (erule subst)
  apply (simp add: display_simps calc_steps_def)
  done

lemma writeback_display:
  assumes "write_back_results_detailed alu ax_reg dx_reg s = Inr s'"
  shows "shown s' = (shown s)(27 := shows_text (shown s) new_ax_value, 33 := shows_text (shown s) new_dx_value) \<and>
    strokes s' 23 = Some 0 \<and> strokes s' 24 = strokes s 24 \<and>
    strokes s' 25 = Some 0 \<and> strokes s' 63 = strokes s 63"
  using assms
  apply (simp only: write_back_results_detailed_def write_back_results_def Let_def script_getitems
      res_bind_Inr sum.inject)
  apply (erule subst)
  apply (simp add: display_simps scene_ops_fields fun_eq_iff shows_text_def)
  done

lemma flags_display: "shown (update_flags_detailed g s) = shown s \<and>
    strokes (update_flags_detailed g s) 23 = strokes s 23 \<and> strokes (update_flags_detailed g s) 24 = strokes s 24 \<and>
    strokes (update_flags_detailed g s) 25 = strokes s 25 \<and> strokes (update_flags_detailed g s) 63 = strokes s 63"
  by (simp add: update_flags_detailed_def display_simps numeral_2_eq_2)

lemma perf_display: "shown (performance_analysis g s) = shown s \<and> strokes (performance_analysis g s) = strokes s"
  by (simp add: performance_analysis_def display_simps timing_stages_def timing_cycles_def)

lemma final_display: "shown (final_summary_extended ax_reg dx_reg s) = shown s \<and>
    strokes (final_summary_extended ax_reg dx_reg s) 23 = Some 6 \<and>
    strokes (final_summary_extended ax_reg dx_reg s) 24 = strokes s 24 \<and>
    strokes (final_summary_extended ax_reg dx_reg s) 25 = Some 6 \<and>
    strokes (final_summary_extended ax_reg dx_reg s) 63 = strokes s 63"
  by (simp add: final_summary_extended_def display_simps)

lemma operand_display:
  "shown (operand_fetch_detailed ax_reg bx_reg alu s) = shown s \<and>
   strokes (operand_fetch_detailed ax_reg bx_reg alu s) 23 = Some 0 \<and>
   strokes (operand_fetch_detailed ax_reg bx_reg alu s) 24 = Some 0 \<and>
   strokes (operand_fetch_detailed ax_reg bx_reg alu s) 25 = strokes s 25 \<and>
   strokes (operand_fetch_detailed ax_reg bx_reg alu s) 63 = strokes s 63"
  by (simp add: operand_fetch_detailed_def operand_fetch_def display_simps)

lemma stages_never_raise:
  "\<exists>s'. instruction_fetch_detailed g memory_cell pc_arrow ir_reg s = Inr s'"
  "\<exists>s'. execute_multiplication_detailed g alu ax_reg bx_reg s = Inr s'"
  "\<exists>s'. write_back_results_detailed alu ax_reg dx_reg s = Inr s'"
  by (simp_all add: instruction_fetch_detailed_def instruction_fetch_def execute_multiplication_detailed_def
      write_back_results_detailed_def write_back_results_def script_getitems Let_def)

lemma construct_trace_shape:
  fixes s0 :: scene
  defines "s1 \<equiv> intro_scene_extended s0"
  defines "s2 \<equiv> cpu_architecture_overview s1"
  defines "s3 \<equiv> fst (setup_registers_detailed s2)"
  defines "s4 \<equiv> fst (setup_memory_and_pc_detailed s3)"
  obtains s5 s9 s10 where
    "instruction_fetch_detailed g memory_cell pc_arrow ir_reg s4 = Inr s5"
    "execute_multiplication_detailed g alu ax_reg bx_reg
       (operand_fetch_detailed ax_reg bx_reg alu (fst (setup_alu_detailed g (fst (decode_instruction_detailed ir_reg s5))))) = Inr s9"
    "write_back_results_detailed alu ax_reg dx_reg s9 = Inr s10"
    "construct_trace g s0 = Inr [s1, s2, s3, s4, s5, fst (decode_instruction_detailed ir_reg s5),
       fst (setup_alu_detailed g (fst (decode_instruction_detailed ir_reg s5))),
       operand_fetch_detailed ax_reg bx_reg alu (fst (setup_alu_detailed g (fst (decode_instruction_detailed ir_reg s5)))),
       s9, s10, update_flags_detailed g s10, performance_analysis g (update_flags_detailed g s10),
       final_summary_extended ax_reg dx_reg (performance_analysis g (update_flags_detailed g s10))]"
proof -
  obtain s5 where f5: "instruction_fetch_detailed g memory_cell pc_arrow ir_reg s4 = Inr s5"
    using stages_never_raise(1) by blast
  obtain s9 where f9: "execute_multiplication_detailed g alu ax_reg bx_reg
       (operand_fetch_detailed ax_reg bx_reg alu (fst (setup_alu_detailed g (fst (decode_instruction_detailed ir_reg s5))))) = Inr s9"
    using stages_never_raise(2) by blast
  obtain s10 where f10: "write_back_results_detailed alu ax_reg dx_reg s9 = Inr s10"
    using stages_never_raise(3) by blast
  show ?thesis
    by (rule that [OF f5 f9 f10])
       (use f5 f9 f10 in \<open>simp add: construct_trace_prefix s1_def s2_def s3_def s4_def Let_def\<close>)
qed

lemma construct_trace_display:
  obtains ss where "construct_trace g init_scene = Inr ss"
    "map (\<lambda>s. displayed s ax_value) ss =
      [Some ''0xFFFF'', Some ''0xFFFF'', Some ''0xFFFF'', Some ''0xFFFF'', Some ''0xFFFF'', Some ''0xFFFF'', Some ''0xFFFF'', Some ''0xFFFF'', Some ''0xFFFF'', Some ''0x0001'', Some ''0x0001'', Some ''0x0001'', Some ''0x0001'']"
    "map (\<lambda>s. displayed s dx_value) ss =
      [Some ''0x0000'', Some ''0x0000'', Some ''0x0000'', Some ''0x0000'', Some ''0x0000'', Some ''0x0000'', Some ''0x0000'', Some ''0x0000'', Some ''0x0000'', Some ''0xFFFE'', Some ''0xFFFE'', Some ''0xFFFE'', Some ''0xFFFE'']"
    "map (\<lambda>s. strokes s (mob_id ax_box)) ss = [None, None, None, None, None, None, None, Some 0, Some 0, Some 0, Some 0, Some 0, Some 6]"
    "map (\<lambda>s. strokes s (mob_id bx_box)) ss = [None, None, None, None, None, None, None, Some 0, Some 0, Some 0, Some 0, Some 0, Some 0]"
    "map (\<lambda>s. strokes s (mob_id dx_box)) ss = [None, None, None, None, None, None, None, None, None, Some 0, Some 0, Some 0, Some 6]"
    "map (\<lambda>s. strokes s (mob_id alu_body)) ss = [None, None, None, None, None, None, None, None, Some 0, Some 0, Some 0, Some 0, Some 0]"
proof -
  obtain s5 s9 s10 where f5: "instruction_fetch_detailed g memory_cell pc_arrow ir_reg
      (fst (setup_memory_and_pc_detailed (fst (setup_registers_detailed
        (cpu_architecture_overview (intro_scene_extended init_scene)))))) = Inr s5"
    and f9: "execute_multiplication_detailed g alu ax_reg bx_reg
       (operand_fetch_detailed ax_reg bx_reg alu (fst (setup_alu_detailed g (fst (decode_instruction_detailed ir_reg s5))))) = Inr s9"
    and f10: "write_back_results_detailed alu ax_reg dx_reg s9 = Inr s10"
    and tr: "construct_trace g init_scene = Inr [intro_scene_extended init_scene,
       cpu_architecture_overview (intro_scene_extended init_scene),
       fst (setup_registers_detailed (cpu_architecture_overview (intro_scene_extended init_scene))),
       fst (setup_memory_and_pc_detailed (fst (setup_registers_detailed
         (cpu_architecture_overview (intro_scene_extended init_scene))))),
       s5, fst (decode_instruction_detailed ir_reg s5),
       fst (setup_alu_detailed g (fst (decode_instruction_detailed ir_reg s5))),
       operand_fetch_detailed ax_reg bx_reg alu (fst (setup_alu_detailed g (fst (decode_instruction_detailed ir_reg s5)))),
       s9, s10, update_flags_detailed g s10, performance_analysis g (update_flags_detailed g s10),
       final_summary_extended ax_reg dx_reg (performance_analysis g (update_flags_detailed g s10))]"
    by (rule construct_trace_shape)
  note e = fetch_display [OF f5] execute_display [OF f9] writeback_display [OF f10]
  have ids: "mob_id ax_box = 23" "mob_id bx_box = 24" "mob_id dx_box = 25" "mob_id alu_body = 63"
    "mob_id ax_value = 27" "mob_id dx_value = 33"
    "text_of ax_value = Some ''0xFFFF''" "text_of dx_value = Some ''0x0000''"
    "text_of new_ax_value = Some ''0x0001''" "text_of new_dx_value = Some ''0xFFFE''"
    "mob_id new_ax_value = 85" "mob_id new_dx_value = 86"
    by (simp_all add: mob_defs text_of_def)
  show thesis
    using e by (intro that [OF tr]) (simp_all add: intro_display arch_display regs_display mem_display decode_display alu_display
        operand_display flags_display perf_display final_display displayed_def shows_text_def
        ids init_scene_def)
qed

subsection \<open>Where the script can raise\<close>

text \<open>C5: Whatever the geometry and the starting scene, \<open>construct\<close> never raises:
  the groups the script indexes are its own, with enough parts.\<close>

theorem construct_never_raises: "\<not> isl (mul8086_construct g s0)"
proof -
  obtain s5 s9 s10 ss where "construct_trace g s0 = Inr ss"
    by (rule construct_trace_shape) blast
  then show ?thesis
    by (simp add: construct_trace_last)
qed

end
