(* ===== verification/Mul8086.thy ===== *)
theory Mul8086
  imports Prelude
begin

text \<open>
  Reference semantics of what the animation depicts: the 8086 instruction
  \<open>MUL r/m16\<close> (\<open>DX:AX := AX * src\<close>, unsigned; \<open>CF = OF = (DX \<noteq> 0)\<close>; SF, ZF,
  AF and PF undefined), the decoding of its ModRM byte, and the renderings of
  numbers the script's captions use: \<open>0x\<close>-prefixed four-digit upper-case
  hexadecimal with its parser, binary digit strings, and decimal with
  thousands separators as Python's \<open>f"{n:,}"\<close> prints it. The script computes
  none of these values: its captions are literals, and \<open>Content\<close> checks them
  against these definitions.
\<close>

unbundle bit_operations_syntax

record mul_result =
  mul_dx :: "16 word"
  mul_ax :: "16 word"
  mul_cf :: bool
  mul_of :: bool

definition mul16 :: "16 word \<Rightarrow> 16 word \<Rightarrow> mul_result" where
  "mul16 ax src =
     (let p = unat ax * unat src; hi = (of_nat (p div 2 ^ 16) :: 16 word)
      in \<lparr>mul_dx = hi, mul_ax = of_nat p, mul_cf = (hi \<noteq> 0), mul_of = (hi \<noteq> 0)\<rparr>)"

definition dxax :: "mul_result \<Rightarrow> 32 word" where
  "dxax r = of_nat (unat (mul_dx r) * 2 ^ 16 + unat (mul_ax r))"

fun find_pos :: "char \<Rightarrow> string \<Rightarrow> nat option" where
  "find_pos c [] = None"
| "find_pos c (x # xs) = (if c = x then Some 0 else map_option Suc (find_pos c xs))"

definition hex16 :: "16 word \<Rightarrow> string" where
  "hex16 w = ''0x'' @ digits_fixed 16 4 (unat w)"

definition digit_val :: "char \<Rightarrow> nat option" where
  "digit_val c = find_pos c digit_alphabet"

fun parse_digits :: "nat \<Rightarrow> nat \<Rightarrow> string \<Rightarrow> nat option" where
  "parse_digits b acc [] = Some acc"
| "parse_digits b acc (c # cs) =
     (case digit_val c of
        Some d \<Rightarrow> if d < b then parse_digits b (b * acc + d) cs else None
      | None \<Rightarrow> None)"

definition hex32 :: "32 word \<Rightarrow> string" where
  "hex32 w = ''0x'' @ digits_fixed 16 8 (unat w)"

text \<open>\<open>f"{n:,}"\<close>: groups of three digits separated by commas.\<close>

fun py_thousands :: "nat \<Rightarrow> string" where
  "py_thousands n =
     (if n < 1000 then py_str_nat n else py_thousands (n div 1000) @ '','' @ digits_fixed 10 3 (n mod 1000))"

subsection \<open>ModRM decoding of the group-3 opcode F7\<close>

definition modrm_mod :: "8 word \<Rightarrow> nat" where "modrm_mod m = unat (drop_bit 6 m)"
definition modrm_reg :: "8 word \<Rightarrow> nat" where "modrm_reg m = unat (drop_bit 3 m AND 7)"
definition modrm_rm :: "8 word \<Rightarrow> nat" where "modrm_rm m = unat (m AND 7)"

definition reg16_names :: "string list" where
  "reg16_names = [''AX'', ''CX'', ''DX'', ''BX'', ''SP'', ''BP'', ''SI'', ''DI'']"

definition grp3_mnemonics :: "string list" where
  "grp3_mnemonics = [''TEST'', ''TEST'', ''NOT'', ''NEG'', ''MUL'', ''IMUL'', ''DIV'', ''IDIV'']"

text \<open>\<open>F7 /r\<close> with a register operand (\<open>mod = 3\<close>); memory operands are not
  decoded.\<close>

definition decode_f7 :: "8 word \<Rightarrow> 8 word \<Rightarrow> string option" where
  "decode_f7 opc m =
     (if opc = 0xF7 \<and> modrm_mod m = 3
      then Some (grp3_mnemonics ! modrm_reg m @ '' '' @ reg16_names ! modrm_rm m) else None)"

subsection \<open>Parsing hexadecimal\<close>

definition parse_hex16 :: "string \<Rightarrow> 16 word option" where
  "parse_hex16 s =
     (if take 2 s = ''0x'' \<and> length s = 6 then map_option of_nat (parse_digits 16 0 (drop 2 s)) else None)"

lemma unat_less_2p: "unat (w :: 'a::len word) < 2 ^ LENGTH('a)"
  by (rule unsigned_less)

lemma mul16_product_bound: "unat (a :: 16 word) * unat (b :: 16 word) div 2 ^ 16 < 2 ^ 16"
proof -
  have "unat a < 2 ^ 16" "unat b < 2 ^ 16"
    using unat_less_2p [of a] unat_less_2p [of b] by simp_all
  then have "unat a * unat b < 2 ^ 16 * 2 ^ 16"
    by (intro mult_strict_mono) simp_all
  then show ?thesis
    by (simp add: less_mult_imp_div_less)
qed

lemma find_pos_nth: "distinct xs \<Longrightarrow> d < length xs \<Longrightarrow> find_pos (xs ! d) xs = Some d"
proof (induction xs arbitrary: d)
  case (Cons x xs)
  then show ?case
    by (cases d) (auto simp: nth_mem)
qed simp

lemma digit_val_digit_char: "d < 36 \<Longrightarrow> digit_val (digit_char d) = Some d"
  unfolding digit_val_def digit_char_def
  by (rule find_pos_nth) (simp_all add: digit_alphabet_def)

lemma parse_digits_append:
  "parse_digits b acc (xs @ ys) = (case parse_digits b acc xs of None \<Rightarrow> None | Some a \<Rightarrow> parse_digits b a ys)"
  by (induction b acc xs rule: parse_digits.induct) (simp_all split: option.split)

lemma parse_digits_fixed:
  assumes "0 < b" "b \<le> 36"
  shows "parse_digits b acc (digits_fixed b n v) = Some (acc * b ^ n + v mod b ^ n)"
proof (induction n arbitrary: v acc)
  case 0
  then show ?case by simp
next
  case (Suc n)
  have "v mod b < 36" using assms by (meson order_less_le_trans mod_less_divisor)
  then have "parse_digits b (acc * b ^ n + v div b mod b ^ n) [digit_char (v mod b)] =
      Some (b * (acc * b ^ n + v div b mod b ^ n) + v mod b)"
    using assms by (simp add: digit_val_digit_char)
  moreover have "b * (acc * b ^ n + v div b mod b ^ n) + v mod b = acc * b ^ Suc n + v mod b ^ Suc n"
    by (simp add: mod_mult2_eq algebra_simps)
  ultimately show ?case
    by (simp add: parse_digits_append Suc.IH)
qed

lemma parse_hex16_hex16: "parse_hex16 (hex16 w) = Some w"
proof -
  have "unat w mod 16 ^ 4 = unat w"
    using unat_less_2p [of w] by simp
  then show ?thesis
    by (simp add: parse_hex16_def hex16_def parse_digits_fixed del: digits_fixed_numeral)
qed

lemma hex16_inj: "hex16 a = hex16 b \<Longrightarrow> a = b"
  by (metis option.inject parse_hex16_hex16)

lemma mul16_exact: "unat (mul_dx (mul16 a b)) * 2 ^ 16 + unat (mul_ax (mul16 a b)) = unat a * unat b"
  using mul16_product_bound [of a b]
  by (simp add: mul16_def Let_def unat_of_nat del: of_nat_mult)

lemma mul16_ax_wraps: "mul_ax (mul16 a b) = a * b"
  by (simp add: mul16_def Let_def)

lemma mul16_dx_unat: "unat (mul_dx (mul16 a b)) = unat a * unat b div 2 ^ 16"
  using mul16_product_bound [of a b] by (simp add: mul16_def Let_def unat_of_nat)

lemma mul16_cf: "mul_cf (mul16 a b) \<longleftrightarrow> 2 ^ 16 \<le> unat a * unat b"
proof -
  have "mul_cf (mul16 a b) \<longleftrightarrow> 0 < unat (mul_dx (mul16 a b))"
    by (simp add: mul16_def Let_def unat_gt_0)
  then show ?thesis
    by (auto simp: mul16_dx_unat div_eq_0_iff)
qed

lemma dxax_mul16: "unat (dxax (mul16 a b)) = unat a * unat b"
proof -
  have "unat a < 2 ^ 16" "unat b < 2 ^ 16"
    using unat_less_2p [of a] unat_less_2p [of b] by simp_all
  then have "unat a * unat b < 2 ^ 32"
    using mult_strict_mono [of "unat a" "2 ^ 16" "unat b" "2 ^ 16"] by simp
  then show ?thesis
    using mul16_exact [of a b] by (simp add: dxax_def unat_of_nat del: of_nat_add of_nat_mult)
qed

lemma unat_and_7: "unat (w AND 7 :: 8 word) = unat w mod 8"
proof -
  have "w AND 7 = take_bit 3 w"
    by (simp add: take_bit_eq_mask mask_eq_exp_minus_1)
  then show ?thesis
    by (simp only: unsigned_take_bit_eq) (simp add: take_bit_eq_mod)
qed

lemma modrm_fields:
  "modrm_mod m = unat m div 64" "modrm_reg m = unat m div 8 mod 8" "modrm_rm m = unat m mod 8"
  by (simp_all only: modrm_mod_def modrm_reg_def modrm_rm_def unat_and_7 unat_drop_bit_eq
      drop_bit_eq_div) (simp_all add: unat_div)

lemma modrm_split: "modrm_mod m * 64 + modrm_reg m * 8 + modrm_rm m = unat m"
proof -
  have "unat m mod 64 = 8 * (unat m div 8 mod 8) + unat m mod 8"
    using mod_mult2_eq [of "unat m" 8 8] by simp
  then show ?thesis
    unfolding modrm_fields by (metis add.assoc div_mult_mod_eq mult.commute)
qed

end
