(* ===== verification/Content.thy ===== *)
theory Content
  imports Stages_Execute Mul8086
begin

text \<open>
  The numbers the live path of the animation shows, checked against the
  reference semantics of \<open>MUL r/m16\<close> in \<open>Mul8086\<close>: the captions are string
  literals of src/manim_8086_mul.py, and the lemmas below read them back
  (hexadecimal through \<open>parse_hex16\<close>, lines through \<open>py_split_nl\<close>) and compare
  them with what the instruction computes from the operands the registers
  display.
\<close>

text \<open>The lines of a text object; no lines for an object without text.\<close>

definition text_lines :: "mob \<Rightarrow> string list" where
  "text_lines m = (case text_of m of Some t \<Rightarrow> py_split_nl t | None \<Rightarrow> [])"

definition flag_digit :: "bool \<Rightarrow> string" where
  "flag_digit b = (if b then ''1'' else ''0'')"

lemma text_lines_Text:
  "ls \<noteq> [] \<Longrightarrow> list_all (\<lambda>l. CHR 0x0A \<notin> set l) ls \<Longrightarrow>
   text_lines (Mob i (Text fs (py_lines ls)) cs) = ls"
  by (simp add: text_lines_def text_of_def py_split_nl_lines list_all_iff)

lemma hex16_literals:
  "hex16 0xFFFF = ''0xFFFF''" "hex16 0xFFFE = ''0xFFFE''" "hex16 1 = ''0x0001''" "hex16 0 = ''0x0000''"
  by (simp_all add: hex16_def digit_char_def digit_alphabet_def)

lemma mul16_FFFF: "mul16 0xFFFF 0xFFFF = \<lparr>mul_dx = 0xFFFE, mul_ax = 1, mul_cf = True, mul_of = True\<rparr>"
  by (simp add: mul16_def)








lemma opcode_lines: "text_lines opcode_bits = [''F7 = 11110111'', ''4 = 100 (reg)'']"
  unfolding opcode_bits_def by (rule text_lines_Text) simp_all

lemma memory_instr_lines: "text_lines memory_instr = [''F7 E3'', ''(MUL BX)'']"
  unfolding memory_instr_def by (rule text_lines_Text) simp_all

text \<open>C4: For the operands the AX and BX registers display (whatever 16-bit
  values those captions name), the values written back into AX and DX and the
  CF and OF flags the animation shows are exactly what \<open>MUL BX\<close> computes.\<close>

theorem writeback_shows_mul_result:
  assumes "text_of ax_value = Some (hex16 a)" and "text_of bx_value = Some (hex16 b)"
  shows "text_of new_ax_value = Some (hex16 (mul_ax (mul16 a b))) \<and>
         text_of new_dx_value = Some (hex16 (mul_dx (mul16 a b))) \<and>
         text_of cf_value = Some (flag_digit (mul_cf (mul16 a b))) \<and>
         text_of of_value = Some (flag_digit (mul_of (mul16 a b)))"
proof -
  have "hex16 a = hex16 0xFFFF" "hex16 b = hex16 0xFFFF"
    using assms by (simp_all add: text_of_def mob_defs hex16_literals)
  then have "a = 0xFFFF" "b = 0xFFFF"
    by (simp_all add: hex16_inj)
  then show ?thesis
    by (simp add: mul16_FFFF hex16_literals text_of_def mob_defs flag_digit_def)
qed

theorem writeback_shows_mul_result_witness:
  "text_of ax_value = Some (hex16 0xFFFF) \<and> text_of bx_value = Some (hex16 0xFFFF) \<and>
   text_of new_ax_value = Some (hex16 (mul_ax (mul16 0xFFFF 0xFFFF))) \<and>
   text_of new_dx_value = Some (hex16 (mul_dx (mul16 0xFFFF 0xFFFF))) \<and>
   text_of cf_value = Some (flag_digit (mul_cf (mul16 0xFFFF 0xFFFF))) \<and>
   text_of of_value = Some (flag_digit (mul_of (mul16 0xFFFF 0xFFFF)))"
proof -
  have a: "text_of ax_value = Some (hex16 0xFFFF)" and b: "text_of bx_value = Some (hex16 0xFFFF)"
    by (simp_all add: text_of_def mob_defs hex16_literals)
  show ?thesis
    using a b writeback_shows_mul_result [OF a b] by blast
qed


text \<open>C15: The instruction the memory cell and the instruction register show,
  the bytes F7 E3, decodes as \<open>MUL BX\<close> (opcode F7, ModRM E3: register operand,
  extension /4, register 3), and the decode stage's caption gives F7 in binary
  and the ModRM reg field 4 as 100, as the encoding has them.\<close>

theorem instruction_bytes_decode:
  "text_of ir_value = Some (digits_fixed 16 2 0xF7 @ '' '' @ digits_fixed 16 2 0xE3) \<and>
   decode_f7 0xF7 0xE3 = Some ''MUL BX'' \<and>
   text_lines memory_instr = [the (text_of ir_value), ''('' @ the (decode_f7 0xF7 0xE3) @ '')''] \<and>
   text_lines opcode_bits = [''F7 = '' @ digits_fixed 2 8 0xF7,
     py_str_nat (modrm_reg 0xE3) @ '' = '' @ digits_fixed 2 3 (modrm_reg 0xE3) @ '' (reg)'']"
  by (simp add: text_of_def ir_value_def memory_instr_lines opcode_lines decode_f7_def modrm_fields
      grp3_mnemonics_def reg16_names_def digit_char_def digit_alphabet_def)

end
