(* ===== verification/Stages_Unused.thy ===== *)
theory Stages_Unused
  imports Content
begin

text \<open>
  The four methods of \<open>MUL8086Animation\<close> that \<open>construct\<close> never calls
  (src/manim_8086_mul.py): \<open>setup_registers\<close>, \<open>execute_multiplication\<close>,
  \<open>update_flags\<close> and \<open>final_summary\<close>, the plain versions the detailed
  stages replaced, and the separate scene \<open>TestAnimation\<close>
  (src/test_manim.py). Their objects get identities of their own, after
  those of the live stages; their names carry the suffix \<open>_plain\<close> where the
  source reuses a name of a live stage.
\<close>

subsection \<open>setup_registers (lines 163--217)\<close>

definition ax_box_plain :: mob where [mob_defs]: "ax_box_plain = Mob 125 (Rectangle (11/5) (6/5)) []"
definition bx_box_plain :: mob where [mob_defs]: "bx_box_plain = Mob 126 (Rectangle (11/5) (6/5)) []"
definition dx_box_plain :: mob where [mob_defs]: "dx_box_plain = Mob 127 (Rectangle (11/5) (6/5)) []"
definition ax_label_plain :: mob where [mob_defs]: "ax_label_plain = Mob 128 (Text 22 ''AX'') []"
definition ax_value_plain :: mob where [mob_defs]: "ax_value_plain = Mob 129 (Text 18 ''0x9000'') []"
definition bx_label_plain :: mob where [mob_defs]: "bx_label_plain = Mob 130 (Text 22 ''BX'') []"
definition bx_value_plain :: mob where [mob_defs]: "bx_value_plain = Mob 131 (Text 18 ''0x0003'') []"
definition dx_label_plain :: mob where [mob_defs]: "dx_label_plain = Mob 132 (Text 22 ''DX'') []"
definition dx_value_plain :: mob where [mob_defs]: "dx_value_plain = Mob 133 (Text 18 ''0x0000'') []"
definition ax_reg_plain :: mob where [mob_defs]:
  "ax_reg_plain = Mob 134 VGroup [ax_box_plain, ax_label_plain, ax_value_plain]"
definition bx_reg_plain :: mob where [mob_defs]:
  "bx_reg_plain = Mob 135 VGroup [bx_box_plain, bx_label_plain, bx_value_plain]"
definition dx_reg_plain :: mob where [mob_defs]:
  "dx_reg_plain = Mob 136 VGroup [dx_box_plain, dx_label_plain, dx_value_plain]"
definition reg_desc_plain :: mob where [mob_defs]:
  "reg_desc_plain = Mob 137 (Text 30 ''Initial Register Values'') []"

definition setup_registers :: "scene \<Rightarrow> scene \<times> mob \<times> mob \<times> mob" where [stage_defs]:
  "setup_registers s = (run
     [Play [GrowFromCenter ax_reg_plain, GrowFromCenter bx_reg_plain, GrowFromCenter dx_reg_plain] 2,
      Play [FadeIn reg_desc_plain] 1,
      Wait (3/2),
      Play [FadeOut reg_desc_plain] (1/2)] s,
     ax_reg_plain, bx_reg_plain, dx_reg_plain)"

subsection \<open>execute_multiplication (lines 542--591)\<close>

definition exec_title_plain :: mob where [mob_defs]:
  "exec_title_plain = Mob 138 (Text 32 ''Execute Multiplication'') []"
definition calc_text_plain :: mob where [mob_defs]:
  "calc_text_plain = Mob 139 (Text 22 (''0x9000 '' @ u_times @ '' 0x0003'')) []"
definition result_text_plain :: mob where [mob_defs]:
  "result_text_plain = Mob 140 (Text 22 ''= 0x1B200'') []"
definition decimal_text_plain :: mob where [mob_defs]:
  "decimal_text_plain = Mob 141 (Text 16 ''(110592 decimal)'') []"

text \<open>Line 557 indexes \<open>alu[2]\<close>; \<open>Rotate(gear, run_time=3)\<close> sets the length
  of its \<open>play\<close>.\<close>

definition execute_multiplication :: "mob \<Rightarrow> mob \<Rightarrow> mob \<Rightarrow> scene \<Rightarrow> py_error + scene" where [stage_defs]:
  "execute_multiplication alu_grp axr bxr s =
     res_bind (getitem alu_grp 2) (\<lambda>gear.
       Inr (run
         [Play [FadeIn exec_title_plain] 1,
          Play [Set_stroke alu_grp 4] 1,
          Play [Rotate gear] 3,
          Play [Write calc_text_plain] (3/2),
          Play [Write result_text_plain] (3/2),
          Play [FadeIn decimal_text_plain] 1,
          Wait (3/2),
          Play [FadeOut exec_title_plain, FadeOut calc_text_plain, FadeOut result_text_plain,
                FadeOut decimal_text_plain, Set_stroke alu_grp 0] (6/5)] s))"

subsection \<open>update_flags (lines 681--747)\<close>

definition flags_title_plain :: mob where [mob_defs]:
  "flags_title_plain = Mob 142 (Text 32 ''Update Status Flags'') []"
definition cf_box_plain :: mob where [mob_defs]: "cf_box_plain = Mob 143 (Rectangle 2 1) []"
definition of_box_plain :: mob where [mob_defs]: "of_box_plain = Mob 144 (Rectangle 2 1) []"
definition cf_label_plain :: mob where [mob_defs]: "cf_label_plain = Mob 145 (Text 16 ''CF (Carry)'') []"
definition cf_value_plain :: mob where [mob_defs]: "cf_value_plain = Mob 146 (Text 20 ''0'') []"
definition of_label_plain :: mob where [mob_defs]: "of_label_plain = Mob 147 (Text 16 ''OF (Overflow)'') []"
definition of_value_plain :: mob where [mob_defs]: "of_value_plain = Mob 148 (Text 20 ''0'') []"
definition cf_flag_plain :: mob where [mob_defs]:
  "cf_flag_plain = Mob 149 VGroup [cf_box_plain, cf_label_plain, cf_value_plain]"
definition of_flag_plain :: mob where [mob_defs]:
  "of_flag_plain = Mob 150 VGroup [of_box_plain, of_label_plain, of_value_plain]"
definition flag_explanation_plain :: mob where [mob_defs]:
  "flag_explanation_plain = Mob 151 (Text 16 ''CF=0, OF=0: Result fits in 16 bits'') []"

definition update_flags :: "scene \<Rightarrow> scene" where [stage_defs]:
  "update_flags =
     run
       ([Play [FadeIn flags_title_plain] 1,
         Play [GrowFromCenter cf_flag_plain, GrowFromCenter of_flag_plain] (3/2)]
        @ concat (replicate 2
            [Play [Set_stroke cf_flag_plain 4, Set_stroke of_flag_plain 4] (2/5),
             Play [Set_stroke cf_flag_plain 0, Set_stroke of_flag_plain 0] (2/5)])
        @ [Play [FadeIn flag_explanation_plain] (3/2),
           Wait 1,
           Play [FadeOut flags_title_plain, FadeOut cf_flag_plain, FadeOut of_flag_plain,
                 FadeOut flag_explanation_plain] (6/5)])"

subsection \<open>final_summary (lines 749--799)\<close>

definition final_title_plain :: mob where [mob_defs]:
  "final_title_plain = Mob 152 (Text 42 ''Execution Complete'') []"
definition summary_plain :: mob where [mob_defs]:
  "summary_plain = Mob 153 (Text 20 (py_lines
     [''MUL BX Instruction Executed Successfully'', '''',
      ''Original Values:'',
      ''AX = 0x9000 (36864 decimal)'',
      ''BX = 0x0003 (3 decimal)'', '''',
      ''Final Result:'',
      ''DX:AX = 0x0001:0xB200'',
      ''= 110592 decimal''])) []"

text \<open>The registers are moved (lines 778--779) after they are added back; the
  move changes only their position.\<close>

definition final_summary :: "mob \<Rightarrow> mob \<Rightarrow> scene \<Rightarrow> scene" where [stage_defs]:
  "final_summary axr dxr = run
     [Clear,
      Add [axr, dxr],
      Play [FadeIn final_title_plain] 2,
      Play [Write summary_plain] 3,
      Play [Set_stroke axr 6, Set_stroke dxr 6] 2,
      Wait 3]"

subsection \<open>TestAnimation.construct (src/test_manim.py, lines 4--21)\<close>

text \<open>\<open>title.copy()\<close> is a new object: the glow is a second text of its own.\<close>

definition test_title :: mob where [mob_defs]: "test_title = Mob 154 (Text 72 ''8086 MUL Test'') []"
definition test_title_glow :: mob where [mob_defs]: "test_title_glow = Mob 155 (Text 72 ''8086 MUL Test'') []"

definition test_construct :: "scene \<Rightarrow> scene" where [stage_defs]:
  "test_construct = run
     [Play [FadeIn test_title_glow, Write test_title] 2,
      Wait 1,
      Play [FadeOut test_title, FadeOut test_title_glow] 1]"

subsection \<open>The unused stages clean up after themselves\<close>

lemma getitem_in_family: "getitem m i = Inr x \<Longrightarrow> x \<in> set (family m)"
  using mob_split_family [of m]
  by (auto simp: getitem_def py_index_def Let_def split: if_splits)

lemma on_screen_family_ids:
  "m \<in> set L \<Longrightarrow> x \<in> set (family m) \<Longrightarrow> mob_id x \<in> set (ids (family_members L))"
  by (auto simp: set_ids family_members_def)

text \<open>C17: \<open>update_flags\<close> shows its flag boxes and explanation and fades every one of
  them out again: whatever is on screen before, as long as its objects are not
  the stage's own, the visible list afterwards is the one before, 7.8 seconds
  later. The stage leaks nothing and takes nothing away.\<close>

theorem update_flags_clean:
  assumes "fresh_for [flags_title_plain, cf_flag_plain, of_flag_plain, flag_explanation_plain] (mobjects s)"
  shows "mobjects (update_flags s) = mobjects s \<and> time (update_flags s) = time s + 39/5"
  using assms unfolding update_flags_def
  by (simp add: run_mobjects run_time setup_anim_def add_mobs_def remove_mobs_def cleanup_mobs_def
      mob_defs fresh_simps numeral_2_eq_2)

theorem update_flags_clean_witness:
  "fresh_for [flags_title_plain, cf_flag_plain, of_flag_plain, flag_explanation_plain] (mobjects init_scene) \<and>
   mobjects (update_flags init_scene) = mobjects init_scene \<and>
   time (update_flags init_scene) = time init_scene + 39/5"
proof -
  have f: "fresh_for [flags_title_plain, cf_flag_plain, of_flag_plain, flag_explanation_plain] (mobjects init_scene)"
    by (simp add: fresh_for_def init_scene_def)
  show ?thesis
    using f update_flags_clean [OF f] by simp
qed

lemma unused_lines:
  "text_lines summary_plain =
     [''MUL BX Instruction Executed Successfully'', '''', ''Original Values:'',
      ''AX = 0x9000 (36864 decimal)'', ''BX = 0x0003 (3 decimal)'', '''', ''Final Result:'',
      ''DX:AX = 0x0001:0xB200'', ''= 110592 decimal'']"
  unfolding summary_plain_def by (rule text_lines_Text) simp_all

lemma mul16_9000_3: "mul16 0x9000 3 = \<lparr>mul_dx = 1, mul_ax = 0xB000, mul_cf = True, mul_of = True\<rparr>"
  by (simp add: mul16_def)

lemma dxax_9000_3: "unat (dxax (mul16 0x9000 3)) = 110592"
  by (simp add: dxax_mul16)

text \<open>C19: The unused methods show a different example, AX = 0x9000 and BX = 3,
  and get its product wrong: \<open>MUL\<close> gives DX:AX = 0x0001:0xB000 = 110592 with
  CF = OF = 1. The decimal captions are right, but the execute stage writes
  \<open>= 0x1B200\<close> (0x200 too much), the summary gives AX as 0xB200, and the flag
  stage shows CF = OF = 0 and says the result fits in 16 bits. These are the
  inconsistencies the specification reports; none of them is on screen,
  since \<open>construct\<close> calls none of these methods.\<close>

theorem unused_captions_disagree:
  "text_of ax_value_plain = Some (hex16 0x9000) \<and> text_of bx_value_plain = Some (hex16 3) \<and>
   text_lines summary_plain ! 3 = ''AX = '' @ hex16 0x9000 @ '' ('' @ py_str_nat (unat (0x9000 :: 16 word)) @ '' decimal)'' \<and>
   text_of decimal_text_plain = Some (''('' @ py_str_nat (unat (dxax (mul16 0x9000 3))) @ '' decimal)'') \<and>
   text_lines summary_plain ! 8 = ''= '' @ py_str_nat (unat (dxax (mul16 0x9000 3))) @ '' decimal'' \<and>
   text_of result_text_plain = Some (''= 0x'' @ digits_fixed 16 5 0x1B200) \<and>
   unat (dxax (mul16 0x9000 3)) + 0x200 = 0x1B200 \<and>
   text_lines summary_plain ! 7 = ''DX:AX = '' @ hex16 (mul_dx (mul16 0x9000 3)) @ '':'' @ hex16 0xB200 \<and>
   mul_ax (mul16 0x9000 3) \<noteq> 0xB200 \<and>
   text_of cf_value_plain = Some (flag_digit False) \<and> text_of of_value_plain = Some (flag_digit False) \<and>
   mul_cf (mul16 0x9000 3) \<and> mul_of (mul16 0x9000 3) \<and> 2 ^ 16 \<le> unat (dxax (mul16 0x9000 3))"
  unfolding dxax_9000_3 unused_lines
  by (simp add: unused_lines mul16_9000_3 text_of_def flag_digit_def hex16_def
      digit_char_def digit_alphabet_def mob_defs)

text \<open>C16: \<open>execute_multiplication\<close> on an ALU that is on screen and has its gear
  as third part: it does not raise, it spins the gear and shows and removes
  its three captions and title, so the visible list afterwards is the one
  before, 11.7 seconds later, and the ALU is left with stroke width 0.\<close>

theorem execute_multiplication_clean:
  assumes on: "alu_grp \<in> set (mobjects s)" and len: "2 < length (mob_split alu_grp)"
    and fr: "fresh_for [exec_title_plain, calc_text_plain, result_text_plain, decimal_text_plain] (mobjects s)"
  shows "\<exists>s'. execute_multiplication alu_grp axr bxr s = Inr s' \<and> mobjects s' = mobjects s \<and>
           time s' = time s + 117/10 \<and> (\<forall>x\<in>set (family alu_grp). strokes s' (mob_id x) = Some 0)"
proof -
  obtain gear where g: "getitem alu_grp 2 = Inr gear"
    using len by (simp add: getitem_def py_index_def)
  have ia: "mob_id alu_grp \<in> set (ids (family_members (mobjects s)))"
    using on by (rule on_screen_family_ids) simp
  have ig: "mob_id gear \<in> set (ids (family_members (mobjects s)))"
    using on getitem_in_family [OF g] by (rule on_screen_family_ids)
  show ?thesis
    using fr ia ig
    by (simp add: execute_multiplication_def g res_bind_def run_mobjects run_time run_strokes
        setup_anim_def add_mobs_def remove_mobs_def cleanup_mobs_def mob_defs fresh_simps set_ids)
qed

theorem execute_multiplication_clean_witness:
  "alu \<in> set (mobjects (init_scene\<lparr>mobjects := [alu]\<rparr>)) \<and> 2 < length (mob_split alu) \<and>
   fresh_for [exec_title_plain, calc_text_plain, result_text_plain, decimal_text_plain]
     (mobjects (init_scene\<lparr>mobjects := [alu]\<rparr>)) \<and>
   (\<exists>s'. execute_multiplication alu ax_reg bx_reg (init_scene\<lparr>mobjects := [alu]\<rparr>) = Inr s' \<and>
      mobjects s' = mobjects (init_scene\<lparr>mobjects := [alu]\<rparr>) \<and>
      time s' = time (init_scene\<lparr>mobjects := [alu]\<rparr>) + 117/10 \<and>
      (\<forall>x\<in>set (family alu). strokes s' (mob_id x) = Some 0))"
proof -
  have on: "alu \<in> set (mobjects (init_scene\<lparr>mobjects := [alu]\<rparr>))"
    by simp
  have len: "2 < length (mob_split alu)"
    by (simp add: mob_split_def has_points_def mob_defs)
  have fr: "fresh_for [exec_title_plain, calc_text_plain, result_text_plain, decimal_text_plain]
     (mobjects (init_scene\<lparr>mobjects := [alu]\<rparr>))"
    by (simp add: fresh_for_def mob_defs)
  show ?thesis
    using on len fr execute_multiplication_clean [OF on len fr] by blast
qed

text \<open>C18: \<open>TestAnimation.construct\<close> fades its title and the title's glow in and
  out again: on any scene without its two texts it leaves the visible list as
  it found it, 4 seconds later; from the empty scene it ends with an empty
  screen.\<close>

theorem test_construct_clean:
  assumes "fresh_for [test_title, test_title_glow] (mobjects s)"
  shows "mobjects (test_construct s) = mobjects s \<and> time (test_construct s) = time s + 4"
  using assms unfolding test_construct_def
  by (simp add: run_mobjects run_time setup_anim_def add_mobs_def remove_mobs_def cleanup_mobs_def
      mob_defs fresh_simps)

theorem test_construct_clean_witness:
  "fresh_for [test_title, test_title_glow] (mobjects init_scene) \<and>
   mobjects (test_construct init_scene) = [] \<and> time (test_construct init_scene) = 4"
proof -
  have f: "fresh_for [test_title, test_title_glow] (mobjects init_scene)"
    by (simp add: fresh_for_def init_scene_def)
  show ?thesis
    using f test_construct_clean [OF f] by (simp add: init_scene_def)
qed

text \<open>C9: The detailed flag stage that \<open>construct\<close> runs and the plain one it
  replaced agree on what stays on screen: when no object on screen has its
  centre below \<open>y = -1\<close>, the clean-up of line 927 removes nothing, and both
  stages fade out everything they show, so both leave the visible list as
  they found it. (They differ in length, 16 against 7.8 seconds, and in the
  flags they show.)\<close>

theorem update_flags_equiv:
  assumes above: "\<forall>obj\<in>set (mobjects s). -1 \<le> snd (g obj)"
    and fd: "fresh_for [flags_title, cf_flag, of_flag, sf_flag, zf_flag, flag_explanation] (mobjects s)"
    and fp: "fresh_for [flags_title_plain, cf_flag_plain, of_flag_plain, flag_explanation_plain] (mobjects s)"
  shows "mobjects (update_flags_detailed g s) = mobjects (update_flags s)"
proof -
  have "filter (\<lambda>obj. snd (g obj) < -1) (mobjects s) = []"
    using above by (auto simp: filter_empty_conv)
  moreover have "restructure [] L = L" for L
    by (rule restructure_fresh) simp
  ultimately show ?thesis
    using fd fp unfolding update_flags_detailed_def update_flags_def
    by (simp add: run_mobjects setup_anim_def add_mobs_def remove_mobs_def cleanup_mobs_def
        mob_defs fresh_simps numeral_2_eq_2)
qed

theorem update_flags_equiv_witness:
  "mobjects init_scene = [] \<and>
   fresh_for [flags_title, cf_flag, of_flag, sf_flag, zf_flag, flag_explanation] (mobjects init_scene) \<and>
   fresh_for [flags_title_plain, cf_flag_plain, of_flag_plain, flag_explanation_plain] (mobjects init_scene) \<and>
   mobjects (update_flags_detailed (\<lambda>_. (0, 0)) init_scene) = mobjects (update_flags init_scene)"
proof -
  have a: "\<forall>obj\<in>set (mobjects init_scene). -1 \<le> snd ((\<lambda>_. (0, 0)) obj :: point)"
    by (simp add: init_scene_def)
  have fd: "fresh_for [flags_title, cf_flag, of_flag, sf_flag, zf_flag, flag_explanation] (mobjects init_scene)"
    by (simp add: fresh_for_def init_scene_def)
  have fp: "fresh_for [flags_title_plain, cf_flag_plain, of_flag_plain, flag_explanation_plain] (mobjects init_scene)"
    by (simp add: fresh_for_def init_scene_def)
  show ?thesis
    using a fd fp update_flags_equiv [OF a fd fp] by (simp add: init_scene_def)
qed

end
