(* ===== verification/Spec2Isabelle.thy ===== *)
theory Spec2Isabelle
  imports Script_Invariants Script_Trace Content Stages_Unused
begin

text \<open>
  \<^bold>\<open>A verification library for src/manim_8086_mul.py and src/test_manim.py.\<close>

  \<^bold>\<open>The program.\<close> \<open>MUL8086Animation\<close> is a Manim scene that explains the
  8086 instruction \<open>MUL BX\<close> with AX = BX = 0xFFFF. Its \<open>construct\<close>
  (lines 10--58) calls thirteen stage methods in order. Each stage builds
  text, boxes, arrows and groups, animates them with \<open>self.play\<close>, waits and
  removes objects, sometimes with a clean-up heuristic that removes what lies
  in some region of the screen or has some font size. Stages pass the
  register groups, the memory cell, the PC arrow, the IR and the ALU to later
  stages, which index them (\<open>alu[2]\<close>, \<open>ax_reg[2]\<close>, ...). Four methods
  (\<open>setup_registers\<close>, \<open>execute_multiplication\<close>, \<open>update_flags\<close>,
  \<open>final_summary\<close>) are never called. src/test_manim.py holds a separate
  smoke-test scene \<open>TestAnimation\<close>.

  \<^bold>\<open>Theories.\<close>
  \<^item> \<open>Prelude\<close>: Python list indexing with \<open>IndexError\<close> as a value
    (\<open>py_index\<close>, \<open>res_bind\<close> over \<open>py_error + 'a\<close>), multi-line strings
    (\<open>py_lines\<close>, \<open>py_split_nl\<close>), digit strings, and shared list lemmas.
  \<^item> \<open>Mobject\<close>: the library's objects as a tree \<open>mob\<close> with an identity
    (Python's \<open>id\<close>), a kind and submobjects; \<open>family\<close>, \<open>split\<close> and
    \<open>__getitem__\<close>.
  \<^item> \<open>Scene\<close>: the scene state as a record (visible list \<open>mobjects\<close>,
    stroke widths, displayed texts, clock) and the calls the script makes
    (\<open>add\<close>, \<open>remove\<close> with Manim's restructuring of groups, \<open>play\<close> with
    introducers and removers, \<open>wait\<close>, \<open>clear\<close>) as a datatype \<open>scene_op\<close>
    run by \<open>run\<close>. Its lemmas give the well-formedness invariant
    \<open>scene_wf\<close> (no object reachable twice), its preservation by every
    call, the projections of a run on each field, and the frame lemmas for
    objects new to a scene (\<open>fresh_for\<close>).
  \<^item> \<open>Stages_Setup\<close>, \<open>Stages_Execute\<close>: every object of the live stages as
    a definition with the source's literal text, font size and parts, and one
    definition per stage method, the heuristics and indexing included, and
    \<open>mul8086_construct\<close> for \<open>construct\<close>. Stages that index return
    \<open>py_error + scene\<close>.
  \<^item> \<open>Script_Run\<close>: the run from the empty scene stage by stage
    (\<open>construct_trace\<close>, the thirteen intermediate scenes), the visible list
    and the clock after each stage (\<open>stage_visible\<close>, \<open>stage_times\<close>), under
    the hypotheses \<open>script_geometry\<close> on where the clean-ups find the objects.
  \<^item> \<open>Layout\<close>: \<open>move_to\<close>, \<open>next_to\<close>, \<open>to_edge\<close> and group bounding boxes on
    rational coordinates; the positions of the objects the clean-ups test,
    with the text extents as a parameter bounded by \<open>text_extents_ok\<close>; the
    proof that this layout meets \<open>script_geometry\<close>; what lies off screen;
    the render configuration (pixel size and frame rate, lines 5--7).
  \<^item> \<open>Script_Invariants\<close>: every stage preserves \<open>scene_wf\<close>, for every
    geometry.
  \<^item> \<open>Script_Trace\<close>: the captions and stroke widths after every stage, and
    when each indexing stage raises.
  \<^item> \<open>Mul8086\<close>: a reference semantics of \<open>MUL r/m16\<close> on 16-bit words
    (\<open>mul16\<close>, DX:AX, CF and OF), hexadecimal printing and parsing with a
    print-then-parse round trip, \<open>f"{n:,}"\<close>, and ModRM decoding.
  \<^item> \<open>Content\<close>: the captions of the live path read back and compared with
    \<open>Mul8086\<close>.
  \<^item> \<open>Stages_Unused\<close>: the four unused methods and \<open>TestAnimation\<close>, their
    clean-up behaviour, and their captions compared with \<open>Mul8086\<close>.
  \<^item> This theory: the properties of the whole run (completion, the final
    scene, outlines, objects carried between stages, when the product is
    shown, objects drawn over each other, frame counts).

  \<^bold>\<open>Correspondence.\<close> A stage method \<open>self.f(...)\<close> is the definition
  \<open>f\<close>, taking and returning the scene; its return values are returned with
  the scene. An object is identified by a number that stands for Python's
  \<open>id\<close>; the numbers are chosen distinct, one per object the source
  constructs (\<open>title.copy()\<close> included). Positions
  enter only through a geometry \<open>mob \<Rightarrow> point\<close> that the clean-ups read.

  \<^bold>\<open>Bounds.\<close> No loop of the program depends on input: the script is a
  fixed sequence of calls with two loops of fixed length (\<open>range(2)\<close> and
  the enumerations of fixed lists), written out as \<open>replicate\<close> and
  \<open>map\<close>, so no fuel is needed and every definition is total and
  executable. The rendered size of the texts the layout reads is a parameter:
  \<open>text_extents_ok\<close> asks only for a non-negative width and a height of at
  most one unit, and the claims about the layout hold for every rendering
  within these bounds.

  \<^bold>\<open>Not modelled.\<close> Rendering: colours, opacity, fill, the camera
  background (line 12 and test_manim.py line 5), rate functions, the frame
  rate, and the intermediate frames of an animation; the claims speak of the
  scene between calls. The empty placeholder object a \<open>wait\<close> may leave in
  \<open>self.mobjects\<close> (see \<open>scene_wait\<close> in \<open>Scene\<close>): the visible lists of the
  claims are the script's own objects, without such placeholders.
  Positions of objects no clean-up and no claim reads.
  The glyph submobjects of a \<open>Text\<close>, which the script never references.
  The pixel resolution enters only as the frame size and the frame rate only
  as the frame count. The layout gives positions only to the objects a
  clean-up reads or a claim is about (registers, memory cell, PC, IR,
  control unit, signals, ALU, flag boxes, timing bars); the titles and
  captions placed with \<open>to_edge\<close> and \<open>next_to\<close> elsewhere are not given
  positions, since their rendered size is unknown and nothing depends on
  them.
\<close>

subsection \<open>The run, stage by stage\<close>

text \<open>Everything the stage trace of the script's run shows at once: the
  visible lists and clocks of \<open>Script_Run\<close> and the captions and strokes of
  \<open>Script_Trace\<close>, for one and the same list of thirteen scenes.\<close>

lemma trace_facts:
  assumes "text_extents_ok te"
  obtains ss where "construct_trace (script_layout te) init_scene = Inr ss"
    "map mobjects ss = stage_visible" "map time ss = stage_times"
    "map (\<lambda>s. displayed s ax_value) ss = [Some ''0xFFFF'', Some ''0xFFFF'', Some ''0xFFFF'', Some ''0xFFFF'', Some ''0xFFFF'', Some ''0xFFFF'', Some ''0xFFFF'', Some ''0xFFFF'', Some ''0xFFFF'', Some ''0x0001'', Some ''0x0001'', Some ''0x0001'', Some ''0x0001'']"
    "map (\<lambda>s. displayed s dx_value) ss = [Some ''0x0000'', Some ''0x0000'', Some ''0x0000'', Some ''0x0000'', Some ''0x0000'', Some ''0x0000'', Some ''0x0000'', Some ''0x0000'', Some ''0x0000'', Some ''0xFFFE'', Some ''0xFFFE'', Some ''0xFFFE'', Some ''0xFFFE'']"
    "map (\<lambda>s. strokes s (mob_id ax_box)) ss = [None, None, None, None, None, None, None, Some 0, Some 0, Some 0, Some 0, Some 0, Some 6]"
    "map (\<lambda>s. strokes s (mob_id bx_box)) ss = [None, None, None, None, None, None, None, Some 0, Some 0, Some 0, Some 0, Some 0, Some 0]"
    "map (\<lambda>s. strokes s (mob_id dx_box)) ss = [None, None, None, None, None, None, None, None, None, Some 0, Some 0, Some 0, Some 6]"
    "map (\<lambda>s. strokes s (mob_id alu_body)) ss = [None, None, None, None, None, None, None, None, Some 0, Some 0, Some 0, Some 0, Some 0]"
proof -
  obtain ss where tr: "construct_trace (script_layout te) init_scene = Inr ss"
    and m: "map mobjects ss = stage_visible" and t: "map time ss = stage_times"
    using construct_trace_run [OF script_layout_geometry [OF assms]] by blast
  obtain ss' where tr': "construct_trace (script_layout te) init_scene = Inr ss'"
    and d1: "map (\<lambda>s. displayed s ax_value) ss' = [Some ''0xFFFF'', Some ''0xFFFF'', Some ''0xFFFF'', Some ''0xFFFF'', Some ''0xFFFF'', Some ''0xFFFF'', Some ''0xFFFF'', Some ''0xFFFF'', Some ''0xFFFF'', Some ''0x0001'', Some ''0x0001'', Some ''0x0001'', Some ''0x0001'']"
    and d2: "map (\<lambda>s. displayed s dx_value) ss' = [Some ''0x0000'', Some ''0x0000'', Some ''0x0000'', Some ''0x0000'', Some ''0x0000'', Some ''0x0000'', Some ''0x0000'', Some ''0x0000'', Some ''0x0000'', Some ''0xFFFE'', Some ''0xFFFE'', Some ''0xFFFE'', Some ''0xFFFE'']"
    and d3: "map (\<lambda>s. strokes s (mob_id ax_box)) ss' = [None, None, None, None, None, None, None, Some 0, Some 0, Some 0, Some 0, Some 0, Some 6]"
    and d4: "map (\<lambda>s. strokes s (mob_id bx_box)) ss' = [None, None, None, None, None, None, None, Some 0, Some 0, Some 0, Some 0, Some 0, Some 0]"
    and d5: "map (\<lambda>s. strokes s (mob_id dx_box)) ss' = [None, None, None, None, None, None, None, None, None, Some 0, Some 0, Some 0, Some 6]"
    and d6: "map (\<lambda>s. strokes s (mob_id alu_body)) ss' = [None, None, None, None, None, None, None, None, Some 0, Some 0, Some 0, Some 0, Some 0]"
    by (rule construct_trace_display)
  from tr tr' have eq: "ss' = ss"
    by simp
  show ?thesis
    by (rule that [OF tr m t d1 [unfolded eq] d2 [unfolded eq] d3 [unfolded eq] d4 [unfolded eq]
        d5 [unfolded eq] d6 [unfolded eq]])
qed

subsection \<open>Properties of the whole animation\<close>

text \<open>C1: Run from an empty scene with the script's layout, for any rendering
  of the texts that keeps them at most one unit high, the whole animation
  \<open>MUL8086Animation.construct\<close> completes without raising: every index it
  takes into a group is in range, and it ends after 153.8 seconds with the AX
  and DX registers, the final title, the summary and the closing line on
  screen.\<close>

theorem mul8086_runs:
  assumes "text_extents_ok te"
  shows "\<exists>s. mul8086_construct (script_layout te) init_scene = Inr s \<and>
           mobjects s = [ax_reg, dx_reg, final_title, final_summary_text, thank_you] \<and>
           time s = 769/5"
  using construct_completes [OF script_layout_geometry [OF assms]] .

theorem mul8086_runs_witness:
  "text_extents_ok (\<lambda>_. (1, 1/2)) \<and>
   (\<exists>s. mul8086_construct (script_layout (\<lambda>_. (1, 1/2))) init_scene = Inr s \<and>
      mobjects s = [ax_reg, dx_reg, final_title, final_summary_text, thank_you] \<and>
      time s = 769/5)"
  by (rule conjI [OF unit_extents_ok mul8086_runs [OF unit_extents_ok]])

text \<open>C3: The video ends on the product: after the last stage the AX and DX
  registers are on screen, their captions read the low and high words of
  \<open>0xFFFF * 0xFFFF\<close> as \<open>mul16\<close> computes them, and their boxes carry the
  closing highlight of width 6 (lines 1132--1133).\<close>

theorem video_ends_with_product:
  assumes "text_extents_ok te"
  shows "\<exists>s. mul8086_construct (script_layout te) init_scene = Inr s \<and>
    ax_reg \<in> set (mobjects s) \<and> dx_reg \<in> set (mobjects s) \<and>
    displayed s ax_value = Some (hex16 (mul_ax (mul16 0xFFFF 0xFFFF))) \<and>
    displayed s dx_value = Some (hex16 (mul_dx (mul16 0xFFFF 0xFFFF))) \<and>
    strokes s (mob_id ax_box) = Some 6 \<and> strokes s (mob_id dx_box) = Some 6"
proof -
  obtain ss where tr: "construct_trace (script_layout te) init_scene = Inr ss"
    and m: "map mobjects ss = stage_visible" and t: "map time ss = stage_times"
    and a: "map (\<lambda>s. displayed s ax_value) ss = [Some ''0xFFFF'', Some ''0xFFFF'', Some ''0xFFFF'', Some ''0xFFFF'', Some ''0xFFFF'', Some ''0xFFFF'', Some ''0xFFFF'', Some ''0xFFFF'', Some ''0xFFFF'', Some ''0x0001'', Some ''0x0001'', Some ''0x0001'', Some ''0x0001'']"
    and d: "map (\<lambda>s. displayed s dx_value) ss = [Some ''0x0000'', Some ''0x0000'', Some ''0x0000'', Some ''0x0000'', Some ''0x0000'', Some ''0x0000'', Some ''0x0000'', Some ''0x0000'', Some ''0x0000'', Some ''0xFFFE'', Some ''0xFFFE'', Some ''0xFFFE'', Some ''0xFFFE'']"
    and sa: "map (\<lambda>s. strokes s (mob_id ax_box)) ss = [None, None, None, None, None, None, None, Some 0, Some 0, Some 0, Some 0, Some 0, Some 6]"
    and sb: "map (\<lambda>s. strokes s (mob_id bx_box)) ss = [None, None, None, None, None, None, None, Some 0, Some 0, Some 0, Some 0, Some 0, Some 0]"
    and sd: "map (\<lambda>s. strokes s (mob_id dx_box)) ss = [None, None, None, None, None, None, None, None, None, Some 0, Some 0, Some 0, Some 6]"
    and sc: "map (\<lambda>s. strokes s (mob_id alu_body)) ss = [None, None, None, None, None, None, None, None, Some 0, Some 0, Some 0, Some 0, Some 0]"
    by (rule trace_facts [OF assms])
  have ne: "ss \<noteq> []"
    using m by (auto simp: stage_visible_def)
  have lm: "mobjects (last ss) = last stage_visible"
    using ne by (simp flip: m add: last_map)
  have la: "displayed (last ss) ax_value = Some ''0x0001''"
    using arg_cong [where f = last, OF a] ne by (simp add: last_map)
  have ld: "displayed (last ss) dx_value = Some ''0xFFFE''"
    using arg_cong [where f = last, OF d] ne by (simp add: last_map)
  have lsa: "strokes (last ss) (mob_id ax_box) = Some 6"
    using arg_cong [where f = last, OF sa] ne by (simp add: last_map)
  have lsd: "strokes (last ss) (mob_id dx_box) = Some 6"
    using arg_cong [where f = last, OF sd] ne by (simp add: last_map)
  have c: "mul8086_construct (script_layout te) init_scene = Inr (last ss)"
    by (simp add: construct_trace_last tr)
  have v: "ax_reg \<in> set (mobjects (last ss)) \<and> dx_reg \<in> set (mobjects (last ss))"
    unfolding lm by (simp add: stage_visible_def mob_defs)
  show ?thesis
    by (rule exI [of _ "last ss"]) (simp add: c v la ld lsa lsd mul16_FFFF hex16_literals)
qed

theorem video_ends_with_product_witness:
  "text_extents_ok (\<lambda>_. (1, 1/2)) \<and>
   (\<exists>s. mul8086_construct (script_layout (\<lambda>_. (1, 1/2))) init_scene = Inr s \<and>
    ax_reg \<in> set (mobjects s) \<and> dx_reg \<in> set (mobjects s) \<and>
    displayed s ax_value = Some (hex16 (mul_ax (mul16 0xFFFF 0xFFFF))) \<and>
    displayed s dx_value = Some (hex16 (mul_dx (mul16 0xFFFF 0xFFFF))) \<and>
    strokes s (mob_id ax_box) = Some 6 \<and> strokes s (mob_id dx_box) = Some 6)"
  by (rule conjI [OF unit_extents_ok video_ends_with_product [OF unit_extents_ok]])

text \<open>C6: Outlines erased by \<open>set_stroke(width=0)\<close>: the operand-fetch
  stage sets the stroke of the AX and BX boxes to width 0 (lines 537--538),
  the execute stage the ALU's (line 912), and the write-back stage sets the
  AX box back to 0 after its highlight (lines 676--677). The boxes stay on
  screen: from the operand-fetch stage through the performance stage the AX
  and BX registers, and from the execute stage through the flag stage the
  ALU, are drawn without their outlines.\<close>

theorem register_outlines_erased:
  assumes "text_extents_ok te"
  shows "\<exists>ss. construct_trace (script_layout te) init_scene = Inr ss \<and>
    map (\<lambda>s. ax_reg \<in> set (mobjects s) \<and> strokes s (mob_id ax_box) = Some 0) ss = [False, False, False, False, False, False, False, True, True, True, True, True, False] \<and>
    map (\<lambda>s. bx_reg \<in> set (mobjects s) \<and> strokes s (mob_id bx_box) = Some 0) ss = [False, False, False, False, False, False, False, True, True, True, True, True, False] \<and>
    map (\<lambda>s. alu \<in> set (mobjects s) \<and> strokes s (mob_id alu_body) = Some 0) ss = [False, False, False, False, False, False, False, False, True, True, True, False, False]"
proof -
  obtain ss where tr: "construct_trace (script_layout te) init_scene = Inr ss"
    and m: "map mobjects ss = stage_visible"
    and a: "map (\<lambda>s. strokes s (mob_id ax_box)) ss = [None, None, None, None, None, None, None, Some 0, Some 0, Some 0, Some 0, Some 0, Some 6]"
    and b: "map (\<lambda>s. strokes s (mob_id bx_box)) ss = [None, None, None, None, None, None, None, Some 0, Some 0, Some 0, Some 0, Some 0, Some 0]"
    and c: "map (\<lambda>s. strokes s (mob_id alu_body)) ss = [None, None, None, None, None, None, None, None, Some 0, Some 0, Some 0, Some 0, Some 0]"
    by (rule trace_facts [OF assms])
  have z: "map (\<lambda>s. x \<in> set (mobjects s) \<and> strokes s k = v) ss =
      map (\<lambda>(L, w). x \<in> set L \<and> w = v) (zip (map mobjects ss) (map (\<lambda>s. strokes s k) ss))" for x k v
    by (rule map_pair_zip)
  have h: "map (\<lambda>s. ax_reg \<in> set (mobjects s) \<and> strokes s (mob_id ax_box) = Some 0) ss = [False, False, False, False, False, False, False, True, True, True, True, True, False] \<and>
    map (\<lambda>s. bx_reg \<in> set (mobjects s) \<and> strokes s (mob_id bx_box) = Some 0) ss = [False, False, False, False, False, False, False, True, True, True, True, True, False] \<and>
    map (\<lambda>s. alu \<in> set (mobjects s) \<and> strokes s (mob_id alu_body) = Some 0) ss = [False, False, False, False, False, False, False, False, True, True, True, False, False]"
    by (simp only: z [of ax_reg "mob_id ax_box" "Some 0"] z [of bx_reg "mob_id bx_box" "Some 0"]
        z [of alu "mob_id alu_body" "Some 0"] m a b c)
       (simp add: stage_visible_def mob_defs control_signals_def)
  show ?thesis
    by (rule exI [of _ ss], rule conjI [OF tr h])
qed

theorem register_outlines_erased_witness:
  "text_extents_ok (\<lambda>_. (1, 1/2)) \<and>
   (\<exists>ss. construct_trace (script_layout (\<lambda>_. (1, 1/2))) init_scene = Inr ss \<and>
    map (\<lambda>s. ax_reg \<in> set (mobjects s) \<and> strokes s (mob_id ax_box) = Some 0) ss = [False, False, False, False, False, False, False, True, True, True, True, True, False] \<and>
    map (\<lambda>s. bx_reg \<in> set (mobjects s) \<and> strokes s (mob_id bx_box) = Some 0) ss = [False, False, False, False, False, False, False, True, True, True, True, True, False] \<and>
    map (\<lambda>s. alu \<in> set (mobjects s) \<and> strokes s (mob_id alu_body) = Some 0) ss = [False, False, False, False, False, False, False, False, True, True, True, False, False])"
  by (rule conjI [OF unit_extents_ok register_outlines_erased [OF unit_extents_ok]])

text \<open>C7: Objects carried from stage to stage: the instruction register stays
  on screen from the fetch stage through the flag stage, and the control unit
  from the decode stage through the flag stage, though they belong to the
  stages of fetch and decode; the PC arrow is left behind by the fetch stage
  and stays through the decode stage until the ALU stage's clean-up removes
  it; the DX register, shown from the register stage on, is
  removed by the flag stage's clean-up and comes back only for the final
  summary.\<close>

theorem carried_objects_linger:
  assumes "text_extents_ok te"
  shows "\<exists>ss. construct_trace (script_layout te) init_scene = Inr ss \<and>
    map (\<lambda>s. ir_reg \<in> set (mobjects s)) ss =
      [False, False, False, False, True, True, True, True, True, True, True, False, False] \<and>
    map (\<lambda>s. control_unit \<in> set (mobjects s)) ss =
      [False, False, False, False, False, True, True, True, True, True, True, False, False] \<and>
    map (\<lambda>s. pc_arrow_shape \<in> set (mobjects s)) ss =
      [False, False, False, False, True, True, False, False, False, False, False, False, False] \<and>
    map (\<lambda>s. dx_reg \<in> set (mobjects s)) ss =
      [False, False, True, True, True, True, True, True, True, True, False, False, True]"
proof -
  obtain ss where tr: "construct_trace (script_layout te) init_scene = Inr ss"
    and m: "map mobjects ss = stage_visible"
    using construct_trace_run [OF script_layout_geometry [OF assms]] by blast
  have "map (\<lambda>s. x \<in> set (mobjects s)) ss = map (\<lambda>L. x \<in> set L) stage_visible" for x
    by (simp flip: m)
  then show ?thesis
    using tr by (simp add: stage_visible_def mob_defs control_signals_def)
qed

theorem carried_objects_linger_witness:
  "text_extents_ok (\<lambda>_. (1, 1/2)) \<and>
   (\<exists>ss. construct_trace (script_layout (\<lambda>_. (1, 1/2))) init_scene = Inr ss \<and>
    map (\<lambda>s. ir_reg \<in> set (mobjects s)) ss =
      [False, False, False, False, True, True, True, True, True, True, True, False, False] \<and>
    map (\<lambda>s. control_unit \<in> set (mobjects s)) ss =
      [False, False, False, False, False, True, True, True, True, True, True, False, False] \<and>
    map (\<lambda>s. pc_arrow_shape \<in> set (mobjects s)) ss =
      [False, False, False, False, True, True, False, False, False, False, False, False, False] \<and>
    map (\<lambda>s. dx_reg \<in> set (mobjects s)) ss =
      [False, False, True, True, True, True, True, True, True, True, False, False, True])"
  by (rule conjI [OF unit_extents_ok carried_objects_linger [OF unit_extents_ok]])

text \<open>C8: Once and for all: during the first nine stages the AX and DX captions
  show the operands 0xFFFF and 0x0000, and from the write-back stage (the
  tenth) to the end of the video they show the low and high words of the
  product, whatever the layout. The product, once shown, stays.\<close>

theorem product_shown_from_write_back:
  "\<exists>ss. construct_trace g init_scene = Inr ss \<and> length ss = 13 \<and>
     (\<forall>j<9. displayed (ss ! j) ax_value = Some (hex16 0xFFFF) \<and> displayed (ss ! j) dx_value = Some (hex16 0)) \<and>
     (\<forall>j. 9 \<le> j \<and> j < 13 \<longrightarrow>
        displayed (ss ! j) ax_value = Some (hex16 (mul_ax (mul16 0xFFFF 0xFFFF))) \<and>
        displayed (ss ! j) dx_value = Some (hex16 (mul_dx (mul16 0xFFFF 0xFFFF))))"
proof -
  obtain ss where tr: "construct_trace g init_scene = Inr ss"
    and a: "map (\<lambda>s. displayed s ax_value) ss =
      [Some ''0xFFFF'', Some ''0xFFFF'', Some ''0xFFFF'', Some ''0xFFFF'', Some ''0xFFFF'', Some ''0xFFFF'', Some ''0xFFFF'', Some ''0xFFFF'', Some ''0xFFFF'', Some ''0x0001'', Some ''0x0001'', Some ''0x0001'', Some ''0x0001'']"
    and d: "map (\<lambda>s. displayed s dx_value) ss =
      [Some ''0x0000'', Some ''0x0000'', Some ''0x0000'', Some ''0x0000'', Some ''0x0000'', Some ''0x0000'', Some ''0x0000'', Some ''0x0000'', Some ''0x0000'', Some ''0xFFFE'', Some ''0xFFFE'', Some ''0xFFFE'', Some ''0xFFFE'']"
    by (rule construct_trace_display [of g]) 
  have len: "length ss = 13"
    using arg_cong [where f = length, OF a] by simp
  have before: "displayed (ss ! j) ax_value = Some (hex16 0xFFFF) \<and> displayed (ss ! j) dx_value = Some (hex16 0)"
    if "j < 9" for j
  proof -
    have "j = 0 \<or> j = 1 \<or> j = 2 \<or> j = 3 \<or> j = 4 \<or> j = 5 \<or> j = 6 \<or> j = 7 \<or> j = 8"
      using that by presburger
    then show ?thesis
      using map_nth_eq [OF a, of j] map_nth_eq [OF d, of j] by (auto simp: hex16_literals)
  qed
  have after: "displayed (ss ! j) ax_value = Some (hex16 (mul_ax (mul16 0xFFFF 0xFFFF))) \<and>
      displayed (ss ! j) dx_value = Some (hex16 (mul_dx (mul16 0xFFFF 0xFFFF)))"
    if "9 \<le> j" "j < 13" for j
  proof -
    have "j = 9 \<or> j = 10 \<or> j = 11 \<or> j = 12"
      using that by presburger
    then show ?thesis
      using map_nth_eq [OF a, of j] map_nth_eq [OF d, of j] by (auto simp: hex16_literals mul16_FFFF)
  qed
  show ?thesis
    using tr len before after by blast
qed

theorem product_shown_from_write_back_witness:
  "\<exists>ss. construct_trace (\<lambda>_. (0, 0)) init_scene = Inr ss \<and> length ss = 13 \<and>
     (\<forall>j<9. displayed (ss ! j) ax_value = Some (hex16 0xFFFF) \<and> displayed (ss ! j) dx_value = Some (hex16 0)) \<and>
     (\<forall>j. 9 \<le> j \<and> j < 13 \<longrightarrow>
        displayed (ss ! j) ax_value = Some (hex16 (mul_ax (mul16 0xFFFF 0xFFFF))) \<and>
        displayed (ss ! j) dx_value = Some (hex16 (mul_dx (mul16 0xFFFF 0xFFFF))))"
  by (rule product_shown_from_write_back)

text \<open>C12: Objects drawn on top of each other. The control unit's box (line 408)
  overlaps the ALU's body (line 453) and the instruction register's box
  (line 327), and the instruction register, the control unit and the ALU
  are all on screen together at the ends of the operand-fetch, execute,
  write-back and flag stages. The CF box of the flag stage (line 943) lands
  on both the ALU and the control unit as well.\<close>

theorem layout_collisions:
  assumes "text_extents_ok te"
  shows "boxes_overlap cu_box_at alu_body_at \<and> boxes_overlap ir_box_at cu_box_at \<and>
    boxes_overlap cf_box_at alu_body_at \<and> boxes_overlap cf_box_at cu_box_at \<and>
    (\<exists>ss. construct_trace (script_layout te) init_scene = Inr ss \<and>
      map (\<lambda>s. ir_reg \<in> set (mobjects s) \<and> control_unit \<in> set (mobjects s) \<and> alu \<in> set (mobjects s)) ss =
        [False, False, False, False, False, False, False, True, True, True, True, False, False])"
proof -
  obtain ss where tr: "construct_trace (script_layout te) init_scene = Inr ss"
    and m: "map mobjects ss = stage_visible"
    using construct_trace_run [OF script_layout_geometry [OF assms]] by blast
  have "map (\<lambda>s. ir_reg \<in> set (mobjects s) \<and> control_unit \<in> set (mobjects s) \<and> alu \<in> set (mobjects s)) ss =
      map (\<lambda>L. ir_reg \<in> set L \<and> control_unit \<in> set L \<and> alu \<in> set L) stage_visible"
    by (simp flip: m)
  then have v: "map (\<lambda>s. ir_reg \<in> set (mobjects s) \<and> control_unit \<in> set (mobjects s) \<and> alu \<in> set (mobjects s)) ss =
        [False, False, False, False, False, False, False, True, True, True, True, False, False]"
    by (simp add: stage_visible_def mob_defs control_signals_def)
  have g1: "boxes_overlap cu_box_at alu_body_at" and g2: "boxes_overlap ir_box_at cu_box_at"
    and g3: "boxes_overlap cf_box_at alu_body_at" and g4: "boxes_overlap cf_box_at cu_box_at"
    by (simp_all add: boxes_overlap_def cu_box_at_def alu_body_at_def ir_box_at_def memory_box_at_def
        cf_box_at_def)
  have e: "\<exists>ss. construct_trace (script_layout te) init_scene = Inr ss \<and>
      map (\<lambda>s. ir_reg \<in> set (mobjects s) \<and> control_unit \<in> set (mobjects s) \<and> alu \<in> set (mobjects s)) ss =
        [False, False, False, False, False, False, False, True, True, True, True, False, False]"
    by (rule exI [of _ ss], rule conjI [OF tr v])
  show ?thesis
    by (rule conjI [OF g1 conjI [OF g2 conjI [OF g3 conjI [OF g4 e]]]])
qed

theorem layout_collisions_witness:
  "text_extents_ok (\<lambda>_. (1, 1/2)) \<and>
   boxes_overlap cu_box_at alu_body_at \<and> boxes_overlap ir_box_at cu_box_at \<and>
   boxes_overlap cf_box_at alu_body_at \<and> boxes_overlap cf_box_at cu_box_at \<and>
   (\<exists>ss. construct_trace (script_layout (\<lambda>_. (1, 1/2))) init_scene = Inr ss \<and>
      map (\<lambda>s. ir_reg \<in> set (mobjects s) \<and> control_unit \<in> set (mobjects s) \<and> alu \<in> set (mobjects s)) ss =
        [False, False, False, False, False, False, False, True, True, True, True, False, False])"
  by (rule conjI [OF unit_extents_ok layout_collisions [OF unit_extents_ok]])

text \<open>C13: At 30 frames a second (line 7) every stage of the run ends on a whole
  frame: the clock after the thirteen stages is 390, 957, 1347, 1347, 1662,
  1896, 1896, 2190, 2790, 3129, 3609, 4104 and 4614 frames, so the video is
  4614 frames long, and the memory set-up and the ALU set-up (stages 4 and 7)
  add no frame at all: they only build objects.\<close>

theorem stages_end_on_frames:
  assumes "text_extents_ok te"
  shows "\<exists>ss. construct_trace (script_layout te) init_scene = Inr ss \<and>
    map (\<lambda>s. time s * of_nat frame_rate) ss =
      map of_nat [390, 957, 1347, 1347, 1662, 1896, 1896, 2190, 2790, 3129, 3609, 4104, 4614]"
proof -
  obtain ss where tr: "construct_trace (script_layout te) init_scene = Inr ss"
    and t: "map time ss = stage_times"
    using construct_trace_run [OF script_layout_geometry [OF assms]] by blast
  have "map (\<lambda>s. time s * of_nat frame_rate) ss = map (\<lambda>x. x * of_nat frame_rate) stage_times"
    by (simp flip: t)
  then have f: "map (\<lambda>s. time s * of_nat frame_rate) ss =
      map of_nat [390, 957, 1347, 1347, 1662, 1896, 1896, 2190, 2790, 3129, 3609, 4104, 4614]"
    by (simp add: stage_times_def frame_rate_def)
  show ?thesis
    by (rule exI [of _ ss], rule conjI [OF tr f])
qed

theorem stages_end_on_frames_witness:
  "text_extents_ok (\<lambda>_. (1, 1/2)) \<and>
   (\<exists>ss. construct_trace (script_layout (\<lambda>_. (1, 1/2))) init_scene = Inr ss \<and>
    map (\<lambda>s. time s * of_nat frame_rate) ss =
      map of_nat [390, 957, 1347, 1347, 1662, 1896, 1896, 2190, 2790, 3129, 3609, 4104, 4614])"
  by (rule conjI [OF unit_extents_ok stages_end_on_frames [OF unit_extents_ok]])

end
